theory Spec2Isabelle
  imports Complex_Main "HOL-Library.Multiset"
begin

section \<open>JavaScript values and objects\<close>

text \<open>
  The model follows \<^verbatim>\<open>leaflet.wms.js\<close>. JavaScript numbers are IEEE doubles; the code
  never computes with them, it only stores them, tests their truthiness and converts them
  to strings. They are modelled by their exact values: every finite double is a rational
  (\<open>-0\<close> is identified with \<open>0\<close>). A string of the model is the UTF-8 encoding of the
  JavaScript string, one \<open>char\<close> for each byte.
\<close>

datatype jsnum = NaN | PosInf | NegInf | Fin rat

type_synonym latlng = "jsnum \<times> jsnum"  \<comment> \<open>\<open>L.LatLng\<close>: \<open>(lat, lng)\<close>\<close>
type_synonym point = "jsnum \<times> jsnum"   \<comment> \<open>\<open>L.Point\<close>: \<open>(x, y)\<close>\<close>

text \<open>
  A coordinate reference system of the host library: \<open>crs.code\<close> (absent on
  \<open>L.CRS.Simple\<close>), \<open>crs.project\<close>, and whether the object is the singleton
  \<open>L.CRS.EPSG4326\<close> (what \<open>crs === L.CRS.EPSG4326\<close> tests).
\<close>

record crs =
  code :: "string option"
  is_EPSG4326 :: bool
  project :: "latlng \<Rightarrow> point"

datatype jsval = Undefined | Bool bool | Num jsnum | Str string | Fun nat | Crs crs

datatype error = TypeError

text \<open>
  An object is a plain object, whose prototype is \<open>Object.prototype\<close>: the list of its
  own enumerable properties in insertion order, with pairwise distinct keys.
\<close>

type_synonym 'v jsobj = "(string \<times> 'v) list"

definition wf_obj :: "'v jsobj \<Rightarrow> bool" where
  "wf_obj obj = distinct (map fst obj)"

text \<open>The own property \<open>k\<close> of \<open>obj\<close> (\<open>None\<close> when it has none).\<close>

definition getProp :: "'v jsobj \<Rightarrow> string \<Rightarrow> 'v option" where
  "getProp obj k = map_of obj k"

text \<open>
  The properties every plain object inherits from \<open>Object.prototype\<close> (ECMAScript with its
  Annex B, as in every browser). Each holds a function, except \<open>__proto__\<close>, an accessor
  that reads as \<open>Object.prototype\<close> itself; so \<open>obj[k]\<close> is truthy for each of these names
  also when \<open>obj\<close> has no own property \<open>k\<close>. None of them is enumerable.
\<close>

definition Object_prototype_names :: "string list" where
  "Object_prototype_names =
     [''constructor'', ''__defineGetter__'', ''__defineSetter__'', ''hasOwnProperty'',
      ''__lookupGetter__'', ''__lookupSetter__'', ''isPrototypeOf'', ''propertyIsEnumerable'',
      ''toString'', ''valueOf'', ''__proto__'', ''toLocaleString'']"

text \<open>
  Writing the own property \<open>k\<close>: an existing property keeps its place, a new one is
  appended.
\<close>

primrec put :: "string \<Rightarrow> 'v \<Rightarrow> 'v jsobj \<Rightarrow> 'v jsobj" where
  "put k v [] = [(k, v)]"
| "put k v (p # ps) = (if fst p = k then (k, v) # ps else p # put k v ps)"

text \<open>
  The assignment \<open>obj[k] = v\<close> writes the own property \<open>k\<close>, except for the name
  \<open>__proto__\<close>: unless \<open>obj\<close> has an own property of that name, the assignment goes to the
  accessor of \<open>Object.prototype\<close> and creates no property (it is ignored for a primitive
  \<open>v\<close>, and replaces the prototype of \<open>obj\<close> for an object \<open>v\<close>, which is outside this model
  of plain objects).
\<close>

definition assign :: "string \<Rightarrow> 'v \<Rightarrow> 'v jsobj \<Rightarrow> 'v jsobj" where
  "assign k v obj = (if k = ''__proto__'' \<and> getProp obj k = None then obj else put k v obj)"

text \<open>\<open>delete obj[k]\<close>.\<close>

definition del :: "string \<Rightarrow> 'v jsobj \<Rightarrow> 'v jsobj" where
  "del k obj = filter (\<lambda>p. fst p \<noteq> k) obj"

text \<open>
  Property enumeration (\<open>for ... in\<close>, \<open>Object.keys\<close>) visits the array-index keys first,
  in ascending numeric order, then the other keys in insertion order. An array index is
  a canonical decimal numeral below \<open>2^32 - 1\<close>.
\<close>

definition isDigit :: "char \<Rightarrow> bool" where
  "isDigit c = (48 \<le> (of_char c :: nat) \<and> (of_char c :: nat) \<le> 57)"

definition digitsValue :: "string \<Rightarrow> nat" where
  "digitsValue s = foldl (\<lambda>a c. 10 * a + ((of_char c :: nat) - 48)) 0 s"

definition isArrayIndex :: "string \<Rightarrow> bool" where
  "isArrayIndex s =
     (s \<noteq> [] \<and> list_all isDigit s \<and> (s = ''0'' \<or> hd s \<noteq> CHR ''0'')
      \<and> length s \<le> 10 \<and> digitsValue s < 4294967295)"

definition ownEntries :: "'v jsobj \<Rightarrow> (string \<times> 'v) list" where
  "ownEntries obj =
     sort_key (\<lambda>p. digitsValue (fst p)) (filter (\<lambda>p. isArrayIndex (fst p)) obj)
     @ filter (\<lambda>p. \<not> isArrayIndex (fst p)) obj"

definition Object_keys :: "'v jsobj \<Rightarrow> string list" where
  "Object_keys obj = map fst (ownEntries obj)"

text \<open>
  \<open>L.extend(dest, src)\<close> of the host library:
  \<^verbatim>\<open>for (i in src) { dest[i] = src[i]; }\<close>
  Leaflet 0.7 guards the assignment by \<open>src.hasOwnProperty(i)\<close>, which holds of every
  name the loop visits unless \<open>src\<close> has an own property named \<open>hasOwnProperty\<close>.
\<close>

definition L_extend :: "'v jsobj \<Rightarrow> 'v jsobj \<Rightarrow> 'v jsobj" where
  "L_extend dest src = foldl (\<lambda>d p. assign (fst p) (snd p) d) dest (ownEntries src)"

text \<open>\<open>Array.prototype.join\<close> on an array of strings.\<close>

fun join :: "string \<Rightarrow> string list \<Rightarrow> string" where
  "join sep [] = []"
| "join sep [x] = x"
| "join sep (x # y # ys) = x @ sep @ join sep (y # ys)"

section \<open>Identifying features: the AJAX helper and the parse hook\<close>

text \<open>
  \<^verbatim>\<open>function change() {
      if (request.readyState === 4) {
          if (request.status === 200) { callback.call(context, request.responseText); }
          else { callback.call(context, "error"); }
      }
  }\<close>
  The result is the argument the callback is called with, \<open>None\<close> when it is not called.
  A network failure is a completed request of status 0.
\<close>

definition ajax_change :: "nat \<Rightarrow> nat \<Rightarrow> string \<Rightarrow> string option" where
  "ajax_change readyState status responseText =
     (if readyState = 4
      then (if status = 200 then Some responseText else Some ''error'')
      else None)"

definition iframe :: "string \<Rightarrow> string" where
  "iframe url = ''<iframe src='' @ [CHR 0x27] @ url @ [CHR 0x27] @ '' style='' @ [CHR 0x27] @ ''border:none'' @ [CHR 0x27] @ ''>''"

definition parseFeatureInfo :: "string \<Rightarrow> string \<Rightarrow> string" where
  "parseFeatureInfo result url = (if result = ''error'' then iframe url else result)"


section \<open>Conversions of the language\<close>

text \<open>
  What the host environment supplies and the code only calls: the digits of a number
  that is not a small integer, the source text of a function, the value a function of
  the application returns for given arguments (such a function is taken to change no
  object of the model), \<open>L.Util.getParamString(obj, existingUrl, uppercase)\<close>, and the
  \<open>src\<close> an image element reports after it was given a URL (the URL resolved against the
  document and serialised again). They are parameters of the model.
\<close>

record host =
  numToString :: "rat \<Rightarrow> string"
  funToString :: "nat \<Rightarrow> string"
  callFun :: "nat \<Rightarrow> jsval list \<Rightarrow> jsval"
  getParamString :: "jsval jsobj \<Rightarrow> string \<Rightarrow> bool \<Rightarrow> string"
  imageSrc :: "string \<Rightarrow> string"

fun showNat :: "nat \<Rightarrow> string" where
  "showNat n =
     (if n < 10 then [''0123456789'' ! n]
      else showNat (n div 10) @ [''0123456789'' ! (n mod 10)])"

definition showInt :: "int \<Rightarrow> string" where
  "showInt i = (if i < 0 then CHR ''-'' # showNat (nat (- i)) else showNat (nat i))"

text \<open>
  \<open>ToString\<close> of a number. Every integer of magnitude at most \<open>2^53\<close> is a double, so the
  shortest digits that read back as such a number are all of its digits: it prints as
  its plain decimal numeral. The digits of every other finite number come from the host.
\<close>

fun Number_toString :: "host \<Rightarrow> jsnum \<Rightarrow> string" where
  "Number_toString h NaN = ''NaN''"
| "Number_toString h PosInf = ''Infinity''"
| "Number_toString h NegInf = ''-Infinity''"
| "Number_toString h (Fin q) =
     (if q = of_int \<lfloor>q\<rfloor> \<and> \<bar>q\<bar> \<le> 2 ^ 53 then showInt \<lfloor>q\<rfloor> else numToString h q)"

fun ToString :: "host \<Rightarrow> jsval \<Rightarrow> string" where
  "ToString h Undefined = ''undefined''"
| "ToString h (Bool b) = (if b then ''true'' else ''false'')"
| "ToString h (Num n) = Number_toString h n"
| "ToString h (Str s) = s"
| "ToString h (Fun f) = funToString h f"
| "ToString h (Crs c) = ''[object Object]''"

text \<open>\<open>ToBoolean\<close>: what \<open>if (v)\<close>, \<open>!v\<close> and \<open>v || w\<close> test.\<close>

fun truthy :: "jsval \<Rightarrow> bool" where
  "truthy Undefined = False"
| "truthy (Bool b) = b"
| "truthy (Num n) = (n \<noteq> NaN \<and> n \<noteq> Fin 0)"
| "truthy (Str s) = (s \<noteq> [])"
| "truthy (Fun f) = True"
| "truthy (Crs c) = True"

text \<open>
  \<open>obj[k]\<close> for a name \<open>k\<close> that is not inherited (the code reads \<open>version\<close>, \<open>crs\<close>,
  \<open>uppercase\<close>, \<open>opacity\<close>, \<open>tiled\<close>, \<open>onError\<close> and the own names a loop visits): the own
  property, \<open>undefined\<close> when there is none.
\<close>

definition getVal :: "jsval jsobj \<Rightarrow> string \<Rightarrow> jsval" where
  "getVal obj k = (case getProp obj k of None \<Rightarrow> Undefined | Some v \<Rightarrow> v)"

text \<open>
  The white space and line terminators of the language, in UTF-8: U+0009 to U+000D,
  U+0020, U+00A0, U+1680, U+2000 to U+200A, U+2028, U+2029, U+202F, U+205F, U+3000 and
  U+FEFF. The last entry reads a byte \<open>A0\<close> that stands alone, which no UTF-8 string
  has at the start of a character, as U+00A0 too.
\<close>

definition whiteSpace :: "string list" where
  "whiteSpace =
     [[CHR 0x09], [CHR 0x0A], [CHR 0x0B], [CHR 0x0C], [CHR 0x0D], [CHR 0x20],
      [CHR 0xC2, CHR 0xA0], [CHR 0xE1, CHR 0x9A, CHR 0x80],
      [CHR 0xE2, CHR 0x80, CHR 0x80], [CHR 0xE2, CHR 0x80, CHR 0x81],
      [CHR 0xE2, CHR 0x80, CHR 0x82], [CHR 0xE2, CHR 0x80, CHR 0x83],
      [CHR 0xE2, CHR 0x80, CHR 0x84], [CHR 0xE2, CHR 0x80, CHR 0x85],
      [CHR 0xE2, CHR 0x80, CHR 0x86], [CHR 0xE2, CHR 0x80, CHR 0x87],
      [CHR 0xE2, CHR 0x80, CHR 0x88], [CHR 0xE2, CHR 0x80, CHR 0x89],
      [CHR 0xE2, CHR 0x80, CHR 0x8A], [CHR 0xE2, CHR 0x80, CHR 0xA8],
      [CHR 0xE2, CHR 0x80, CHR 0xA9], [CHR 0xE2, CHR 0x80, CHR 0xAF],
      [CHR 0xE2, CHR 0x81, CHR 0x9F], [CHR 0xE3, CHR 0x80, CHR 0x80],
      [CHR 0xEF, CHR 0xBB, CHR 0xBF], [CHR 0xA0]]"

text \<open>
  Dropping the leading white space: at most as many characters as the string has bytes.
\<close>

primrec trimSteps :: "nat \<Rightarrow> string \<Rightarrow> string" where
  "trimSteps 0 s = s"
| "trimSteps (Suc n) s =
     (case find (\<lambda>ws. take (length ws) s = ws) whiteSpace of
        None \<Rightarrow> s
      | Some ws \<Rightarrow> trimSteps n (drop (length ws) s))"

definition trimStart :: "string \<Rightarrow> string" where
  "trimStart s = trimSteps (length s) s"

text \<open>
  \<open>parseFloat\<close> reads the longest prefix of the trimmed string that is a decimal literal
  (\<open>Infinity\<close>, digits with an optional fraction and exponent, an optional sign first) and
  gives \<open>NaN\<close> when there is none. Here the result is the exact value of that literal;
  JavaScript returns the double nearest to it.
\<close>

definition exponentPart :: "string \<Rightarrow> int" where
  "exponentPart s =
     (case s of
        [] \<Rightarrow> 0
      | c # r \<Rightarrow>
          if c = CHR ''e'' \<or> c = CHR ''E'' then
            (case r of
               [] \<Rightarrow> 0
             | d # r' \<Rightarrow>
                 if d = CHR ''-'' then - int (digitsValue (takeWhile isDigit r'))
                 else if d = CHR ''+'' then int (digitsValue (takeWhile isDigit r'))
                 else int (digitsValue (takeWhile isDigit r)))
          else 0)"

definition pow10 :: "int \<Rightarrow> rat" where
  "pow10 e = (if 0 \<le> e then 10 ^ nat e else 1 / 10 ^ nat (- e))"

definition parseFloat :: "string \<Rightarrow> jsnum" where
  "parseFloat str =
     (let s = trimStart str;
          neg = (s \<noteq> [] \<and> hd s = CHR ''-'');
          s1 = (if s \<noteq> [] \<and> (hd s = CHR ''-'' \<or> hd s = CHR ''+'') then tl s else s)
      in if take 8 s1 = ''Infinity'' then (if neg then NegInf else PosInf)
         else
           let ip = takeWhile isDigit s1;
               r1 = dropWhile isDigit s1;
               dot = (r1 \<noteq> [] \<and> hd r1 = CHR ''.'');
               fp = (if dot then takeWhile isDigit (tl r1) else []);
               r2 = (if dot then dropWhile isDigit (tl r1) else r1);
               m = of_nat (digitsValue (ip @ fp)) * pow10 (exponentPart r2 - int (length fp))
           in if ip = [] \<and> fp = [] then NaN else Fin (if neg then - m else m))"

text \<open>
  \<open>wmsVersion >= 1.3\<close>, both sides doubles. The double \<open>1.3\<close> is
  \<open>5854679515581645 / 2^52\<close>, its predecessor \<open>5854679515581644 / 2^52\<close> has the even
  mantissa. Rounding to nearest (ties to even) is monotone, so the double nearest to a
  value \<open>m\<close> is at least the double \<open>1.3\<close> exactly when \<open>m\<close> lies above the midpoint of the
  two, \<open>11709359031163289 / 2^53\<close>.
\<close>

fun ge_1_3 :: "jsnum \<Rightarrow> bool" where
  "ge_1_3 NaN = False"
| "ge_1_3 PosInf = True"
| "ge_1_3 NegInf = False"
| "ge_1_3 (Fin m) = (11709359031163289 / 9007199254740992 < m)"

section \<open>wms.Overlay: construction\<close>

definition optNames :: "string list" where
  "optNames = [''crs'', ''uppercase'', ''tiled'', ''identify'', ''opacity'', ''attribution'']"

definition defaultWmsParams :: "jsval jsobj" where
  "defaultWmsParams =
     [(''service'', Str ''WMS''), (''request'', Str ''GetMap''), (''version'', Str ''1.1.1''),
      (''layers'', Str []), (''styles'', Str []), (''format'', Str ''image/jpeg''),
      (''transparent'', Bool False)]"

text \<open>
  The fields of a \<open>wms.Overlay\<close>: \<open>_url\<close>, \<open>options\<close>, \<open>wmsParams\<close>, \<open>onError\<close>
  (\<open>Undefined\<close> while never assigned), whether \<open>_map\<close> is set, \<open>_currentUrl\<close> and
  \<open>_currentOverlay\<close> (\<open>None\<close> while unset or deleted; the image is named by its index in
  the list of images created so far).
\<close>

record Overlay =
  ov_url :: string
  ov_options :: "jsval jsobj"
  wmsParams :: "jsval jsobj"
  onError :: jsval
  ov_map :: bool
  currentUrl :: "string option"
  currentOverlay :: "nat option"

text \<open>
  \<^verbatim>\<open>for (var opt in options) {
       if (options.hasOwnProperty(opt) && !optNames[opt]) {
           params[opt] = options[opt];
           delete options[opt];
       }
  }\<close>
  \<open>options.hasOwnProperty\<close> is the function of \<open>Object.prototype\<close> unless \<open>options\<close> has
  an own property of that name, which is then what is called; calling a value that is
  not a function raises a TypeError. \<open>optNames[opt]\<close> is truthy for the six names of the
  table and for the names \<open>optNames\<close> inherits.
\<close>

definition hasOwnProperty :: "host \<Rightarrow> jsval jsobj \<Rightarrow> string \<Rightarrow> error + bool" where
  "hasOwnProperty h obj k =
     (case getProp obj ''hasOwnProperty'' of
        None \<Rightarrow> Inr (getProp obj k \<noteq> None)
      | Some (Fun f) \<Rightarrow> Inr (truthy (callFun h f [Str k]))
      | Some _ \<Rightarrow> Inl TypeError)"

definition optNames_has :: "string \<Rightarrow> bool" where
  "optNames_has opt = (opt \<in> set optNames \<or> opt \<in> set Object_prototype_names)"

text \<open>
  The loop over the names \<open>for ... in\<close> enumerates; its state is \<open>(params, options)\<close>.
\<close>

fun moveParams ::
  "host \<Rightarrow> string list \<Rightarrow> jsval jsobj \<times> jsval jsobj \<Rightarrow> error + (jsval jsobj \<times> jsval jsobj)" where
  "moveParams h [] st = Inr st"
| "moveParams h (opt # opts) st =
     (case hasOwnProperty h (snd st) opt of
        Inl e \<Rightarrow> Inl e
      | Inr own \<Rightarrow>
          moveParams h opts
            (if own \<and> \<not> optNames_has opt
             then (put opt (getVal (snd st) opt) (fst st), del opt (snd st))
             else st))"

text \<open>
  \<open>initialize(url, options)\<close>; \<open>options\<close> is \<open>None\<close> when the argument is omitted. The
  result is the new overlay and the caller's options object as the constructor leaves it.
  \<open>L.setOptions(this, options)\<close> stores a copy of the remaining options.
\<close>

definition Overlay_initialize ::
  "host \<Rightarrow> string \<Rightarrow> jsval jsobj option \<Rightarrow> error + (Overlay \<times> jsval jsobj option)" where
  "Overlay_initialize h url options =
     (case options of
        None \<Rightarrow>
          Inr (\<lparr>ov_url = url, ov_options = [],
                wmsParams = L_extend (L_extend [] defaultWmsParams) [],
                onError = Undefined, ov_map = False, currentUrl = None, currentOverlay = None\<rparr>,
               None)
      | Some opts \<Rightarrow>
          (case moveParams h (Object_keys opts) ([], opts) of
             Inl e \<Rightarrow> Inl e
           | Inr st \<Rightarrow>
               Inr (\<lparr>ov_url = url, ov_options = L_extend [] (snd st),
                     wmsParams = L_extend (L_extend [] defaultWmsParams) (fst st),
                     onError = (if truthy (getVal opts ''onError'') then getVal opts ''onError''
                                else Undefined),
                     ov_map = False, currentUrl = None, currentOverlay = None\<rparr>,
                    Some (snd st))))"

section \<open>The map, the overlay and its images\<close>

text \<open>
  What the map reports when asked: \<open>getBounds().getNorthWest()\<close>,
  \<open>getBounds().getSouthEast()\<close>, \<open>getSize()\<close> and \<open>options.crs\<close>.
\<close>

record View =
  getNorthWest :: latlng
  getSouthEast :: latlng
  getSize :: point
  map_crs :: crs

text \<open>
  An \<open>L.ImageOverlay\<close> made by \<open>update\<close>: its \<open>_url\<close> (which its image element is given
  as \<open>src\<close>), its bounds, its opacity, and whether the \<open>once('load', _swap)\<close> listener is
  still registered. Creating one and adding it to the map is what requests the image.
\<close>

record ImageOverlay =
  img_url :: string
  img_bounds :: "latlng \<times> latlng"
  img_opacity :: jsval
  once_load :: bool

text \<open>The layers this code puts on the map (\<open>map._layers\<close>).\<close>

datatype layer = SourceLayer | OverlayLayer | ImageLayer nat

text \<open>The fields of a \<open>wms.Source\<close> (in overlay mode, \<open>tiled\<close> false).\<close>

record Source =
  src_url :: string
  subLayers :: "bool jsobj"
  src_options :: "jsval jsobj"
  src_map :: bool

text \<open>
  One map with one source and its overlay. \<open>onError_calls\<close> logs the calls of the error
  callback (the function, and the \<open>error\<close> and \<open>url\<close> fields of its argument), \<open>cursor\<close> is
  \<open>map._container.style.cursor\<close>, \<open>popup\<close> what \<open>map.openPopup\<close> was last given.
\<close>

record world =
  source :: Source
  overlay :: Overlay
  images :: "ImageOverlay list"
  map_layers :: "layer list"
  view :: View
  onError_calls :: "(nat \<times> string \<times> string) list"
  cursor :: string
  popup :: "(string \<times> latlng) option"

text \<open>
  \<open>map.addLayer\<close> and \<open>map.removeLayer\<close> of the host library on an image overlay: a layer
  already on the map is not added again, a layer not on the map is not removed.
\<close>

definition hasLayer :: "world \<Rightarrow> layer \<Rightarrow> bool" where
  "hasLayer w l = (l \<in> set (map_layers w))"

definition addImage :: "nat \<Rightarrow> world \<Rightarrow> world" where
  "addImage i w =
     (if hasLayer w (ImageLayer i) then w
      else w\<lparr>map_layers := map_layers w @ [ImageLayer i]\<rparr>)"

definition removeImage :: "nat \<Rightarrow> world \<Rightarrow> world" where
  "removeImage i w = w\<lparr>map_layers := removeAll (ImageLayer i) (map_layers w)\<rparr>"

section \<open>wms.Overlay: update\<close>

text \<open>
  \<open>updateWmsParams\<close> for \<open>map = this._map\<close>, variable by variable:
  \<^verbatim>\<open>var wmsVersion = parseFloat(this.wmsParams.version);
  var crs = this.options.crs || map.options.crs;
  var projectionKey = wmsVersion >= 1.3 ? 'crs' : 'srs';
  var nw = crs.project(bounds.getNorthWest());
  var se = crs.project(bounds.getSouthEast());
  var params = {'width': size.x, 'height': size.y};
  params[projectionKey] = crs.code;
  params.bbox = (wmsVersion >= 1.3 && crs === L.CRS.EPSG4326 ?
                 [se.y, nw.x, nw.y, se.x] : [nw.x, se.y, se.x, nw.y]).join(',');
  L.extend(this.wmsParams, params);\<close>
  \<open>crs.project\<close> on a value that is not a CRS object raises a TypeError.
\<close>

definition wmsVersion :: "host \<Rightarrow> world \<Rightarrow> jsnum" where
  "wmsVersion h w = parseFloat (ToString h (getVal (wmsParams (overlay w)) ''version''))"

definition crs_value :: "world \<Rightarrow> jsval" where
  "crs_value w =
     (if truthy (getVal (ov_options (overlay w)) ''crs'')
      then getVal (ov_options (overlay w)) ''crs''
      else Crs (map_crs (view w)))"

definition projectionKey :: "host \<Rightarrow> world \<Rightarrow> string" where
  "projectionKey h w = (if ge_1_3 (wmsVersion h w) then ''crs'' else ''srs'')"

definition bbox :: "host \<Rightarrow> world \<Rightarrow> crs \<Rightarrow> string" where
  "bbox h w c =
     (let nw = project c (getNorthWest (view w));
          se = project c (getSouthEast (view w))
      in join '','' (map (Number_toString h)
           (if ge_1_3 (wmsVersion h w) \<and> is_EPSG4326 c
            then [snd se, fst nw, snd nw, fst se]
            else [fst nw, snd se, fst se, snd nw])))"

definition spatial_params :: "host \<Rightarrow> world \<Rightarrow> crs \<Rightarrow> jsval jsobj" where
  "spatial_params h w c =
     put ''bbox'' (Str (bbox h w c))
       (put (projectionKey h w) (case code c of None \<Rightarrow> Undefined | Some s \<Rightarrow> Str s)
          [(''width'', Num (fst (getSize (view w)))), (''height'', Num (snd (getSize (view w))))])"

definition updateWmsParams :: "host \<Rightarrow> world \<Rightarrow> error + world" where
  "updateWmsParams h w =
     (case crs_value w of
        Crs c \<Rightarrow>
          Inr (w\<lparr>overlay := (overlay w)\<lparr>wmsParams := L_extend (wmsParams (overlay w)) (spatial_params h w c)\<rparr>\<rparr>)
      | _ \<Rightarrow> Inl TypeError)"

definition getImageUrl :: "host \<Rightarrow> world \<Rightarrow> string" where
  "getImageUrl h w =
     ov_url (overlay w)
     @ getParamString h (wmsParams (overlay w)) (ov_url (overlay w))
         (truthy (getVal (ov_options (overlay w)) ''uppercase''))"

text \<open>
  \<open>update\<close>. When the URL has changed, \<open>requestImage\<close> is the rest of the function: it
  records the URL in \<open>_currentUrl\<close> and adds \<open>L.imageOverlay(url, bounds, {'opacity': 0})\<close>
  to the map, with its \<open>load\<close> and \<open>error\<close> listeners.
\<close>

definition requestImage :: "string \<Rightarrow> world \<Rightarrow> world" where
  "requestImage url w =
     addImage (length (images w))
       (w\<lparr>overlay := (overlay w)\<lparr>currentUrl := Some url\<rparr>,
          images := images w @
            [\<lparr>img_url = url,
              img_bounds = (getNorthWest (view w), getSouthEast (view w)),
              img_opacity = Num (Fin 0), once_load = True\<rparr>]\<rparr>)"

definition update :: "host \<Rightarrow> world \<Rightarrow> error + world" where
  "update h w =
     (if \<not> ov_map (overlay w) then Inr w
      else case updateWmsParams h w of
             Inl e \<Rightarrow> Inl e
           | Inr w1 \<Rightarrow>
               (let url = getImageUrl h w1 in
                if currentUrl (overlay w1) = Some url then Inr w1
                else Inr (requestImage url w1)))"

text \<open>
  \<open>_swap\<close>, the \<open>load\<close> listener of image \<open>i\<close> (the \<open>overlay\<close> of the closure):
  \<^verbatim>\<open>if (!this._map) { return; }
  if (overlay._url != this._currentUrl) { this._map.removeLayer(overlay); return; }
  else if (this._currentOverlay) { this._map.removeLayer(this._currentOverlay); }
  this._currentOverlay = overlay;
  overlay.setOpacity(this.options.opacity ? this.options.opacity : 1);\<close>
\<close>

definition setOpacity :: "nat \<Rightarrow> jsval \<Rightarrow> world \<Rightarrow> world" where
  "setOpacity i v w = w\<lparr>images := (images w)[i := (images w ! i)\<lparr>img_opacity := v\<rparr>]\<rparr>"

definition swap :: "nat \<Rightarrow> world \<Rightarrow> world" where
  "swap i w =
     (if \<not> ov_map (overlay w) then w
      else if Some (img_url (images w ! i)) \<noteq> currentUrl (overlay w) then removeImage i w
      else
        (let w1 = (case currentOverlay (overlay w) of
                     None \<Rightarrow> w
                   | Some j \<Rightarrow> removeImage j w);
             w2 = w1\<lparr>overlay := (overlay w1)\<lparr>currentOverlay := Some i\<rparr>\<rparr>
         in setOpacity i
              (if truthy (getVal (ov_options (overlay w2)) ''opacity'')
               then getVal (ov_options (overlay w2)) ''opacity''
               else Num (Fin 1)) w2))"

text \<open>
  The image of overlay \<open>i\<close> has loaded: the host fires \<open>load\<close>, and a \<open>once\<close> listener runs
  at most once. No event comes from an image that was never created.
\<close>

definition image_load :: "nat \<Rightarrow> world \<Rightarrow> world" where
  "image_load i w =
     (if i < length (images w) \<and> once_load (images w ! i)
      then swap i (w\<lparr>images := (images w)[i := (images w ! i)\<lparr>once_load := False\<rparr>]\<rparr>)
      else w)"

text \<open>
  The image of overlay \<open>i\<close> failed to load; the listener is
  \<^verbatim>\<open>if (this.onError !== undefined) {
      this.onError({error: "Failed to load layer", url: overlay._image.src});
  }\<close>
  Calling a value that is not a function raises a TypeError. The image element was
  given the URL of the overlay; its \<open>src\<close> is what the host reports for it.
\<close>

definition image_error :: "host \<Rightarrow> nat \<Rightarrow> world \<Rightarrow> error + world" where
  "image_error h i w =
     (if i < length (images w) then
        (case onError (overlay w) of
           Undefined \<Rightarrow> Inr w
         | Fun f \<Rightarrow>
             Inr (w\<lparr>onError_calls :=
                    onError_calls w
                    @ [(f, ''Failed to load layer'', imageSrc h (img_url (images w ! i)))]\<rparr>)
         | _ \<Rightarrow> Inl TypeError)
      else Inr w)"

text \<open>\<open>setParams\<close>: \<^verbatim>\<open>L.extend(this.wmsParams, params); this.update();\<close>\<close>

definition mergeParams :: "jsval jsobj \<Rightarrow> world \<Rightarrow> world" where
  "mergeParams params w =
     w\<lparr>overlay := (overlay w)\<lparr>wmsParams := L_extend (wmsParams (overlay w)) params\<rparr>\<rparr>"

definition setParams :: "host \<Rightarrow> jsval jsobj \<Rightarrow> world \<Rightarrow> error + world" where
  "setParams h params w = update h (mergeParams params w)"

text \<open>
  \<open>onAdd\<close> and \<open>onRemove\<close> of the overlay; \<open>L.Layer.prototype.onAdd\<close> sets \<open>_map\<close>,
  \<open>L.Layer.prototype.onRemove\<close> deletes it. \<open>delete this._currentUrl\<close> is guarded by the
  truthiness of the string.
\<close>

definition Overlay_onAdd :: "host \<Rightarrow> world \<Rightarrow> error + world" where
  "Overlay_onAdd h w = update h (w\<lparr>overlay := (overlay w)\<lparr>ov_map := True\<rparr>\<rparr>)"

definition Overlay_onRemove :: "world \<Rightarrow> world" where
  "Overlay_onRemove w =
     (let w1 = (case currentOverlay (overlay w) of
                  None \<Rightarrow> w
                | Some j \<Rightarrow> (removeImage j w)\<lparr>overlay := (overlay w)\<lparr>currentOverlay := None\<rparr>\<rparr>);
          w2 = (case currentUrl (overlay w1) of
                  None \<Rightarrow> w1
                | Some u \<Rightarrow> if u = [] then w1
                            else w1\<lparr>overlay := (overlay w1)\<lparr>currentUrl := None\<rparr>\<rparr>)
      in w2\<lparr>overlay := (overlay w2)\<lparr>ov_map := False\<rparr>\<rparr>)"

text \<open>
  \<open>overlay.addTo(map)\<close> and \<open>map.removeLayer(overlay)\<close> of the host library: adding
  registers the layer and calls its \<open>onAdd\<close>, unless the map has it already; removing calls
  its \<open>onRemove\<close> and unregisters it, unless the map does not have it.
\<close>

definition addOverlay :: "host \<Rightarrow> world \<Rightarrow> error + world" where
  "addOverlay h w =
     (if hasLayer w OverlayLayer then Inr w
      else Overlay_onAdd h (w\<lparr>map_layers := map_layers w @ [OverlayLayer]\<rparr>))"

definition removeOverlay :: "world \<Rightarrow> world" where
  "removeOverlay w =
     (if \<not> hasLayer w OverlayLayer then w
      else (Overlay_onRemove w)\<lparr>map_layers := removeAll OverlayLayer (map_layers (Overlay_onRemove w))\<rparr>)"

section \<open>wms.Source: sub-layers\<close>

definition refreshOverlay :: "host \<Rightarrow> world \<Rightarrow> error + world" where
  "refreshOverlay h w =
     (let subLayers = join '','' (Object_keys (subLayers (source w))) in
      if \<not> src_map (source w) then Inr w
      else if subLayers = [] then Inr (removeOverlay w)
      else case setParams h [(''layers'', Str subLayers)] w of
             Inl e \<Rightarrow> Inl e
           | Inr w1 \<Rightarrow> addOverlay h w1)"

definition addSubLayer :: "host \<Rightarrow> string \<Rightarrow> world \<Rightarrow> error + world" where
  "addSubLayer h name w =
     refreshOverlay h
       (w\<lparr>source := (source w)\<lparr>subLayers := assign name True (subLayers (source w))\<rparr>\<rparr>)"

definition removeSubLayer :: "host \<Rightarrow> string \<Rightarrow> world \<Rightarrow> error + world" where
  "removeSubLayer h name w =
     refreshOverlay h (w\<lparr>source := (source w)\<lparr>subLayers := del name (subLayers (source w))\<rparr>\<rparr>)"

text \<open>A sequence of calls; an exception ends it.\<close>

datatype call = AddSubLayer string | RemoveSubLayer string

fun call_step :: "host \<Rightarrow> call \<Rightarrow> world \<Rightarrow> error + world" where
  "call_step h (AddSubLayer name) w = addSubLayer h name w"
| "call_step h (RemoveSubLayer name) w = removeSubLayer h name w"

fun calls :: "host \<Rightarrow> call list \<Rightarrow> world \<Rightarrow> error + world" where
  "calls h [] w = Inr w"
| "calls h (c # cs) w = (case call_step h c w of Inl e \<Rightarrow> Inl e | Inr w1 \<Rightarrow> calls h cs w1)"

fun call_name :: "call \<Rightarrow> string" where
  "call_name (AddSubLayer name) = name"
| "call_name (RemoveSubLayer name) = name"

text \<open>The set of active sub-layers the calls leave, from the set \<open>A\<close>.\<close>

fun active :: "call list \<Rightarrow> string set \<Rightarrow> string set" where
  "active [] A = A"
| "active (AddSubLayer name # cs) A = active cs (insert name A)"
| "active (RemoveSubLayer name # cs) A = active cs (A - {name})"

text \<open>The object \<open>_subLayers\<close> the calls leave, from the object \<open>sl\<close>.\<close>

fun subLayers_after :: "call list \<Rightarrow> bool jsobj \<Rightarrow> bool jsobj" where
  "subLayers_after [] sl = sl"
| "subLayers_after (AddSubLayer name # cs) sl = subLayers_after cs (assign name True sl)"
| "subLayers_after (RemoveSubLayer name # cs) sl = subLayers_after cs (del name sl)"

text \<open>
  What \<open>refreshOverlay\<close> is meant to establish: with no sub-layers to join the overlay is
  off the map, otherwise it is on the map and its \<open>layers\<close> parameter is the join.
\<close>

definition refreshed :: "world \<Rightarrow> bool" where
  "refreshed w =
     ((if join '','' (Object_keys (subLayers (source w))) = []
       then \<not> hasLayer w OverlayLayer \<and> \<not> ov_map (overlay w)
       else hasLayer w OverlayLayer \<and> ov_map (overlay w)
            \<and> getProp (wmsParams (overlay w)) ''layers''
                = Some (Str (join '','' (Object_keys (subLayers (source w)))))))"

section \<open>Waiting and showing feature information\<close>

definition showWaiting :: "world \<Rightarrow> world" where
  "showWaiting w = (if \<not> src_map (source w) then w else w\<lparr>cursor := ''progress''\<rparr>)"

definition hideWaiting :: "world \<Rightarrow> world" where
  "hideWaiting w = (if \<not> src_map (source w) then w else w\<lparr>cursor := ''default''\<rparr>)"

definition showFeatureInfo :: "latlng \<Rightarrow> string \<Rightarrow> world \<Rightarrow> world" where
  "showFeatureInfo ll info w = (if \<not> src_map (source w) then w else w\<lparr>popup := Some (info, ll)\<rparr>)"

text \<open>
  \<open>done\<close>, the callback \<open>getFeatureInfo\<close> gives to \<open>ajax\<close> for the request at \<open>url\<close>:
  \<^verbatim>\<open>this.hideWaiting();
  var text = this.parseFeatureInfo(result, url);
  callback.call(this, latlng, text);\<close>
  The display hook \<open>callback\<close> is a parameter.
\<close>

definition getFeatureInfo_done ::
  "(latlng \<Rightarrow> string \<Rightarrow> world \<Rightarrow> world) \<Rightarrow> string \<Rightarrow> latlng \<Rightarrow> string \<Rightarrow> world \<Rightarrow> world" where
  "getFeatureInfo_done callback url ll result w =
     callback ll (parseFeatureInfo result url) (hideWaiting w)"

text \<open>A \<open>readystatechange\<close> event of the request at \<open>url\<close>.\<close>

definition ajax_event ::
  "(latlng \<Rightarrow> string \<Rightarrow> world \<Rightarrow> world) \<Rightarrow> string \<Rightarrow> latlng \<Rightarrow> nat \<Rightarrow> nat \<Rightarrow> string \<Rightarrow> world \<Rightarrow> world" where
  "ajax_event callback url ll readyState status responseText w =
     (case ajax_change readyState status responseText of
        None \<Rightarrow> w
      | Some result \<Rightarrow> getFeatureInfo_done callback url ll result w)"

section \<open>wms.Source: construction\<close>

text \<open>
  \<^verbatim>\<open>'options': {'tiled': false, 'identify': true},
  'initialize': function(url, options) {
      this._url = url;
      this._subLayers = {};
      options = L.setOptions(this, options);
      this._overlay = this.createOverlay(url, options);
  }\<close>
  \<open>L.setOptions\<close> makes the options of the source a fresh object, the defaults extended by
  the argument, and returns it. \<open>createOverlay\<close> hands that same object to the constructor
  of the overlay, which deletes from it what it moves; for a truthy \<open>tiled\<close> it hands it to
  \<open>L.tileLayer.wms\<close> of the host library instead, which leaves it alone and whose layer is
  not modelled (\<open>None\<close>).
\<close>

definition Source_options :: "jsval jsobj" where
  "Source_options = [(''tiled'', Bool False), (''identify'', Bool True)]"

definition Source_initialize ::
  "host \<Rightarrow> string \<Rightarrow> jsval jsobj option \<Rightarrow> error + (Source \<times> Overlay option)" where
  "Source_initialize h url options =
     (let opts = L_extend (L_extend [] Source_options) (case options of None \<Rightarrow> [] | Some obj \<Rightarrow> obj)
      in if truthy (getVal opts ''tiled'')
         then Inr (\<lparr>src_url = url, subLayers = [], src_options = opts, src_map = False\<rparr>, None)
         else
           (case Overlay_initialize h url (Some opts) of
              Inl e \<Rightarrow> Inl e
            | Inr r \<Rightarrow>
                Inr (\<lparr>src_url = url, subLayers = [],
                      src_options = (case snd r of None \<Rightarrow> opts | Some left \<Rightarrow> left),
                      src_map = False\<rparr>,
                     Some (fst r))))"

section \<open>The cache of sources\<close>

text \<open>
  \<^verbatim>\<open>var sources = {};
  wms.getSourceForUrl = function(url, options) {
      if (!sources[url]) { sources[url] = wms.source(url, options); }
      return sources[url];
  };\<close>
  Objects are references: \<open>created\<close> lists the sources that \<open>wms.source(url, options)\<close> has
  constructed, each with its overlay, and a source is named by its index there. A source
  object is truthy, and so is what \<open>sources[url]\<close> reads for a name that \<open>sources\<close> inherits:
  then the function constructs nothing and returns that inherited value. When the
  constructor raises, nothing is stored.
\<close>

record registry =
  sources :: "nat jsobj"
  created :: "(Source \<times> Overlay option) list"

datatype found = TheSource nat | Inherited string

definition getSourceForUrl ::
  "host \<Rightarrow> string \<Rightarrow> jsval jsobj option \<Rightarrow> registry \<Rightarrow> error + (found \<times> registry)" where
  "getSourceForUrl h url options r =
     (case getProp (sources r) url of
        Some s \<Rightarrow> Inr (TheSource s, r)
      | None \<Rightarrow>
          if url \<in> set Object_prototype_names then Inr (Inherited url, r)
          else
            (case Source_initialize h url options of
               Inl e \<Rightarrow> Inl e
             | Inr src \<Rightarrow>
                 Inr (TheSource (length (created r)),
                      r\<lparr>sources := put url (length (created r)) (sources r),
                        created := created r @ [src]\<rparr>)))"

text \<open>
  The registry after a sequence of lookups, each given by its URL and its options; a
  lookup that raises leaves the registry as it was.
\<close>

fun lookups :: "host \<Rightarrow> (string \<times> jsval jsobj option) list \<Rightarrow> registry \<Rightarrow> registry" where
  "lookups h [] r = r"
| "lookups h (c # cs) r =
     lookups h cs (case getSourceForUrl h (fst c) (snd c) r of Inl e \<Rightarrow> r | Inr res \<Rightarrow> snd res)"

section \<open>An instance of the host, for the examples\<close>

text \<open>
  \<open>L.Util.getParamString\<close> as the host library defines it:
  \<^verbatim>\<open>for (var i in obj) {
      params.push(encodeURIComponent(uppercase ? i.toUpperCase() : i) + '=' +
                  encodeURIComponent(obj[i]));
  }
  return ((!existingUrl || existingUrl.indexOf('?') === -1) ? '?' : '&') + params.join('&');\<close>
  with the upper case of ASCII letters only.
\<close>

definition hexDigit :: "nat \<Rightarrow> char" where
  "hexDigit n = ''0123456789ABCDEF'' ! n"

definition unreserved :: "char \<Rightarrow> bool" where
  "unreserved c =
     ((48 \<le> (of_char c :: nat) \<and> (of_char c :: nat) \<le> 57)
      \<or> (65 \<le> (of_char c :: nat) \<and> (of_char c :: nat) \<le> 90)
      \<or> (97 \<le> (of_char c :: nat) \<and> (of_char c :: nat) \<le> 122)
      \<or> c \<in> set ''-_.!~*()'' \<or> (of_char c :: nat) = 39)"

definition encodeURIComponent :: "string \<Rightarrow> string" where
  "encodeURIComponent s =
     concat (map (\<lambda>c. if unreserved c then [c]
                       else [CHR ''%'', hexDigit ((of_char c :: nat) div 16),
                             hexDigit ((of_char c :: nat) mod 16)]) s)"

definition toUpperCase :: "string \<Rightarrow> string" where
  "toUpperCase s =
     map (\<lambda>c. case map_of (zip ''abcdefghijklmnopqrstuvwxyz'' ''ABCDEFGHIJKLMNOPQRSTUVWXYZ'') c of
                 None \<Rightarrow> c
               | Some u \<Rightarrow> u) s"

definition Leaflet_getParamString ::
  "(jsval \<Rightarrow> string) \<Rightarrow> jsval jsobj \<Rightarrow> string \<Rightarrow> bool \<Rightarrow> string" where
  "Leaflet_getParamString toStr obj existingUrl uppercase =
     (if existingUrl = [] \<or> CHR ''?'' \<notin> set existingUrl then ''?'' else ''&'')
     @ join ''&''
         (map (\<lambda>p. encodeURIComponent (if uppercase then toUpperCase (fst p) else fst p)
                    @ ''='' @ encodeURIComponent (toStr (snd p)))
            (ownEntries obj))"

text \<open>
  The host of the examples. Their numbers are small integers, their functions are
  written \<open>function(){}\<close> and return \<open>undefined\<close>, and their URLs are absolute and in
  serialised form, so that an image element reports the URL it was given.
\<close>

definition example_conversions :: host where
  "example_conversions =
     \<lparr>numToString = (\<lambda>q. ''0.5''), funToString = (\<lambda>f. ''function(){}''),
      callFun = (\<lambda>f args. Undefined), getParamString = (\<lambda>obj url up. []),
      imageSrc = (\<lambda>url. url)\<rparr>"

definition example_host :: host where
  "example_host =
     example_conversions
       \<lparr>getParamString := Leaflet_getParamString (ToString example_conversions)\<rparr>"

text \<open>
  \<open>L.Projection.LonLat\<close> of the host library maps \<open>(lat, lng)\<close> to the point \<open>(lng, lat)\<close>; it
  is the projection of \<open>L.CRS.EPSG4326\<close>. The second reference system is one of the
  application's own, with the same projection and another code.
\<close>

definition LonLat :: "latlng \<Rightarrow> point" where
  "LonLat ll = (snd ll, fst ll)"

definition CRS_EPSG4326 :: crs where
  "CRS_EPSG4326 = \<lparr>code = Some ''EPSG:4326'', is_EPSG4326 = True, project = LonLat\<rparr>"

definition CRS_Custom :: crs where
  "CRS_Custom = \<lparr>code = Some ''EPSG:32633'', is_EPSG4326 = False, project = LonLat\<rparr>"

text \<open>
  A map of 256 by 128 pixels whose north-west corner projects to \<open>(10, 20)\<close> and whose
  south-east corner projects to \<open>(5, 15)\<close>; the same map after a move; a map whose
  corners project to \<open>(10, 15)\<close> and \<open>(20, 5)\<close>, the box from west 10 and south 5 to east
  20 and north 15; and the first map in the reference system \<open>L.CRS.EPSG4326\<close>.
\<close>

definition example_view :: View where
  "example_view =
     \<lparr>getNorthWest = (Fin 20, Fin 10), getSouthEast = (Fin 15, Fin 5),
      getSize = (Fin 256, Fin 128), map_crs = CRS_Custom\<rparr>"

definition moved_view :: View where
  "moved_view =
     \<lparr>getNorthWest = (Fin 21, Fin 11), getSouthEast = (Fin 16, Fin 6),
      getSize = (Fin 256, Fin 128), map_crs = CRS_Custom\<rparr>"

definition box_view :: View where
  "box_view =
     \<lparr>getNorthWest = (Fin 15, Fin 10), getSouthEast = (Fin 5, Fin 20),
      getSize = (Fin 256, Fin 128), map_crs = CRS_Custom\<rparr>"

definition geographic_view :: View where
  "geographic_view =
     \<lparr>getNorthWest = (Fin 20, Fin 10), getSouthEast = (Fin 15, Fin 5),
      getSize = (Fin 256, Fin 128), map_crs = CRS_EPSG4326\<rparr>"

text \<open>
  A source for \<open>http://example.com/wms\<close> that is on the map, with no sub-layer yet, as
  \<open>wms.source(url, {format: 'image/png', onError: f})\<close> constructs it with its overlay,
  which is not on the map.
\<close>

definition example_world :: world where
  "example_world =
     \<lparr>source = \<lparr>src_url = ''http://example.com/wms'', subLayers = [],
                 src_options = [(''tiled'', Bool False), (''identify'', Bool True)],
                 src_map = True\<rparr>,
      overlay =
        \<lparr>ov_url = ''http://example.com/wms'',
          ov_options = [(''tiled'', Bool False), (''identify'', Bool True)],
          wmsParams =
            [(''service'', Str ''WMS''), (''request'', Str ''GetMap''),
             (''version'', Str ''1.1.1''), (''layers'', Str []),
             (''styles'', Str []), (''format'', Str ''image/png''),
             (''transparent'', Bool False), (''onError'', Fun 0)],
          onError = Fun 0, ov_map = False, currentUrl = None, currentOverlay = None\<rparr>,
      images = [], map_layers = [SourceLayer], view = example_view,
      onError_calls = [], cursor = ''default'', popup = None\<rparr>"

text \<open>
  The same world when the overlay has just been put on the map, before its first
  \<open>update\<close>; after that \<open>update\<close>, which requests image 0; and after the map has then moved
  and \<open>update\<close> has run again, which requests image 1.
\<close>

definition attached_world :: world where
  "attached_world =
     example_world\<lparr>overlay := (overlay example_world)\<lparr>ov_map := True\<rparr>,
                    map_layers := [SourceLayer, OverlayLayer]\<rparr>"

definition loading_world :: world where
  "loading_world =
     (case update example_host attached_world of Inl e \<Rightarrow> attached_world | Inr w \<Rightarrow> w)"

definition moved_world :: world where
  "moved_world =
     (case update example_host (loading_world\<lparr>view := moved_view\<rparr>) of
        Inl e \<Rightarrow> loading_world
      | Inr w \<Rightarrow> w)"

text \<open>
  The example world after \<open>addSubLayer('roads')\<close> and then \<open>removeSubLayer('roads')\<close>; after
  \<open>addSubLayer('')\<close>; and after \<open>addSubLayer('__proto__')\<close>.
\<close>

definition roads_removed_world :: world where
  "roads_removed_world =
     (case calls example_host [AddSubLayer ''roads'', RemoveSubLayer ''roads''] example_world of
        Inl e \<Rightarrow> example_world
      | Inr w \<Rightarrow> w)"

definition unnamed_world :: world where
  "unnamed_world =
     (case calls example_host [AddSubLayer []] example_world of
        Inl e \<Rightarrow> example_world
      | Inr w \<Rightarrow> w)"

definition proto_world :: world where
  "proto_world =
     (case calls example_host [AddSubLayer ''__proto__''] example_world of
        Inl e \<Rightarrow> example_world
      | Inr w \<Rightarrow> w)"

text \<open>
  The example world, whose overlay is not on the map, after
  \<open>setParams({bbox: '0,0,1,1', width: 9999})\<close>, and after \<open>setParams(partial)\<close> for a
  \<open>partial\<close> whose only own property is \<open>__proto__\<close>, with the value \<open>'x'\<close>.
\<close>

definition proto_set_world :: world where
  "proto_set_world =
     (case setParams example_host [(''__proto__'', Str ''x'')] example_world of
        Inl e \<Rightarrow> example_world
      | Inr w \<Rightarrow> w)"

definition detached_set_world :: world where
  "detached_set_world =
     (case setParams example_host [(''bbox'', Str ''0,0,1,1''), (''width'', Num (Fin 9999))]
             example_world of
        Inl e \<Rightarrow> example_world
      | Inr w \<Rightarrow> w)"

text \<open>
  The example world after \<open>updateWmsParams\<close>, and the same with version 1.3.0.
\<close>

definition updated_world :: world where
  "updated_world =
     (case updateWmsParams example_host example_world of
        Inl e \<Rightarrow> example_world
      | Inr w \<Rightarrow> w)"

definition updated_world_130 :: world where
  "updated_world_130 =
     (case updateWmsParams example_host (mergeParams [(''version'', Str ''1.3.0'')] example_world) of
        Inl e \<Rightarrow> example_world
      | Inr w \<Rightarrow> w)"

section \<open>Facts about objects\<close>

lemma map_of_put: "map_of (put k v al) = (map_of al)(k \<mapsto> v)"
  by (induction al) auto

lemma keys_put: "set (map fst (put k v al)) = insert k (set (map fst al))"
  by (induction al) auto

lemma distinct_put: "distinct (map fst al) \<Longrightarrow> distinct (map fst (put k v al))"
  by (induction al) (auto simp: keys_put [simplified])

lemma put_same: "map_of al k = Some v \<Longrightarrow> put k v al = al"
  by (induction al) (auto split: if_splits)

lemma map_of_del: "map_of (del k al) = (map_of al)(k := None)"
  by (induction al) (auto simp: del_def)

lemma keys_del: "set (map fst (del k al)) = set (map fst al) - {k}"
  by (auto simp: del_def)

lemma distinct_del: "distinct (map fst al) \<Longrightarrow> distinct (map fst (del k al))"
  by (simp add: del_def distinct_map_filter)

lemma mset_ownEntries: "mset (ownEntries al) = mset al"
  using multiset_partition [of "mset al" "\<lambda>p. isArrayIndex (fst p)"]
  by (simp add: ownEntries_def)

lemma set_ownEntries: "set (ownEntries al) = set al"
  by (metis mset_ownEntries set_mset_mset)

lemma distinct_ownEntries: "distinct (map fst al) \<Longrightarrow> distinct (map fst (ownEntries al))"
proof -
  assume d: "distinct (map fst al)"
  have "mset (map fst (ownEntries al)) = mset (map fst al)"
    using mset_ownEntries [of al] by (metis mset_map)
  then show ?thesis using d by (metis mset_eq_imp_distinct_iff)
qed

lemma map_of_ownEntries: "distinct (map fst al) \<Longrightarrow> map_of (ownEntries al) = map_of al"
  by (rule map_of_inject_set [THEN iffD2]) (simp_all add: distinct_ownEntries set_ownEntries)

lemma set_Object_keys: "set (Object_keys al) = fst ` set al"
  by (simp add: Object_keys_def set_ownEntries)

lemma distinct_Object_keys: "wf_obj al \<Longrightarrow> distinct (Object_keys al)"
  by (simp add: Object_keys_def wf_obj_def distinct_ownEntries)

lemma assign_put: "k \<noteq> ''__proto__'' \<Longrightarrow> assign k v al = put k v al"
  by (simp add: assign_def)

lemma map_of_assign:
  "map_of (assign k v al) =
     (if k = ''__proto__'' \<and> map_of al k = None then map_of al else (map_of al)(k \<mapsto> v))"
  by (auto simp: assign_def getProp_def map_of_put)

lemma keys_assign: "set (map fst (assign k v al)) \<subseteq> insert k (set (map fst al))"
  using keys_put [of k v al] by (auto simp: assign_def)

lemma distinct_assign: "distinct (map fst al) \<Longrightarrow> distinct (map fst (assign k v al))"
  by (simp add: assign_def distinct_put)

lemma assign_same: "map_of al k = Some v \<Longrightarrow> assign k v al = al"
  by (simp add: assign_def getProp_def put_same)

lemma map_of_foldl_assign:
  "distinct (map fst xs) \<Longrightarrow>
   map_of (foldl (\<lambda>d p. assign (fst p) (snd p) d) d xs) k
     = (if k = ''__proto__'' \<and> map_of d k = None then None
        else case map_of xs k of Some v \<Rightarrow> Some v | None \<Rightarrow> map_of d k)"
proof (induction xs arbitrary: d)
  case Nil
  then show ?case by auto
next
  case (Cons p xs)
  obtain a b where p: "p = (a, b)" by (cases p)
  have d: "distinct (map fst xs)" and fresh: "map_of xs a = None"
    using Cons.prems p by (auto simp: map_of_eq_None_iff)
  show ?case
    using fresh by (auto simp: p Cons.IH [OF d] map_of_assign split: option.splits)
qed

lemma getProp_L_extend_any:
  "wf_obj s \<Longrightarrow>
   getProp (L_extend d s) k
     = (if k = ''__proto__'' \<and> getProp d k = None then None
        else case getProp s k of Some v \<Rightarrow> Some v | None \<Rightarrow> getProp d k)"
  by (auto simp: getProp_def L_extend_def wf_obj_def map_of_foldl_assign distinct_ownEntries
        map_of_ownEntries split: option.splits)

lemma getProp_L_extend:
  assumes "wf_obj s" and "''__proto__'' \<notin> fst ` set s"
  shows "getProp (L_extend d s) k = (case getProp s k of Some v \<Rightarrow> Some v | None \<Rightarrow> getProp d k)"
proof -
  have "getProp s ''__proto__'' = None"
    using assms(2) by (simp add: getProp_def map_of_eq_None_iff)
  then show ?thesis by (auto simp: getProp_L_extend_any [OF assms(1)])
qed

lemma distinct_foldl_assign:
  "distinct (map fst d) \<Longrightarrow> distinct (map fst (foldl (\<lambda>d p. assign (fst p) (snd p) d) d xs))"
  by (induction xs arbitrary: d) (auto simp: distinct_assign)

lemma wf_L_extend: "wf_obj d \<Longrightarrow> wf_obj (L_extend d s)"
  by (simp add: wf_obj_def L_extend_def distinct_foldl_assign)

lemma foldl_assign_same:
  "(\<And>p. p \<in> set xs \<Longrightarrow> assign (fst p) (snd p) d = d) \<Longrightarrow>
   foldl (\<lambda>d p. assign (fst p) (snd p) d) d xs = d"
  by (induction xs) simp_all

lemma L_extend_idem: "wf_obj s \<Longrightarrow> L_extend (L_extend d s) s = L_extend d s"
proof -
  assume wf: "wf_obj s"
  have "assign (fst p) (snd p) (L_extend d s) = L_extend d s" if "p \<in> set (ownEntries s)" for p
  proof (cases "fst p = ''__proto__'' \<and> getProp (L_extend d s) (fst p) = None")
    case True
    then show ?thesis by (auto simp: assign_def)
  next
    case False
    from that have m: "getProp s (fst p) = Some (snd p)"
      using wf by (simp add: set_ownEntries wf_obj_def getProp_def)
    have "getProp (L_extend d s) (fst p) = Some (snd p)"
    proof (cases "fst p = ''__proto__''")
      case True
      with False obtain u where u: "getProp (L_extend d s) ''__proto__'' = Some u" by auto
      then have "\<not> (getProp d ''__proto__'' = None)"
        by (auto simp: getProp_L_extend_any [OF wf] split: if_splits)
      then show ?thesis using m True by (auto simp: getProp_L_extend_any [OF wf])
    next
      case False
      then show ?thesis using m by (simp add: getProp_L_extend_any [OF wf])
    qed
    then show ?thesis by (simp add: assign_same getProp_def)
  qed
  then show ?thesis
    unfolding L_extend_def [of "L_extend d s" s] by (rule foldl_assign_same)
qed

lemma L_extend_Nil: "L_extend d [] = d"
  by (simp add: L_extend_def ownEntries_def)

lemma put_new: "k \<notin> fst ` set al \<Longrightarrow> put k v al = al @ [(k, v)]"
  by (induction al) auto

lemma map_of_filter_key:
  "map_of (filter (\<lambda>p. Q (fst p)) al) k = (if Q k then map_of al k else None)"
  by (induction al) auto

lemma wf_defaultWmsParams: "wf_obj defaultWmsParams"
  by (simp add: wf_obj_def defaultWmsParams_def)

lemma getProp_L_extend_empty:
  "wf_obj s \<Longrightarrow> ''__proto__'' \<notin> fst ` set s \<Longrightarrow> getProp (L_extend [] s) k = getProp s k"
  using getProp_L_extend [of s "[]" k] by (simp add: getProp_def split: option.splits)

lemma defaultWmsParams_keys: "''__proto__'' \<notin> fst ` set defaultWmsParams"
  by (simp add: defaultWmsParams_def)

lemma wf_filter: "wf_obj al \<Longrightarrow> wf_obj (filter P al)"
  by (simp add: wf_obj_def distinct_map_filter)

lemma wf_ownEntries: "wf_obj al \<Longrightarrow> wf_obj (ownEntries al)"
  by (simp add: wf_obj_def distinct_ownEntries)

section \<open>Properties of the spatial parameters\<close>

lemma projectionKey_cases: "projectionKey h w = ''crs'' \<or> projectionKey h w = ''srs''"
  by (simp add: projectionKey_def)

lemma wf_spatial_params: "wf_obj (spatial_params h w c)"
  using projectionKey_cases [of h w] by (auto simp: spatial_params_def wf_obj_def)

lemma spatial_params_keys: "''__proto__'' \<notin> fst ` set (spatial_params h w c)"
  using projectionKey_cases [of h w] keys_put [of "''bbox''"] keys_put [of "projectionKey h w"]
  by (auto simp: spatial_params_def)

lemma getProp_spatial_params:
  "getProp (spatial_params h w c) k =
     (if k = ''bbox'' then Some (Str (bbox h w c))
      else if k = projectionKey h w then Some (case code c of None \<Rightarrow> Undefined | Some s \<Rightarrow> Str s)
      else if k = ''width'' then Some (Num (fst (getSize (view w))))
      else if k = ''height'' then Some (Num (snd (getSize (view w))))
      else None)"
  using projectionKey_cases [of h w]
  by (auto simp: spatial_params_def getProp_def map_of_put)

lemma updateWmsParams_Crs:
  "crs_value w = Crs c \<Longrightarrow>
   updateWmsParams h w = Inr (mergeParams (spatial_params h w c) w)"
  by (simp add: updateWmsParams_def mergeParams_def)

lemma updateWmsParams_Inr:
  "updateWmsParams h w = Inr w1 \<Longrightarrow> \<exists>c. crs_value w = Crs c"
  by (cases "crs_value w") (simp_all add: updateWmsParams_def)

lemma getProp_mergeParams:
  "wf_obj params \<Longrightarrow> ''__proto__'' \<notin> fst ` set params \<Longrightarrow>
   getProp (wmsParams (overlay (mergeParams params w))) k
     = (case getProp params k of Some v \<Rightarrow> Some v | None \<Rightarrow> getProp (wmsParams (overlay w)) k)"
  by (simp add: mergeParams_def getProp_L_extend)

lemma mergeParams_frame [simp]:
  "view (mergeParams params w) = view w"
  "ov_options (overlay (mergeParams params w)) = ov_options (overlay w)"
  "ov_map (overlay (mergeParams params w)) = ov_map (overlay w)"
  "ov_url (overlay (mergeParams params w)) = ov_url (overlay w)"
  "currentUrl (overlay (mergeParams params w)) = currentUrl (overlay w)"
  "currentOverlay (overlay (mergeParams params w)) = currentOverlay (overlay w)"
  "onError (overlay (mergeParams params w)) = onError (overlay w)"
  "images (mergeParams params w) = images w"
  "map_layers (mergeParams params w) = map_layers w"
  "source (mergeParams params w) = source w"
  "crs_value (mergeParams params w) = crs_value w"
  by (simp_all add: mergeParams_def crs_value_def)

lemma getProp_after_update_params:
  "getProp (wmsParams (overlay (mergeParams (spatial_params h w c) w))) k =
     (if k = ''bbox'' then Some (Str (bbox h w c))
      else if k = projectionKey h w then Some (case code c of None \<Rightarrow> Undefined | Some s \<Rightarrow> Str s)
      else if k = ''width'' then Some (Num (fst (getSize (view w))))
      else if k = ''height'' then Some (Num (snd (getSize (view w))))
      else getProp (wmsParams (overlay w)) k)"
  by (simp add: getProp_mergeParams [OF wf_spatial_params spatial_params_keys]
        getProp_spatial_params)

section \<open>Evaluating the examples\<close>

lemmas version_defs =
  wmsVersion_def parseFloat_def trimStart_def whiteSpace_def exponentPart_def pow10_def
  isDigit_def digitsValue_def

lemma example_overlay: "overlay example_world = \<lparr>ov_url = ''http://example.com/wms'',
    ov_options = [(''tiled'', Bool False), (''identify'', Bool True)],
    wmsParams =
      [(''service'', Str ''WMS''), (''request'', Str ''GetMap''),
       (''version'', Str ''1.1.1''), (''layers'', Str []),
       (''styles'', Str []), (''format'', Str ''image/png''),
       (''transparent'', Bool False), (''onError'', Fun 0)],
    onError = Fun 0, ov_map = False, currentUrl = None,
    currentOverlay = None\<rparr>"
  by (simp add: example_world_def)

lemma example_view: "view example_world = example_view"
  by (simp add: example_world_def)

lemma example_crs_value: "crs_value example_world = Crs CRS_Custom"
  by (simp add: crs_value_def example_overlay example_view example_view_def getVal_def getProp_def)

lemma example_corners:
  "project CRS_Custom (getNorthWest (view example_world)) = (Fin 10, Fin 20)"
  "project CRS_Custom (getSouthEast (view example_world)) = (Fin 5, Fin 15)"
  by (simp_all add: example_view example_view_def CRS_Custom_def LonLat_def)

lemma example_version: "wmsVersion example_host example_world = Fin (11 / 10)"
  by (simp add: wmsVersion_def example_overlay getVal_def getProp_def)
     (simp add: version_defs)

lemma example_version_130:
  "wmsVersion example_host (mergeParams [(''version'', Str ''1.3.0'')] example_world) = Fin (13 / 10)"
  by (simp add: wmsVersion_def getVal_def getProp_mergeParams wf_obj_def)
     (simp add: getProp_def version_defs)

lemma attached_overlay:
  "overlay attached_world = (overlay example_world)\<lparr>ov_map := True\<rparr>"
  "view attached_world = example_view"
  "images attached_world = []"
  "map_layers attached_world = [SourceLayer, OverlayLayer]"
  "source attached_world = source example_world"
  by (simp_all add: attached_world_def example_world_def)

lemma attached_crs_value: "crs_value attached_world = Crs CRS_Custom"
  by (simp add: crs_value_def attached_overlay example_overlay example_view_def getVal_def getProp_def)

lemma CRS_Custom_fields:
  "code CRS_Custom = Some ''EPSG:32633''"
  "is_EPSG4326 CRS_Custom = False"
  "project CRS_Custom = LonLat"
  by (simp_all add: CRS_Custom_def)

section \<open>Properties of update\<close>

lemma update_detached: "\<not> ov_map (overlay w) \<Longrightarrow> update h w = Inr w"
  by (simp add: update_def)

lemma update_attached:
  assumes "ov_map (overlay w)" and "crs_value w = Crs c"
  shows "update h w =
     (if currentUrl (overlay w) = Some (getImageUrl h (mergeParams (spatial_params h w c) w))
      then Inr (mergeParams (spatial_params h w c) w)
      else Inr (requestImage (getImageUrl h (mergeParams (spatial_params h w c) w))
             (mergeParams (spatial_params h w c) w)))"
  using assms by (simp add: update_def updateWmsParams_Crs Let_def requestImage_def)

lemma update_Inr_crs:
  "update h w = Inr w' \<Longrightarrow> ov_map (overlay w) \<Longrightarrow> \<exists>c. crs_value w = Crs c"
  by (cases "updateWmsParams h w") (auto simp: update_def dest: updateWmsParams_Inr)

lemma requestImage_frame [simp]:
  "view (requestImage url w) = view w"
  "ov_options (overlay (requestImage url w)) = ov_options (overlay w)"
  "wmsParams (overlay (requestImage url w)) = wmsParams (overlay w)"
  "ov_map (overlay (requestImage url w)) = ov_map (overlay w)"
  "ov_url (overlay (requestImage url w)) = ov_url (overlay w)"
  "currentUrl (overlay (requestImage url w)) = Some url"
  "currentOverlay (overlay (requestImage url w)) = currentOverlay (overlay w)"
  "onError (overlay (requestImage url w)) = onError (overlay w)"
  "source (requestImage url w) = source w"
  "length (images (requestImage url w)) = Suc (length (images w))"
  "crs_value (requestImage url w) = crs_value w"
  by (simp_all add: requestImage_def addImage_def crs_value_def)

lemma wmsParams_mergeParams:
  "wmsParams (overlay (mergeParams params w)) = L_extend (wmsParams (overlay w)) params"
  by (simp add: mergeParams_def)

lemma getImageUrl_cong:
  "ov_url (overlay w) = ov_url (overlay w') \<Longrightarrow> wmsParams (overlay w) = wmsParams (overlay w') \<Longrightarrow>
   ov_options (overlay w) = ov_options (overlay w') \<Longrightarrow> getImageUrl h w = getImageUrl h w'"
  by (simp add: getImageUrl_def)

lemma spatial_params_cong:
  "view w = view w' \<Longrightarrow>
   getProp (wmsParams (overlay w)) ''version'' = getProp (wmsParams (overlay w')) ''version'' \<Longrightarrow>
   spatial_params h w c = spatial_params h w' c"
  by (simp add: spatial_params_def bbox_def projectionKey_def wmsVersion_def getVal_def)

lemma version_after_update_params:
  "getProp (wmsParams (overlay (mergeParams (spatial_params h w c) w))) ''version''
     = getProp (wmsParams (overlay w)) ''version''"
  using projectionKey_cases [of h w] by (auto simp: getProp_after_update_params)

lemma mergeParams_idem:
  "wf_obj params \<Longrightarrow> mergeParams params (mergeParams params w) = mergeParams params w"
  by (simp add: mergeParams_def L_extend_idem)

lemma mergeParams_same:
  "wf_obj params \<Longrightarrow> wmsParams (overlay w) = L_extend d params \<Longrightarrow> mergeParams params w = w"
  by (simp add: mergeParams_def L_extend_idem)

lemma update_fixpoint:
  assumes "update h w = Inr w'"
  shows "update h w' = Inr w'"
proof (cases "ov_map (overlay w)")
  case False
  with assms show ?thesis by (simp add: update_def)
next
  case True
  from update_Inr_crs [OF assms True] obtain c where c: "crs_value w = Crs c" ..
  let ?w1 = "mergeParams (spatial_params h w c) w"
  let ?url = "getImageUrl h ?w1"
  have w': "w' = ?w1 \<or> w' = requestImage ?url ?w1"
    and cur: "currentUrl (overlay w') = Some ?url"
    using assms by (auto simp: update_attached [OF True c] split: if_splits)
  have par: "wmsParams (overlay w') = L_extend (wmsParams (overlay w)) (spatial_params h w c)"
    using w' by (auto simp: wmsParams_mergeParams)
  have vw: "view w' = view w" using w' by auto
  have att: "ov_map (overlay w')" using w' True by auto
  have c': "crs_value w' = Crs c" using w' c by auto
  have "getProp (wmsParams (overlay w')) ''version'' = getProp (wmsParams (overlay w)) ''version''"
    using version_after_update_params [of h w c] par by (simp add: wmsParams_mergeParams)
  then have sp: "spatial_params h w' c = spatial_params h w c"
    by (rule spatial_params_cong [OF vw])
  have same: "mergeParams (spatial_params h w' c) w' = w'"
    unfolding sp using wf_spatial_params par by (rule mergeParams_same)
  have "getImageUrl h w' = ?url"
    using w' by (auto intro: getImageUrl_cong)
  with cur show ?thesis
    by (simp add: update_attached [OF att c'] same)
qed

lemma update_images:
  assumes "update h w = Inr w'"
  shows "length (images w') \<le> Suc (length (images w))"
proof (cases "ov_map (overlay w)")
  case False
  with assms show ?thesis by (simp add: update_def)
next
  case True
  from update_Inr_crs [OF assms True] obtain c where c: "crs_value w = Crs c" ..
  from assms show ?thesis
    by (auto simp: update_attached [OF True c] split: if_splits)
qed

lemma update_total:
  "crs_value w = Crs c \<Longrightarrow> \<exists>w'. update h w = Inr w'"
  by (cases "ov_map (overlay w)") (simp_all add: update_detached update_attached)

lemma update_wmsParams:
  assumes "ov_map (overlay w)" and "crs_value w = Crs c"
  shows "\<exists>w'. update h w = Inr w'
           \<and> wmsParams (overlay w') = L_extend (wmsParams (overlay w)) (spatial_params h w c)"
  by (simp add: update_attached [OF assms] wmsParams_mergeParams)

lemma update_currentUrl:
  assumes "update h w = Inr w'" and "ov_map (overlay w)"
  shows "currentUrl (overlay w') = Some (getImageUrl h w')"
proof -
  from update_Inr_crs [OF assms] obtain c where c: "crs_value w = Crs c" ..
  let ?w1 = "mergeParams (spatial_params h w c) w"
  let ?url = "getImageUrl h ?w1"
  have w': "w' = ?w1 \<or> w' = requestImage ?url ?w1"
    and cur: "currentUrl (overlay w') = Some ?url"
    using assms(1) by (auto simp: update_attached [OF assms(2) c] split: if_splits)
  have "getImageUrl h w' = ?url"
    using w' by (auto intro: getImageUrl_cong)
  with cur show ?thesis by simp
qed

lemma update_params:
  assumes "ov_map (overlay x)" and "crs_value x = Crs c"
  shows "\<exists>w'. update h x = Inr w'
         \<and> (\<forall>k. getProp (wmsParams (overlay w')) k
                = (if k = ''bbox'' then Some (Str (bbox h x c))
                   else if k = projectionKey h x
                     then Some (case code c of None \<Rightarrow> Undefined | Some s \<Rightarrow> Str s)
                   else if k = ''width'' then Some (Num (fst (getSize (view x))))
                   else if k = ''height'' then Some (Num (snd (getSize (view x))))
                   else getProp (wmsParams (overlay x)) k))"
proof -
  from update_wmsParams [OF assms, of h] obtain w' where
    r: "update h x = Inr w'"
    and p: "wmsParams (overlay w') = L_extend (wmsParams (overlay x)) (spatial_params h x c)"
    by blast
  have "\<forall>k. getProp (wmsParams (overlay w')) k
                = (if k = ''bbox'' then Some (Str (bbox h x c))
                   else if k = projectionKey h x
                     then Some (case code c of None \<Rightarrow> Undefined | Some s \<Rightarrow> Str s)
                   else if k = ''width'' then Some (Num (fst (getSize (view x))))
                   else if k = ''height'' then Some (Num (snd (getSize (view x))))
                   else getProp (wmsParams (overlay x)) k)"
    using getProp_after_update_params [of h x c] by (simp add: p wmsParams_mergeParams)
  with r show ?thesis by blast
qed

lemma images_requestImage_merge:
  "images (requestImage url (mergeParams p x))
     = images x @ [\<lparr>img_url = url, img_bounds = (getNorthWest (view x), getSouthEast (view x)),
                      img_opacity = Num (Fin 0), once_load = True\<rparr>]"
  by (simp add: requestImage_def addImage_def)

lemma update_images_eq:
  assumes "update h x = Inr w'" and "ov_map (overlay x)"
  shows "images w'
       = (if currentUrl (overlay x) = Some (getImageUrl h w') then images x
          else images x
               @ [\<lparr>img_url = getImageUrl h w',
                    img_bounds = (getNorthWest (view x), getSouthEast (view x)),
                    img_opacity = Num (Fin 0), once_load = True\<rparr>])"
proof -
  from update_Inr_crs [OF assms] obtain c where c: "crs_value x = Crs c" ..
  let ?w1 = "mergeParams (spatial_params h x c) x"
  let ?url = "getImageUrl h ?w1"
  have w': "w' = (if currentUrl (overlay x) = Some ?url then ?w1 else requestImage ?url ?w1)"
    using assms(1) by (auto simp: update_attached [OF assms(2) c] split: if_splits)
  have u: "getImageUrl h w' = ?url"
    using w' by (auto intro: getImageUrl_cong split: if_splits)
  show ?thesis
    unfolding u using w' by (simp add: images_requestImage_merge split: if_splits)
qed

section \<open>Properties of the image events\<close>

lemma images_requestImage:
  "images (requestImage url w) =
     images w @ [\<lparr>img_url = url, img_bounds = (getNorthWest (view w), getSouthEast (view w)),
                  img_opacity = Num (Fin 0), once_load = True\<rparr>]"
  by (simp add: requestImage_def addImage_def)

lemma layers_requestImage:
  "set (map_layers (requestImage url w)) = insert (ImageLayer (length (images w))) (set (map_layers w))"
  by (auto simp: requestImage_def addImage_def hasLayer_def)

lemma image_load_stale:
  assumes "i < length (images w)" and "once_load (images w ! i)" and "ov_map (overlay w)"
    and "currentUrl (overlay w) \<noteq> Some (img_url (images w ! i))"
  shows "overlay (image_load i w) = overlay w"
    and "set (map_layers (image_load i w)) = set (map_layers w) - {ImageLayer i}"
    and "length (images (image_load i w)) = length (images w)"
    and "img_opacity (images (image_load i w) ! k) = img_opacity (images w ! k)"
    and "img_url (images (image_load i w) ! k) = img_url (images w ! k)"
    and "k \<noteq> i \<Longrightarrow> images (image_load i w) ! k = images w ! k"
  using assms
  by (auto simp: image_load_def swap_def removeImage_def nth_list_update)

lemma image_load_current:
  assumes "i < length (images w)" and "once_load (images w ! i)" and "ov_map (overlay w)"
    and "currentUrl (overlay w) = Some (img_url (images w ! i))"
  shows "currentOverlay (overlay (image_load i w)) = Some i"
    and "currentUrl (overlay (image_load i w)) = currentUrl (overlay w)"
    and "ov_map (overlay (image_load i w))"
    and "ov_options (overlay (image_load i w)) = ov_options (overlay w)"
    and "set (map_layers (image_load i w)) =
           (case currentOverlay (overlay w) of
              None \<Rightarrow> set (map_layers w)
            | Some j \<Rightarrow> set (map_layers w) - {ImageLayer j})"
    and "length (images (image_load i w)) = length (images w)"
    and "img_opacity (images (image_load i w) ! i) =
           (if truthy (getVal (ov_options (overlay w)) ''opacity'')
            then getVal (ov_options (overlay w)) ''opacity'' else Num (Fin 1))"
    and "img_url (images (image_load i w) ! k) = img_url (images w ! k)"
    and "k \<noteq> i \<Longrightarrow> images (image_load i w) ! k = images w ! k"
  using assms
  by (auto simp: image_load_def swap_def removeImage_def setOpacity_def Let_def nth_list_update
           split: option.splits)

lemma image_load_replaces:
  "currentOverlay (overlay (image_load i w)) \<noteq> currentOverlay (overlay w) \<Longrightarrow>
   currentUrl (overlay w) = Some (img_url (images w ! i))
   \<and> currentOverlay (overlay (image_load i w)) = Some i"
  by (auto simp: image_load_def swap_def removeImage_def setOpacity_def Let_def nth_list_update
           split: option.splits if_splits)

lemma update_requests:
  assumes "update h w = Inr w'" and "ov_map (overlay w)"
    and "currentUrl (overlay w') \<noteq> currentUrl (overlay w) \<or> length (images w') \<noteq> length (images w)"
  shows "\<exists>url w1. w' = requestImage url w1 \<and> images w1 = images w
           \<and> map_layers w1 = map_layers w \<and> ov_map (overlay w1)
           \<and> currentOverlay (overlay w1) = currentOverlay (overlay w)
           \<and> ov_options (overlay w1) = ov_options (overlay w)
           \<and> currentUrl (overlay w) \<noteq> Some url"
proof -
  from update_Inr_crs [OF assms(1,2)] obtain c where c: "crs_value w = Crs c" ..
  let ?w1 = "mergeParams (spatial_params h w c) w"
  from assms(1,3) have "w' = requestImage (getImageUrl h ?w1) ?w1"
      and "currentUrl (overlay w) \<noteq> Some (getImageUrl h ?w1)"
    by (auto simp: update_attached [OF assms(2) c] split: if_splits)
  then show ?thesis using assms(2) by (intro exI [of _ "getImageUrl h ?w1"] exI [of _ ?w1]) simp
qed

lemmas url_defs =
  getImageUrl_def Leaflet_getParamString_def encodeURIComponent_def unreserved_def hexDigit_def
  toUpperCase_def ownEntries_def isArrayIndex_def isDigit_def digitsValue_def showInt_def

lemma example_host_fields:
  "getParamString example_host = Leaflet_getParamString (ToString example_conversions)"
  "funToString example_host = (\<lambda>f. ''function(){}'')"
  "funToString example_conversions = (\<lambda>f. ''function(){}'')"
  "imageSrc example_host = (\<lambda>url. url)"
  by (simp_all add: example_host_def example_conversions_def)

lemma attached_spatial:
  "spatial_params example_host attached_world CRS_Custom =
     [(''width'', Num (Fin 256)), (''height'', Num (Fin 128)),
      (''srs'', Str ''EPSG:32633''), (''bbox'', Str ''10,15,5,20'')]"
proof -
  have v: "wmsVersion example_host attached_world = Fin (11 / 10)"
    by (simp add: wmsVersion_def attached_overlay example_overlay getVal_def getProp_def)
       (simp add: version_defs)
  show ?thesis
    by (simp add: spatial_params_def projectionKey_def bbox_def v attached_overlay
        example_view_def CRS_Custom_fields LonLat_def showInt_def)
qed

lemma loading_world_eq:
  "update example_host attached_world = Inr loading_world"
  "loading_world =
     requestImage
       ''http://example.com/wms?service=WMS&request=GetMap&version=1.1.1&layers=&styles=&format=image%2Fpng&transparent=false&onError=function()%7B%7D&width=256&height=128&srs=EPSG%3A32633&bbox=10%2C15%2C5%2C20''
       (mergeParams
          [(''width'', Num (Fin 256)), (''height'', Num (Fin 128)),
           (''srs'', Str ''EPSG:32633''), (''bbox'', Str ''10,15,5,20'')] attached_world)"
proof -
  have att: "ov_map (overlay attached_world)" by (simp add: attached_overlay)
  have u: "getImageUrl example_host
       (mergeParams
          [(''width'', Num (Fin 256)), (''height'', Num (Fin 128)),
           (''srs'', Str ''EPSG:32633''), (''bbox'', Str ''10,15,5,20'')] attached_world)
     = ''http://example.com/wms?service=WMS&request=GetMap&version=1.1.1&layers=&styles=&format=image%2Fpng&transparent=false&onError=function()%7B%7D&width=256&height=128&srs=EPSG%3A32633&bbox=10%2C15%2C5%2C20''"
    by (simp add: getImageUrl_def wmsParams_mergeParams attached_overlay example_overlay
        example_host_fields L_extend_def assign_def getVal_def getProp_def)
       (simp add: url_defs example_host_fields)
  have r: "update example_host attached_world = Inr (requestImage
       ''http://example.com/wms?service=WMS&request=GetMap&version=1.1.1&layers=&styles=&format=image%2Fpng&transparent=false&onError=function()%7B%7D&width=256&height=128&srs=EPSG%3A32633&bbox=10%2C15%2C5%2C20''
       (mergeParams
          [(''width'', Num (Fin 256)), (''height'', Num (Fin 128)),
           (''srs'', Str ''EPSG:32633''), (''bbox'', Str ''10,15,5,20'')] attached_world))"
    by (simp add: update_attached [OF att attached_crs_value] attached_spatial u)
       (simp add: attached_overlay example_overlay)
  show "loading_world =
     requestImage
       ''http://example.com/wms?service=WMS&request=GetMap&version=1.1.1&layers=&styles=&format=image%2Fpng&transparent=false&onError=function()%7B%7D&width=256&height=128&srs=EPSG%3A32633&bbox=10%2C15%2C5%2C20''
       (mergeParams
          [(''width'', Num (Fin 256)), (''height'', Num (Fin 128)),
           (''srs'', Str ''EPSG:32633''), (''bbox'', Str ''10,15,5,20'')] attached_world)"
    by (simp add: loading_world_def r)
  then show "update example_host attached_world = Inr loading_world"
    by (simp add: r)
qed

lemma loading_fields:
  "wmsParams (overlay loading_world) =
     [(''service'', Str ''WMS''), (''request'', Str ''GetMap''), (''version'', Str ''1.1.1''),
      (''layers'', Str []), (''styles'', Str []), (''format'', Str ''image/png''),
      (''transparent'', Bool False), (''onError'', Fun 0), (''width'', Num (Fin 256)),
      (''height'', Num (Fin 128)), (''srs'', Str ''EPSG:32633''), (''bbox'', Str ''10,15,5,20'')]"
  "ov_options (overlay loading_world) = [(''tiled'', Bool False), (''identify'', Bool True)]"
  "ov_url (overlay loading_world) = ''http://example.com/wms''"
  "ov_map (overlay loading_world)"
  "onError (overlay loading_world) = Fun 0"
  "currentOverlay (overlay loading_world) = None"
  "currentUrl (overlay loading_world) = Some ''http://example.com/wms?service=WMS&request=GetMap&version=1.1.1&layers=&styles=&format=image%2Fpng&transparent=false&onError=function()%7B%7D&width=256&height=128&srs=EPSG%3A32633&bbox=10%2C15%2C5%2C20''"
  "length (images loading_world) = 1"
  "img_url (images loading_world ! 0) = ''http://example.com/wms?service=WMS&request=GetMap&version=1.1.1&layers=&styles=&format=image%2Fpng&transparent=false&onError=function()%7B%7D&width=256&height=128&srs=EPSG%3A32633&bbox=10%2C15%2C5%2C20''"
  "onError_calls loading_world = []"
  by (simp_all add: loading_world_eq(2) wmsParams_mergeParams images_requestImage attached_overlay
        example_overlay)
     (simp_all add: L_extend_def assign_def ownEntries_def isArrayIndex_def isDigit_def requestImage_def
        addImage_def mergeParams_def attached_world_def example_world_def)

lemma moved_world_eq:
  "update example_host (mergeParams [] (loading_world\<lparr>view := moved_view\<rparr>)) = Inr moved_world"
  "currentUrl (overlay moved_world) = Some ''http://example.com/wms?service=WMS&request=GetMap&version=1.1.1&layers=&styles=&format=image%2Fpng&transparent=false&onError=function()%7B%7D&width=256&height=128&srs=EPSG%3A32633&bbox=11%2C16%2C6%2C21''"
proof -
  let ?w = "loading_world\<lparr>view := moved_view\<rparr>"
  have e: "mergeParams [] ?w = ?w"
    by (simp add: mergeParams_def L_extend_def assign_def ownEntries_def)
  have att: "ov_map (overlay ?w)" by (simp add: loading_fields)
  have c: "crs_value ?w = Crs CRS_Custom"
    by (simp add: crs_value_def loading_fields getVal_def getProp_def moved_view_def)
  have v: "wmsVersion example_host ?w = Fin (11 / 10)"
    by (simp add: wmsVersion_def loading_fields getVal_def getProp_def) (simp add: version_defs)
  have s: "spatial_params example_host ?w CRS_Custom =
     [(''width'', Num (Fin 256)), (''height'', Num (Fin 128)),
      (''srs'', Str ''EPSG:32633''), (''bbox'', Str ''11,16,6,21'')]"
    by (simp add: spatial_params_def projectionKey_def bbox_def v CRS_Custom_fields)
       (simp add: moved_view_def LonLat_def showInt_def)
  have u: "getImageUrl example_host
       (mergeParams
          [(''width'', Num (Fin 256)), (''height'', Num (Fin 128)),
           (''srs'', Str ''EPSG:32633''), (''bbox'', Str ''11,16,6,21'')] ?w)
     = ''http://example.com/wms?service=WMS&request=GetMap&version=1.1.1&layers=&styles=&format=image%2Fpng&transparent=false&onError=function()%7B%7D&width=256&height=128&srs=EPSG%3A32633&bbox=11%2C16%2C6%2C21''"
    by (simp add: getImageUrl_def wmsParams_mergeParams loading_fields
        example_host_fields L_extend_def assign_def getVal_def getProp_def)
       (simp add: url_defs example_host_fields)
  have r: "update example_host ?w = Inr (requestImage
       ''http://example.com/wms?service=WMS&request=GetMap&version=1.1.1&layers=&styles=&format=image%2Fpng&transparent=false&onError=function()%7B%7D&width=256&height=128&srs=EPSG%3A32633&bbox=11%2C16%2C6%2C21''
       (mergeParams
          [(''width'', Num (Fin 256)), (''height'', Num (Fin 128)),
           (''srs'', Str ''EPSG:32633''), (''bbox'', Str ''11,16,6,21'')] ?w))"
    by (simp add: update_attached [OF att c] s u) (simp add: loading_fields)
  then have m: "moved_world = requestImage
       ''http://example.com/wms?service=WMS&request=GetMap&version=1.1.1&layers=&styles=&format=image%2Fpng&transparent=false&onError=function()%7B%7D&width=256&height=128&srs=EPSG%3A32633&bbox=11%2C16%2C6%2C21''
       (mergeParams
          [(''width'', Num (Fin 256)), (''height'', Num (Fin 128)),
           (''srs'', Str ''EPSG:32633''), (''bbox'', Str ''11,16,6,21'')] ?w)"
    by (simp add: moved_world_def)
  show "update example_host (mergeParams [] ?w) = Inr moved_world"
    by (simp add: e r m)
  show "currentUrl (overlay moved_world) = Some ''http://example.com/wms?service=WMS&request=GetMap&version=1.1.1&layers=&styles=&format=image%2Fpng&transparent=false&onError=function()%7B%7D&width=256&height=128&srs=EPSG%3A32633&bbox=11%2C16%2C6%2C21''"
    by (simp add: m)
qed

section \<open>Properties of the sub-layers of a source\<close>

lemma update_effect:
  assumes "update h w = Inr w'"
  shows "source w' = source w"
    and "ov_map (overlay w') = ov_map (overlay w)"
    and "hasLayer w' OverlayLayer = hasLayer w OverlayLayer"
    and "crs_value w' = crs_value w"
    and "getProp (wmsParams (overlay w')) ''layers'' = getProp (wmsParams (overlay w)) ''layers''"
proof -
  have "source w' = source w \<and> ov_map (overlay w') = ov_map (overlay w)
        \<and> hasLayer w' OverlayLayer = hasLayer w OverlayLayer \<and> crs_value w' = crs_value w
        \<and> getProp (wmsParams (overlay w')) ''layers'' = getProp (wmsParams (overlay w)) ''layers''"
  proof (cases "ov_map (overlay w)")
    case False
    with assms show ?thesis by (simp add: update_def)
  next
    case True
    from update_Inr_crs [OF assms True] obtain c where c: "crs_value w = Crs c" ..
    let ?w1 = "mergeParams (spatial_params h w c) w"
    have lay: "getProp (wmsParams (overlay ?w1)) ''layers'' = getProp (wmsParams (overlay w)) ''layers''"
      using projectionKey_cases [of h w] by (auto simp: getProp_after_update_params)
    from assms have "w' = ?w1 \<or> w' = requestImage (getImageUrl h ?w1) ?w1"
      by (auto simp: update_attached [OF True c] split: if_splits)
    then show ?thesis
      using lay by (auto simp: hasLayer_def layers_requestImage)
  qed
  then show "source w' = source w"
    and "ov_map (overlay w') = ov_map (overlay w)"
    and "hasLayer w' OverlayLayer = hasLayer w OverlayLayer"
    and "crs_value w' = crs_value w"
    and "getProp (wmsParams (overlay w')) ''layers'' = getProp (wmsParams (overlay w)) ''layers''"
    by simp_all
qed

lemma removeOverlay_effect:
  "\<not> hasLayer (removeOverlay w) OverlayLayer"
  "source (removeOverlay w) = source w"
  "crs_value (removeOverlay w) = crs_value w"
  "wmsParams (overlay (removeOverlay w)) = wmsParams (overlay w)"
  "ov_map (overlay w) = hasLayer w OverlayLayer \<Longrightarrow> \<not> ov_map (overlay (removeOverlay w))"
  by (auto simp: removeOverlay_def Overlay_onRemove_def hasLayer_def removeImage_def crs_value_def
        Let_def split: option.splits)

lemma addOverlay_effect:
  assumes "crs_value w = Crs c" and "ov_map (overlay w) = hasLayer w OverlayLayer"
  shows "\<exists>w'. addOverlay h w = Inr w' \<and> source w' = source w \<and> crs_value w' = crs_value w
           \<and> hasLayer w' OverlayLayer \<and> ov_map (overlay w')
           \<and> getProp (wmsParams (overlay w')) ''layers'' = getProp (wmsParams (overlay w)) ''layers''"
proof (cases "hasLayer w OverlayLayer")
  case True
  with assms show ?thesis by (simp add: addOverlay_def)
next
  case False
  let ?w1 = "w\<lparr>map_layers := map_layers w @ [OverlayLayer]\<rparr>"
  let ?w2 = "?w1\<lparr>overlay := (overlay ?w1)\<lparr>ov_map := True\<rparr>\<rparr>"
  have "crs_value ?w2 = crs_value w" by (simp add: crs_value_def)
  with assms(1) have c2: "crs_value ?w2 = Crs c" by simp
  from update_total [OF c2, of h] obtain w' where r: "update h ?w2 = Inr w'" ..
  from update_effect [OF r] have "source w' = source w" "ov_map (overlay w')"
    "hasLayer w' OverlayLayer" "crs_value w' = crs_value w"
    "getProp (wmsParams (overlay w')) ''layers'' = getProp (wmsParams (overlay w)) ''layers''"
    using c2 assms(1) by (simp_all add: hasLayer_def)
  moreover have "addOverlay h w = Inr w'"
    using False r by (simp add: addOverlay_def Overlay_onAdd_def)
  ultimately show ?thesis by blast
qed

lemma refreshOverlay_effect:
  assumes "src_map (source w)" and "crs_value w = Crs c"
    and "ov_map (overlay w) = hasLayer w OverlayLayer"
  shows "\<exists>w'. refreshOverlay h w = Inr w' \<and> source w' = source w \<and> crs_value w' = crs_value w
           \<and> ov_map (overlay w') = hasLayer w' OverlayLayer \<and> refreshed w'
           \<and> (join '','' (Object_keys (subLayers (source w))) = [] \<longrightarrow>
                  wmsParams (overlay w') = wmsParams (overlay w))"
proof (cases "join '','' (Object_keys (subLayers (source w))) = []")
  case True
  with assms have "refreshOverlay h w = Inr (removeOverlay w)"
    by (simp add: refreshOverlay_def)
  with True assms(3) show ?thesis
    by (simp add: refreshed_def removeOverlay_effect)
next
  case False
  let ?s = "join '','' (Object_keys (subLayers (source w)))"
  let ?m = "mergeParams [(''layers'', Str ?s)] w"
  have cm: "crs_value ?m = Crs c" using assms(2) by simp
  from update_total [OF cm, of h] obtain w1 where r1: "update h ?m = Inr w1" ..
  have lm: "getProp (wmsParams (overlay ?m)) ''layers'' = Some (Str ?s)"
    by (simp add: getProp_mergeParams wf_obj_def) (simp add: getProp_def)
  from update_effect [OF r1] have s1: "source w1 = source w" and c1: "crs_value w1 = Crs c"
    and a1: "ov_map (overlay w1) = hasLayer w1 OverlayLayer"
    and l1: "getProp (wmsParams (overlay w1)) ''layers'' = Some (Str ?s)"
    using assms(2,3) lm by (simp_all add: hasLayer_def)
  from addOverlay_effect [OF c1 a1, of h] obtain w' where r2: "addOverlay h w1 = Inr w'"
    and e: "source w' = source w1" "crs_value w' = crs_value w1" "hasLayer w' OverlayLayer"
      "ov_map (overlay w')"
      "getProp (wmsParams (overlay w')) ''layers'' = getProp (wmsParams (overlay w1)) ''layers''"
    by blast
  have "refreshOverlay h w = Inr w'"
    using assms(1) False r1 r2 by (simp add: refreshOverlay_def setParams_def)
  moreover have "refreshed w'"
    using False e s1 l1 by (simp add: refreshed_def)
  ultimately show ?thesis using False e s1 c1 assms(2) by auto
qed

lemma call_step_effect:
  assumes "src_map (source w)" and "crs_value w = Crs c"
    and "ov_map (overlay w) = hasLayer w OverlayLayer"
  shows "\<exists>w'. call_step h cl w = Inr w' \<and> src_map (source w') \<and> crs_value w' = Crs c
           \<and> ov_map (overlay w') = hasLayer w' OverlayLayer \<and> refreshed w'
           \<and> subLayers (source w') = subLayers_after [cl] (subLayers (source w))
           \<and> (join '','' (Object_keys (subLayers (source w'))) = [] \<longrightarrow>
                  wmsParams (overlay w') = wmsParams (overlay w))"
proof -
  have step: "\<exists>w'. refreshOverlay h (w\<lparr>source := (source w)\<lparr>subLayers := sl\<rparr>\<rparr>) = Inr w'
           \<and> src_map (source w') \<and> crs_value w' = Crs c
           \<and> ov_map (overlay w') = hasLayer w' OverlayLayer \<and> refreshed w'
           \<and> subLayers (source w') = sl
           \<and> (join '','' (Object_keys (subLayers (source w'))) = [] \<longrightarrow>
                  wmsParams (overlay w') = wmsParams (overlay w))" for sl
  proof -
    let ?w0 = "w\<lparr>source := (source w)\<lparr>subLayers := sl\<rparr>\<rparr>"
    have cw: "crs_value ?w0 = crs_value w" by (simp add: crs_value_def)
    have pre: "src_map (source ?w0)" "crs_value ?w0 = Crs c"
      "ov_map (overlay ?w0) = hasLayer ?w0 OverlayLayer"
      using assms cw by (simp_all add: hasLayer_def)
    from refreshOverlay_effect [OF pre, of h] obtain w' where
      "refreshOverlay h ?w0 = Inr w'" "source w' = source ?w0" "crs_value w' = crs_value ?w0"
      "ov_map (overlay w') = hasLayer w' OverlayLayer" "refreshed w'"
      "join '','' (Object_keys (subLayers (source ?w0))) = [] \<longrightarrow>
         wmsParams (overlay w') = wmsParams (overlay ?w0)"
      by blast
    then show ?thesis using pre by (intro exI [of _ w']) simp
  qed
  show ?thesis
  proof (cases cl)
    case (AddSubLayer name)
    with step [of "assign name True (subLayers (source w))"] show ?thesis
      by (simp add: addSubLayer_def)
  next
    case (RemoveSubLayer name)
    with step [of "del name (subLayers (source w))"] show ?thesis
      by (simp add: removeSubLayer_def)
  qed
qed

lemma calls_effect:
  assumes "src_map (source w)" and "crs_value w = Crs c"
    and "ov_map (overlay w) = hasLayer w OverlayLayer"
  shows "\<exists>w'. calls h cs w = Inr w' \<and> src_map (source w') \<and> crs_value w' = Crs c
           \<and> ov_map (overlay w') = hasLayer w' OverlayLayer
           \<and> subLayers (source w') = subLayers_after cs (subLayers (source w))"
  using assms
proof (induction cs arbitrary: w)
  case Nil
  then show ?case by simp
next
  case (Cons cl cs)
  from call_step_effect [OF Cons.prems, of h cl] obtain w1 where
    s: "call_step h cl w = Inr w1" and i: "src_map (source w1)" "crs_value w1 = Crs c"
      "ov_map (overlay w1) = hasLayer w1 OverlayLayer"
    and k: "subLayers (source w1) = subLayers_after [cl] (subLayers (source w))"
    by blast
  from Cons.IH [OF i] obtain w' where
    t: "calls h cs w1 = Inr w'" and i': "src_map (source w')" "crs_value w' = Crs c"
      "ov_map (overlay w') = hasLayer w' OverlayLayer"
    and k': "subLayers (source w') = subLayers_after cs (subLayers (source w1))"
    by blast
  have "calls h (cl # cs) w = Inr w'" using s t by simp
  moreover have "subLayers (source w') = subLayers_after (cl # cs) (subLayers (source w))"
    using k k' by (cases cl) simp_all
  ultimately show ?case using i' by blast
qed

lemma calls_append:
  "calls h (cs @ [cl]) w = (case calls h cs w of Inl e \<Rightarrow> Inl e | Inr w1 \<Rightarrow> call_step h cl w1)"
  by (induction cs arbitrary: w) (auto split: sum.splits)

lemma subLayers_after_append:
  "subLayers_after (cs @ [cl]) sl = subLayers_after [cl] (subLayers_after cs sl)"
proof (induction cs arbitrary: sl)
  case Nil
  then show ?case by simp
next
  case (Cons x cs)
  then show ?case by (cases x) simp_all
qed

lemma keys_subLayers_after:
  "\<forall>x\<in>set cs. call_name x \<noteq> ''__proto__'' \<Longrightarrow>
   set (Object_keys (subLayers_after cs sl)) = active cs (set (Object_keys sl))"
proof (induction cs arbitrary: sl)
  case Nil
  then show ?case by simp
next
  case (Cons cl cs)
  then show ?case
    using keys_put [of _ True sl] keys_del [of _ sl]
    by (cases cl) (simp_all add: set_Object_keys assign_put)
qed

lemma wf_subLayers_after: "wf_obj sl \<Longrightarrow> wf_obj (subLayers_after cs sl)"
proof (induction cs arbitrary: sl)
  case Nil
  then show ?case by simp
next
  case (Cons cl cs)
  then show ?case
    by (cases cl) (simp_all add: wf_obj_def distinct_assign distinct_del)
qed

lemma join_eq_Nil: "(join '','' ks = []) = (ks = [] \<or> ks = [[]])"
  by (cases "('','', ks)" rule: join.cases) simp_all

lemma example_source:
  "src_map (source example_world)"
  "subLayers (source example_world) = []"
  "ov_map (overlay example_world) = hasLayer example_world OverlayLayer"
  by (simp_all add: example_world_def hasLayer_def)

lemma keys_examples:
  "Object_keys [(''roads'', True), (''rivers'', True)] = [''roads'', ''rivers'']"
  "Object_keys [(''roads'', True)] = [''roads'']"
  "Object_keys [(''rivers'', True)] = [''rivers'']"
  "Object_keys [([], True)] = [[]]"
  "Object_keys ([] :: bool jsobj) = []"
  by (simp_all add: Object_keys_def ownEntries_def isArrayIndex_def isDigit_def)

section \<open>Facts about the construction of an overlay\<close>

lemma hasOwnProperty_builtin:
  "getProp opts ''hasOwnProperty'' = None \<Longrightarrow>
   hasOwnProperty h opts k = Inr (getProp opts k \<noteq> None)"
  by (simp add: hasOwnProperty_def)

lemma optNames_has_hasOwnProperty: "optNames_has ''hasOwnProperty''"
  by (simp add: optNames_has_def Object_prototype_names_def)

lemma optNames_has_proto: "optNames_has ''__proto__''"
  by (simp add: optNames_has_def Object_prototype_names_def)

lemma moveParams_fold:
  assumes "distinct (map fst es)"
    and "\<And>p. p \<in> set es \<Longrightarrow> map_of opts (fst p) = Some (snd p)"
    and "\<And>p. p \<in> set es \<Longrightarrow> fst p \<notin> fst ` set params"
    and "getProp opts ''hasOwnProperty'' = None"
  shows "moveParams h (map fst es) (params, opts)
         = Inr (params @ filter (\<lambda>p. \<not> optNames_has (fst p)) es,
                filter (\<lambda>p. \<not> (fst p \<in> fst ` set es \<and> \<not> optNames_has (fst p))) opts)"
  using assms
proof (induction es arbitrary: params opts)
  case Nil
  then show ?case by simp
next
  case (Cons e es)
  obtain k v where e: "e = (k, v)" by (cases e)
  have dist: "distinct (map fst es)" and knew: "k \<notin> fst ` set es"
    using Cons.prems(1) e by auto
  have own: "hasOwnProperty h opts k = Inr True"
    using Cons.prems(2) [of e] e
    by (simp add: hasOwnProperty_builtin [OF Cons.prems(4)] getProp_def)
  show ?case
  proof (cases "optNames_has k")
    case True
    have "moveParams h (map fst es) (params, opts)
         = Inr (params @ filter (\<lambda>p. \<not> optNames_has (fst p)) es,
                filter (\<lambda>p. \<not> (fst p \<in> fst ` set es \<and> \<not> optNames_has (fst p))) opts)"
      by (rule Cons.IH [OF dist]) (simp_all add: Cons.prems)
    moreover have "filter (\<lambda>p. \<not> (fst p \<in> fst ` set es \<and> \<not> optNames_has (fst p))) opts
        = filter (\<lambda>p. \<not> (fst p \<in> fst ` set (e # es) \<and> \<not> optNames_has (fst p))) opts"
      using True e by (intro filter_cong) auto
    ultimately show ?thesis using True e own by simp
  next
    case False
    then have kh: "k \<noteq> ''hasOwnProperty''" using optNames_has_hasOwnProperty by auto
    have val: "getVal opts k = v"
      using Cons.prems(2) [of e] e by (simp add: getVal_def getProp_def)
    have fresh: "k \<notin> fst ` set params"
      using Cons.prems(3) [of e] e by simp
    have "moveParams h (map fst es) (params @ [(k, v)], del k opts)
         = Inr ((params @ [(k, v)]) @ filter (\<lambda>p. \<not> optNames_has (fst p)) es,
                filter (\<lambda>p. \<not> (fst p \<in> fst ` set es \<and> \<not> optNames_has (fst p))) (del k opts))"
    proof (rule Cons.IH [OF dist])
      fix p assume p: "p \<in> set es"
      then have "fst p \<noteq> k" using knew by auto
      then show "map_of (del k opts) (fst p) = Some (snd p)"
        using Cons.prems(2) [of p] p by (simp add: map_of_del)
      show "fst p \<notin> fst ` set (params @ [(k, v)])"
        using Cons.prems(3) [of p] p \<open>fst p \<noteq> k\<close> by auto
    next
      show "getProp (del k opts) ''hasOwnProperty'' = None"
        using Cons.prems(4) kh by (simp add: getProp_def map_of_del)
    qed
    moreover have "filter (\<lambda>p. \<not> (fst p \<in> fst ` set es \<and> \<not> optNames_has (fst p))) (del k opts)
        = filter (\<lambda>p. \<not> (fst p \<in> fst ` set (e # es) \<and> \<not> optNames_has (fst p))) opts"
      using False e by (auto simp: del_def intro: filter_cong)
    ultimately show ?thesis using False e val fresh own by (simp add: put_new)
  qed
qed

lemma moveParams_eq:
  assumes "wf_obj options" and "getProp options ''hasOwnProperty'' = None"
  shows "moveParams h (Object_keys options) ([], options)
         = Inr (filter (\<lambda>p. \<not> optNames_has (fst p)) (ownEntries options),
                filter (\<lambda>p. optNames_has (fst p)) options)"
proof -
  have d: "distinct (map fst (ownEntries options))"
    using assms(1) by (simp add: wf_obj_def distinct_ownEntries)
  have m: "\<And>p. p \<in> set (ownEntries options) \<Longrightarrow> map_of options (fst p) = Some (snd p)"
    using assms(1) by (simp add: set_ownEntries wf_obj_def)
  have "moveParams h (Object_keys options) ([], options)
        = Inr ([] @ filter (\<lambda>p. \<not> optNames_has (fst p)) (ownEntries options),
           filter (\<lambda>p. \<not> (fst p \<in> fst ` set (ownEntries options) \<and> \<not> optNames_has (fst p)))
             options)"
    unfolding Object_keys_def
    by (rule moveParams_fold [OF d m _ assms(2)]) simp_all
  moreover have "filter (\<lambda>p. \<not> (fst p \<in> fst ` set (ownEntries options) \<and> \<not> optNames_has (fst p)))
          options
        = filter (\<lambda>p. optNames_has (fst p)) options"
    by (intro filter_cong) (auto simp: set_ownEntries)
  ultimately show ?thesis by simp
qed

lemma Overlay_initialize_eq:
  assumes "wf_obj options" and "getProp options ''hasOwnProperty'' = None"
  shows "Overlay_initialize h url (Some options)
         = Inr (\<lparr>ov_url = url,
                 ov_options = L_extend [] (filter (\<lambda>p. optNames_has (fst p)) options),
                 wmsParams = L_extend (L_extend [] defaultWmsParams)
                               (filter (\<lambda>p. \<not> optNames_has (fst p)) (ownEntries options)),
                 onError = (if truthy (getVal options ''onError'') then getVal options ''onError''
                            else Undefined),
                 ov_map = False, currentUrl = None, currentOverlay = None\<rparr>,
                Some (filter (\<lambda>p. optNames_has (fst p)) options))"
  by (simp add: Overlay_initialize_def moveParams_eq [OF assms])

lemma wmsParams_initialize:
  assumes "wf_obj options"
  shows "getProp (L_extend (L_extend [] defaultWmsParams)
                    (filter (\<lambda>p. \<not> optNames_has (fst p)) (ownEntries options))) k
         = (if \<not> optNames_has k \<and> getProp options k \<noteq> None then getProp options k
            else getProp defaultWmsParams k)"
proof -
  let ?params = "filter (\<lambda>p. \<not> optNames_has (fst p)) (ownEntries options)"
  have wfp: "wf_obj ?params" using assms by (simp add: wf_filter wf_ownEntries)
  have np: "''__proto__'' \<notin> fst ` set ?params" using optNames_has_proto by auto
  have P: "getProp ?params k = (if \<not> optNames_has k then getProp options k else None)"
    using assms
      map_of_filter_key [where Q = "\<lambda>k. \<not> optNames_has k" and al = "ownEntries options" and k = k]
    by (simp add: getProp_def map_of_ownEntries wf_obj_def)
  have "getProp (L_extend (L_extend [] defaultWmsParams) ?params) k
        = (case getProp ?params k of Some v \<Rightarrow> Some v | None \<Rightarrow> getProp defaultWmsParams k)"
    by (simp add: getProp_L_extend [OF wfp np]
        getProp_L_extend_empty [OF wf_defaultWmsParams defaultWmsParams_keys]
        split: option.splits)
  then show ?thesis by (auto simp: P split: option.splits)
qed

lemma example_constructed:
  "Source_initialize example_host ''http://example.com/wms''
     (Some [(''format'', Str ''image/png''), (''onError'', Fun 0)])
   = Inr ((source example_world)\<lparr>src_map := False\<rparr>, Some (overlay example_world))"
  by (simp add: Source_initialize_def Source_options_def Overlay_initialize_def Object_keys_def
      ownEntries_def isArrayIndex_def isDigit_def hasOwnProperty_def getProp_def getVal_def
      optNames_has_def optNames_def Object_prototype_names_def del_def L_extend_def assign_def
      defaultWmsParams_def example_world_def)

section \<open>Properties of the feature-information path\<close>

lemma iframe_not_error: "iframe url \<noteq> ''error''"
  by (simp add: iframe_def)

lemma ajax_change_failed:
  "status \<noteq> 200 \<Longrightarrow> ajax_change 4 status responseText = Some ''error''"
  by (simp add: ajax_change_def)

lemma ajax_change_ok: "ajax_change 4 200 responseText = Some responseText"
  by (simp add: ajax_change_def)

text \<open>
  C5, as amended. When the request at \<open>url\<close> completes with a status other than 200 (a
  network failure completes with status 0), the display hook receives the clicked
  coordinate and the text \<^verbatim>\<open><iframe src='url' style='border:none'>\<close>, after the waiting
  indicator is cleared (the cursor of a source that is on a map is set back to
  \<open>default\<close>); nothing else happens and nothing is raised. When it completes with status
  200 the hook receives the response text unchanged, provided the text is not the string
  \<open>error\<close>. Before the request completes nothing happens.
\<close>

theorem transport_error_gives_iframe:
  "(status \<noteq> 200 \<longrightarrow>
      ajax_event callback url ll 4 status responseText w
        = callback ll
            (''<iframe src='' @ [CHR 0x27] @ url @ [CHR 0x27] @ '' style='' @ [CHR 0x27]
               @ ''border:none'' @ [CHR 0x27] @ ''>'')
            (if src_map (source w) then w\<lparr>cursor := ''default''\<rparr> else w))
   \<and> (responseText \<noteq> ''error'' \<longrightarrow>
      ajax_event callback url ll 4 200 responseText w
        = callback ll responseText (if src_map (source w) then w\<lparr>cursor := ''default''\<rparr> else w))
   \<and> (readyState \<noteq> 4 \<longrightarrow> ajax_event callback url ll readyState status responseText w = w)"
  by (simp add: ajax_event_def ajax_change_def getFeatureInfo_done_def parseFeatureInfo_def
      iframe_def hideWaiting_def)

theorem transport_error_gives_iframe_witness:
  "(500 :: nat) \<noteq> 200 \<and> ''<b>roads</b>'' \<noteq> ''error'' \<and> (3 :: nat) \<noteq> 4
   \<and> src_map (source example_world)
   \<and> ajax_event showFeatureInfo ''http://example.com/wms?request=GetFeatureInfo''
         (Fin 1, Fin 2) 4 500 ''<b>roads</b>'' (example_world\<lparr>cursor := ''progress''\<rparr>)
       = example_world
           \<lparr>cursor := ''default'',
             popup := Some (''<iframe src='' @ [CHR 0x27]
                             @ ''http://example.com/wms?request=GetFeatureInfo'' @ [CHR 0x27]
                             @ '' style='' @ [CHR 0x27] @ ''border:none'' @ [CHR 0x27] @ ''>'',
                            (Fin 1, Fin 2))\<rparr>
   \<and> ajax_event showFeatureInfo ''http://example.com/wms?request=GetFeatureInfo''
         (Fin 1, Fin 2) 4 200 ''<b>roads</b>'' (example_world\<lparr>cursor := ''progress''\<rparr>)
       = example_world\<lparr>cursor := ''default'', popup := Some (''<b>roads</b>'', (Fin 1, Fin 2))\<rparr>
   \<and> ajax_event showFeatureInfo ''http://example.com/wms?request=GetFeatureInfo''
         (Fin 1, Fin 2) 3 200 ''<b>roads</b>'' (example_world\<lparr>cursor := ''progress''\<rparr>)
       = example_world\<lparr>cursor := ''progress''\<rparr>"
  using transport_error_gives_iframe [where status = 500 and callback = showFeatureInfo
      and url = "''http://example.com/wms?request=GetFeatureInfo''" and ll = "(Fin 1, Fin 2)"
      and responseText = "''<b>roads</b>''" and w = "example_world\<lparr>cursor := ''progress''\<rparr>"
      and readyState = 3]
    transport_error_gives_iframe [where status = 200 and callback = showFeatureInfo
      and url = "''http://example.com/wms?request=GetFeatureInfo''" and ll = "(Fin 1, Fin 2)"
      and responseText = "''<b>roads</b>''" and w = "example_world\<lparr>cursor := ''progress''\<rparr>"
      and readyState = 3]
  by (simp add: showFeatureInfo_def example_world_def)

text \<open>
  The claim as stated fails on a successful response whose body is the string \<open>error\<close>:
  the transport hands the body on, and the text the display hook receives is the iframe,
  not the body.
\<close>

theorem success_body_error_counterexample:
  "ajax_change 4 200 ''error'' = Some ''error''
   \<and> popup (ajax_event showFeatureInfo ''http://example.com/wms?request=GetFeatureInfo''
         (Fin 1, Fin 2) 4 200 ''error'' example_world)
       = Some (''<iframe src='' @ [CHR 0x27]
                 @ ''http://example.com/wms?request=GetFeatureInfo'' @ [CHR 0x27]
                 @ '' style='' @ [CHR 0x27] @ ''border:none'' @ [CHR 0x27] @ ''>'',
               (Fin 1, Fin 2))
   \<and> popup (ajax_event showFeatureInfo ''http://example.com/wms?request=GetFeatureInfo''
         (Fin 1, Fin 2) 4 200 ''error'' example_world)
       \<noteq> Some (''error'', (Fin 1, Fin 2))"
  by (simp add: ajax_event_def ajax_change_def getFeatureInfo_done_def parseFeatureInfo_def
      iframe_def hideWaiting_def showFeatureInfo_def example_world_def)

text \<open>
  C9. The default parse hook replaces its input exactly when the input is the string
  \<open>error\<close>, and then by the text \<^verbatim>\<open><iframe src='url' style='border:none'>\<close>; the AJAX
  helper delivers that string for every completed request whose status is not 200, and
  for a request of status 200 only when its body is that string. Hence a response of
  status 200 with the body \<open>error\<close> has the same effect as a failed request: the display
  hook receives the iframe.
\<close>

theorem error_string_is_the_failure_signal:
  "(parseFeatureInfo result url \<noteq> result) = (result = ''error'')
   \<and> parseFeatureInfo ''error'' url
       = ''<iframe src='' @ [CHR 0x27] @ url @ [CHR 0x27] @ '' style='' @ [CHR 0x27]
           @ ''border:none'' @ [CHR 0x27] @ ''>''
   \<and> (ajax_change 4 status responseText = Some ''error'')
       = (status \<noteq> 200 \<or> responseText = ''error'')
   \<and> ajax_event callback url ll 4 200 ''error'' w
       = callback ll
           (''<iframe src='' @ [CHR 0x27] @ url @ [CHR 0x27] @ '' style='' @ [CHR 0x27]
              @ ''border:none'' @ [CHR 0x27] @ ''>'')
           (if src_map (source w) then w\<lparr>cursor := ''default''\<rparr> else w)
   \<and> (status \<noteq> 200 \<longrightarrow>
        ajax_event callback url ll 4 status responseText w
          = ajax_event callback url ll 4 200 ''error'' w)"
proof -
  have a: "(parseFeatureInfo result url \<noteq> result) = (result = ''error'')"
    using iframe_not_error [of url] by (auto simp: parseFeatureInfo_def)
  have b: "parseFeatureInfo ''error'' url
       = ''<iframe src='' @ [CHR 0x27] @ url @ [CHR 0x27] @ '' style='' @ [CHR 0x27]
           @ ''border:none'' @ [CHR 0x27] @ ''>''"
    by (simp add: parseFeatureInfo_def iframe_def)
  have c: "(ajax_change 4 status responseText = Some ''error'')
       = (status \<noteq> 200 \<or> responseText = ''error'')"
    by (auto simp: ajax_change_def)
  have d: "ajax_event callback url ll 4 200 ''error'' w
       = callback ll
           (''<iframe src='' @ [CHR 0x27] @ url @ [CHR 0x27] @ '' style='' @ [CHR 0x27]
              @ ''border:none'' @ [CHR 0x27] @ ''>'')
           (if src_map (source w) then w\<lparr>cursor := ''default''\<rparr> else w)"
    by (simp add: ajax_event_def ajax_change_ok getFeatureInfo_done_def b hideWaiting_def)
  have e: "status \<noteq> 200 \<longrightarrow>
        ajax_event callback url ll 4 status responseText w
          = ajax_event callback url ll 4 200 ''error'' w"
    by (simp add: ajax_event_def ajax_change_ok ajax_change_failed)
  from a b c d e show ?thesis by blast
qed

theorem error_string_is_the_failure_signal_witness:
  "(404 :: nat) \<noteq> 200
   \<and> src_map (source example_world)
   \<and> ajax_event showFeatureInfo ''http://example.com/wms?request=GetFeatureInfo''
         (Fin 1, Fin 2) 4 404 ''Not Found'' example_world
       = ajax_event showFeatureInfo ''http://example.com/wms?request=GetFeatureInfo''
         (Fin 1, Fin 2) 4 200 ''error'' example_world
   \<and> ajax_event showFeatureInfo ''http://example.com/wms?request=GetFeatureInfo''
         (Fin 1, Fin 2) 4 200 ''error'' example_world
       = example_world
           \<lparr>cursor := ''default'',
             popup := Some (''<iframe src='' @ [CHR 0x27]
                             @ ''http://example.com/wms?request=GetFeatureInfo'' @ [CHR 0x27]
                             @ '' style='' @ [CHR 0x27] @ ''border:none'' @ [CHR 0x27] @ ''>'',
                            (Fin 1, Fin 2))\<rparr>"
  using error_string_is_the_failure_signal [where status = 404 and callback = showFeatureInfo
      and url = "''http://example.com/wms?request=GetFeatureInfo''" and ll = "(Fin 1, Fin 2)"
      and responseText = "''Not Found''" and w = example_world]
  by (simp add: showFeatureInfo_def example_world_def)

section \<open>Properties of the cache of sources\<close>

lemma getProp_L_extend_None:
  "wf_obj s \<Longrightarrow> getProp d k = None \<Longrightarrow> getProp s k = None \<Longrightarrow> getProp (L_extend d s) k = None"
  by (simp add: getProp_L_extend_any)

lemma Source_initialize_ok:
  assumes "case options of
             None \<Rightarrow> True
           | Some obj \<Rightarrow> wf_obj obj \<and> getProp obj ''hasOwnProperty'' = None"
  shows "\<exists>src. Source_initialize h url options = Inr src \<and> src_url (fst src) = url
           \<and> subLayers (fst src) = [] \<and> \<not> src_map (fst src)"
proof -
  let ?obj = "case options of None \<Rightarrow> [] | Some obj \<Rightarrow> obj"
  let ?opts = "L_extend (L_extend [] Source_options) ?obj"
  have wf: "wf_obj ?obj" using assms by (cases options) (simp_all add: wf_obj_def)
  have no: "getProp ?obj ''hasOwnProperty'' = None"
    using assms by (cases options) (simp_all add: getProp_def)
  have d: "getProp (L_extend [] Source_options) ''hasOwnProperty'' = None"
    by (rule getProp_L_extend_None) (simp_all add: wf_obj_def Source_options_def getProp_def)
  have h: "getProp ?opts ''hasOwnProperty'' = None"
    using wf d no by (rule getProp_L_extend_None)
  have wfo: "wf_obj ?opts" by (intro wf_L_extend) (simp add: wf_obj_def)
  show ?thesis
    by (simp add: Source_initialize_def Let_def Overlay_initialize_eq [OF wfo h])
qed

lemma getSourceForUrl_keeps:
  assumes "getProp (sources r) url = Some s" and "s < length (created r)"
    and "getSourceForUrl h u opts r = Inr res"
  shows "getProp (sources (snd res)) url = Some s
         \<and> s < length (created (snd res))
         \<and> created (snd res) ! s = created r ! s"
proof (cases "getProp (sources r) u")
  case None
  with assms(1) have "u \<noteq> url" by auto
  with assms None show ?thesis
    by (auto simp: getSourceForUrl_def getProp_def map_of_put nth_append
          split: if_splits sum.splits)
next
  case (Some t)
  with assms show ?thesis by (auto simp: getSourceForUrl_def)
qed

lemma lookups_keep:
  "getProp (sources r) url = Some s \<Longrightarrow> s < length (created r) \<Longrightarrow>
   getProp (sources (lookups h cs r)) url = Some s
   \<and> s < length (created (lookups h cs r))
   \<and> created (lookups h cs r) ! s = created r ! s"
proof (induction cs arbitrary: r)
  case Nil
  then show ?case by simp
next
  case (Cons c cs)
  show ?case
  proof (cases "getSourceForUrl h (fst c) (snd c) r")
    case (Inl e)
    with Cons.IH [OF Cons.prems] show ?thesis by simp
  next
    case (Inr res)
    from getSourceForUrl_keeps [OF Cons.prems Inr]
    have a: "getProp (sources (snd res)) url = Some s"
      and b: "s < length (created (snd res))"
      and c: "created (snd res) ! s = created r ! s"
      by simp_all
    from Cons.IH [OF a b] c Inr show ?thesis by simp
  qed
qed

text \<open>
  C8, as amended. Let \<open>url\<close> not be the name of a property that objects inherit from
  \<open>Object.prototype\<close>, and let \<open>options\<close> be absent or an object with no own property
  named \<open>hasOwnProperty\<close>. When \<open>url\<close> is not cached yet, \<open>getSourceForUrl(url, options)\<close> constructs a new
  source for \<open>url\<close>, stores it under \<open>url\<close> and returns it. After any further lookups \<open>cs\<close>
  (of any URLs, with any options, whether they return or raise) a lookup of \<open>url\<close> returns
  that same object whatever options it is given, constructs nothing and changes no
  entry; the entry is still there and the object is still the one constructed first.
\<close>

theorem getSourceForUrl_caches:
  assumes "getProp (sources r) url = None" and "url \<notin> set Object_prototype_names"
    and "case options of
           None \<Rightarrow> True
         | Some obj \<Rightarrow> wf_obj obj \<and> getProp obj ''hasOwnProperty'' = None"
  shows "\<exists>src r1. getSourceForUrl h url options r = Inr (TheSource (length (created r)), r1)
     \<and> created r1 = created r @ [src] \<and> src_url (fst src) = url
     \<and> getProp (sources r1) url = Some (length (created r))
     \<and> getSourceForUrl h url options' (lookups h cs r1)
         = Inr (TheSource (length (created r)), lookups h cs r1)
     \<and> getProp (sources (lookups h cs r1)) url = Some (length (created r))
     \<and> created (lookups h cs r1) ! length (created r) = src"
proof -
  let ?n = "length (created r)"
  from Source_initialize_ok [OF assms(3), of h url] obtain src where
    c: "Source_initialize h url options = Inr src" and u: "src_url (fst src) = url"
    by blast
  let ?r1 = "r\<lparr>sources := put url ?n (sources r), created := created r @ [src]\<rparr>"
  have first: "getSourceForUrl h url options r = Inr (TheSource ?n, ?r1)"
    using assms(1,2) c by (simp add: getSourceForUrl_def)
  have made: "created ?r1 = created r @ [src]" by simp
  have stored: "getProp (sources ?r1) url = Some ?n"
    by (simp add: getProp_def map_of_put)
  have lt: "?n < length (created ?r1)" by simp
  from lookups_keep [OF stored lt, of h cs]
  have kept: "getProp (sources (lookups h cs ?r1)) url = Some ?n"
    and same: "created (lookups h cs ?r1) ! ?n = created ?r1 ! ?n"
    by simp_all
  have again: "getSourceForUrl h url options' (lookups h cs ?r1)
         = Inr (TheSource ?n, lookups h cs ?r1)"
    using kept by (simp add: getSourceForUrl_def)
  have obj: "created (lookups h cs ?r1) ! ?n = src"
    using same by simp
  from first made u stored again kept obj show ?thesis by blast
qed

theorem getSourceForUrl_caches_witness:
  "getProp (sources \<lparr>sources = [], created = []\<rparr>) ''http://example.com/wms'' = None
   \<and> ''http://example.com/wms'' \<notin> set Object_prototype_names
   \<and> wf_obj [(''identify'', Bool False)]
   \<and> getProp [(''identify'', Bool False)] ''hasOwnProperty'' = None
   \<and> (\<exists>src r1. getSourceForUrl example_host ''http://example.com/wms''
                 (Some [(''identify'', Bool False)]) \<lparr>sources = [], created = []\<rparr>
               = Inr (TheSource 0, r1)
         \<and> created r1 = [src] \<and> src_url (fst src) = ''http://example.com/wms''
         \<and> getSourceForUrl example_host ''http://example.com/wms'' None
             (lookups example_host
                [(''http://other.org/wms'', None),
                 (''http://example.com/wms'', Some [(''format'', Str ''image/png'')]),
                 (''constructor'', None),
                 (''http://third.org/wms'', Some [(''hasOwnProperty'', Bool True)])] r1)
             = Inr (TheSource 0,
                 lookups example_host
                   [(''http://other.org/wms'', None),
                    (''http://example.com/wms'', Some [(''format'', Str ''image/png'')]),
                    (''constructor'', None),
                    (''http://third.org/wms'', Some [(''hasOwnProperty'', Bool True)])] r1)
         \<and> created (lookups example_host
                [(''http://other.org/wms'', None),
                 (''http://example.com/wms'', Some [(''format'', Str ''image/png'')]),
                 (''constructor'', None),
                 (''http://third.org/wms'', Some [(''hasOwnProperty'', Bool True)])] r1) ! 0
             = src)"
proof -
  have a: "getProp (sources \<lparr>sources = [], created = []\<rparr>) ''http://example.com/wms'' = None"
    by (simp add: getProp_def)
  have b: "''http://example.com/wms'' \<notin> set Object_prototype_names"
    by (simp add: Object_prototype_names_def)
  have c: "wf_obj [(''identify'', Bool False)]"
    and d: "getProp [(''identify'', Bool False)] ''hasOwnProperty'' = None"
    by (simp_all add: wf_obj_def getProp_def)
  then have o: "case Some [(''identify'', Bool False)] of
           None \<Rightarrow> True
         | Some obj \<Rightarrow> wf_obj obj \<and> getProp obj ''hasOwnProperty'' = None"
    by simp
  from getSourceForUrl_caches [OF a b o, of example_host None
      "[(''http://other.org/wms'', None),
        (''http://example.com/wms'', Some [(''format'', Str ''image/png'')]),
        (''constructor'', None),
        (''http://third.org/wms'', Some [(''hasOwnProperty'', Bool True)])]"]
    a b c d
  have e: "\<exists>src r1. getSourceForUrl example_host ''http://example.com/wms''
                 (Some [(''identify'', Bool False)]) \<lparr>sources = [], created = []\<rparr>
               = Inr (TheSource 0, r1)
         \<and> created r1 = [src] \<and> src_url (fst src) = ''http://example.com/wms''
         \<and> getSourceForUrl example_host ''http://example.com/wms'' None
             (lookups example_host
                [(''http://other.org/wms'', None),
                 (''http://example.com/wms'', Some [(''format'', Str ''image/png'')]),
                 (''constructor'', None),
                 (''http://third.org/wms'', Some [(''hasOwnProperty'', Bool True)])] r1)
             = Inr (TheSource 0,
                 lookups example_host
                   [(''http://other.org/wms'', None),
                    (''http://example.com/wms'', Some [(''format'', Str ''image/png'')]),
                    (''constructor'', None),
                    (''http://third.org/wms'', Some [(''hasOwnProperty'', Bool True)])] r1)
         \<and> created (lookups example_host
                [(''http://other.org/wms'', None),
                 (''http://example.com/wms'', Some [(''format'', Str ''image/png'')]),
                 (''constructor'', None),
                 (''http://third.org/wms'', Some [(''hasOwnProperty'', Bool True)])] r1) ! 0
             = src"
    by simp blast
  from a b c d e show ?thesis by blast
qed

text \<open>
  The claim as stated fails for a URL that is the name of an inherited property: the
  first call of \<open>getSourceForUrl('constructor')\<close> finds \<open>sources['constructor']\<close> truthy,
  constructs no source, stores nothing and returns the inherited value. It also fails
  for options whose own property \<open>hasOwnProperty\<close> is not a function: the constructor of
  the overlay calls it, so the first call raises and stores nothing.
\<close>

theorem inherited_url_counterexample:
  "getProp (sources \<lparr>sources = [], created = []\<rparr>) ''constructor'' = None
   \<and> getSourceForUrl example_host ''constructor'' None \<lparr>sources = [], created = []\<rparr>
       = Inr (Inherited ''constructor'', \<lparr>sources = [], created = []\<rparr>)
   \<and> getProp (sources \<lparr>sources = [], created = []\<rparr>) ''http://example.com/wms'' = None
   \<and> getSourceForUrl example_host ''http://example.com/wms''
         (Some [(''hasOwnProperty'', Bool True)]) \<lparr>sources = [], created = []\<rparr>
       = Inl TypeError"
  by (simp add: getSourceForUrl_def getProp_def Object_prototype_names_def
      Source_initialize_def Source_options_def Overlay_initialize_def Object_keys_def
      ownEntries_def isArrayIndex_def isDigit_def hasOwnProperty_def getVal_def
      L_extend_def assign_def)

section \<open>The options of an overlay\<close>

text \<open>
  C10, as amended. Let no key of the options object be the name of a property that
  objects inherit from \<open>Object.prototype\<close>. The constructor returns normally and changes
  the options object it is given: what remains of it are exactly its properties with a
  recognised name (\<open>crs\<close>, \<open>uppercase\<close>, \<open>tiled\<close>, \<open>identify\<close>, \<open>opacity\<close>,
  \<open>attribution\<close>), in their order and with their values; every other property is deleted
  from it and is found, with its value, in the WMS parameters of the new overlay, while
  no recognised name is copied there, and a name the options do not have keeps its
  default. An \<open>onError\<close> property is moved like any other; it is also stored as the error
  callback when its value is truthy, and no callback is stored otherwise.
\<close>

theorem Overlay_initialize_moves_options:
  assumes "wf_obj options"
    and "\<forall>k\<in>fst ` set options. k \<notin> set Object_prototype_names"
  shows "\<exists>ov. Overlay_initialize h url (Some options)
               = Inr (ov, Some (filter (\<lambda>p. fst p \<in> set optNames) options))
     \<and> (\<forall>k v. getProp options k = Some v \<and> k \<notin> set optNames \<longrightarrow>
            getProp (wmsParams ov) k = Some v)
     \<and> (\<forall>k\<in>set optNames. getProp (wmsParams ov) k = None)
     \<and> (\<forall>k. getProp options k = None \<longrightarrow> getProp (wmsParams ov) k = getProp defaultWmsParams k)
     \<and> onError ov
         = (if truthy (getVal options ''onError'') then getVal options ''onError'' else Undefined)
     \<and> ov_url ov = url"
proof -
  have keys: "getProp options k \<noteq> None \<Longrightarrow> k \<notin> set Object_prototype_names" for k
    using assms(2) by (auto simp: getProp_def dest!: map_of_SomeD intro: rev_image_eqI)
  have "getProp options ''hasOwnProperty'' \<noteq> None \<Longrightarrow> False"
    using keys [of "''hasOwnProperty''"] by (simp add: Object_prototype_names_def)
  then have h: "getProp options ''hasOwnProperty'' = None" by blast
  have same: "filter (\<lambda>p. optNames_has (fst p)) options = filter (\<lambda>p. fst p \<in> set optNames) options"
    using assms(2) by (intro filter_cong) (auto simp: optNames_has_def)
  let ?ov = "\<lparr>ov_url = url,
       ov_options = L_extend [] (filter (\<lambda>p. optNames_has (fst p)) options),
       wmsParams = L_extend (L_extend [] defaultWmsParams)
                     (filter (\<lambda>p. \<not> optNames_has (fst p)) (ownEntries options)),
       onError = (if truthy (getVal options ''onError'') then getVal options ''onError''
                  else Undefined),
       ov_map = False, currentUrl = None, currentOverlay = None\<rparr>"
  have r: "Overlay_initialize h url (Some options)
           = Inr (?ov, Some (filter (\<lambda>p. fst p \<in> set optNames) options))"
    using Overlay_initialize_eq [OF assms(1) h, of h url] by (simp only: same)
  note g = wmsParams_initialize [OF assms(1)]
  have a: "\<forall>k v. getProp options k = Some v \<and> k \<notin> set optNames \<longrightarrow>
            getProp (wmsParams ?ov) k = Some v"
  proof (intro allI impI)
    fix k v assume kv: "getProp options k = Some v \<and> k \<notin> set optNames"
    then have "\<not> optNames_has k" using keys [of k] by (simp add: optNames_has_def)
    with kv show "getProp (wmsParams ?ov) k = Some v" by (simp add: g)
  qed
  have b: "\<forall>k\<in>set optNames. getProp (wmsParams ?ov) k = None"
  proof
    fix k assume k: "k \<in> set optNames"
    then have "optNames_has k" by (simp add: optNames_has_def)
    then have "getProp (wmsParams ?ov) k = getProp defaultWmsParams k" by (simp add: g)
    also have "\<dots> = None"
      using k by (auto simp: optNames_def defaultWmsParams_def getProp_def)
    finally show "getProp (wmsParams ?ov) k = None" .
  qed
  have c: "\<forall>k. getProp options k = None \<longrightarrow> getProp (wmsParams ?ov) k = getProp defaultWmsParams k"
    by (simp add: g)
  have d: "onError ?ov
         = (if truthy (getVal options ''onError'') then getVal options ''onError'' else Undefined)"
    and e: "ov_url ?ov = url"
    by simp_all
  from r a b c d e show ?thesis by blast
qed

theorem Overlay_initialize_moves_options_witness:
  "wf_obj [(''layers'', Str ''roads''), (''uppercase'', Bool True), (''format'', Str ''image/png''),
           (''onError'', Fun 0), (''opacity'', Num (Fin 1))]
   \<and> set [''layers'', ''uppercase'', ''format'', ''onError'', ''opacity'']
         \<inter> set Object_prototype_names = {}
   \<and> (\<exists>ov. Overlay_initialize example_host ''http://example.com/wms''
          (Some [(''layers'', Str ''roads''), (''uppercase'', Bool True),
                 (''format'', Str ''image/png''), (''onError'', Fun 0), (''opacity'', Num (Fin 1))])
         = Inr (ov, Some [(''uppercase'', Bool True), (''opacity'', Num (Fin 1))])
       \<and> getProp (wmsParams ov) ''layers'' = Some (Str ''roads'')
       \<and> getProp (wmsParams ov) ''format'' = Some (Str ''image/png'')
       \<and> getProp (wmsParams ov) ''onError'' = Some (Fun 0)
       \<and> getProp (wmsParams ov) ''opacity'' = None
       \<and> getProp (wmsParams ov) ''uppercase'' = None
       \<and> getProp (wmsParams ov) ''version'' = Some (Str ''1.1.1'')
       \<and> onError ov = Fun 0)"
proof -
  let ?o = "[(''layers'', Str ''roads''), (''uppercase'', Bool True), (''format'', Str ''image/png''),
             (''onError'', Fun 0), (''opacity'', Num (Fin 1))]"
  have wf: "wf_obj ?o" by (simp add: wf_obj_def)
  have nk: "\<forall>k\<in>fst ` set ?o. k \<notin> set Object_prototype_names"
    by (simp add: Object_prototype_names_def)
  from Overlay_initialize_moves_options [OF wf nk, of example_host "''http://example.com/wms''"]
  obtain ov where r: "Overlay_initialize example_host ''http://example.com/wms'' (Some ?o)
               = Inr (ov, Some (filter (\<lambda>p. fst p \<in> set optNames) ?o))"
    and a: "\<forall>k v. getProp ?o k = Some v \<and> k \<notin> set optNames \<longrightarrow> getProp (wmsParams ov) k = Some v"
    and b: "\<forall>k\<in>set optNames. getProp (wmsParams ov) k = None"
    and c: "\<forall>k. getProp ?o k = None \<longrightarrow> getProp (wmsParams ov) k = getProp defaultWmsParams k"
    and d: "onError ov = (if truthy (getVal ?o ''onError'') then getVal ?o ''onError'' else Undefined)"
    by blast
  have r': "Overlay_initialize example_host ''http://example.com/wms'' (Some ?o)
         = Inr (ov, Some [(''uppercase'', Bool True), (''opacity'', Num (Fin 1))])"
    using r by (simp add: optNames_def)
  have a1: "getProp (wmsParams ov) ''layers'' = Some (Str ''roads'')"
    using a [rule_format, of "''layers''" "Str ''roads''"] by (simp add: getProp_def optNames_def)
  have a2: "getProp (wmsParams ov) ''format'' = Some (Str ''image/png'')"
    using a [rule_format, of "''format''" "Str ''image/png''"]
    by (simp add: getProp_def optNames_def)
  have a3: "getProp (wmsParams ov) ''onError'' = Some (Fun 0)"
    using a [rule_format, of "''onError''" "Fun 0"] by (simp add: getProp_def optNames_def)
  have b1: "getProp (wmsParams ov) ''opacity'' = None"
    and b2: "getProp (wmsParams ov) ''uppercase'' = None"
    using b by (simp_all add: optNames_def)
  have c1: "getProp (wmsParams ov) ''version'' = Some (Str ''1.1.1'')"
    using c [rule_format, of "''version''"] by (simp add: getProp_def defaultWmsParams_def)
  have d1: "onError ov = Fun 0" using d by (simp add: getVal_def getProp_def)
  have nk': "set [''layers'', ''uppercase'', ''format'', ''onError'', ''opacity'']
         \<inter> set Object_prototype_names = {}"
    by (simp add: Object_prototype_names_def)
  from r' a1 a2 a3 b1 b2 c1 d1 wf nk' show ?thesis by blast
qed

text \<open>
  The claim as stated fails on options whose key is the name of an inherited property,
  and on an \<open>onError\<close> that is not truthy. From \<open>{constructor: 'x', onError: false}\<close> the
  constructor moves only \<open>onError\<close>: \<open>constructor\<close> is not a recognised option, yet it
  remains in the options object and is not among the WMS parameters; and \<open>onError\<close> is
  copied into the WMS parameters but no error callback is stored.
\<close>

theorem inherited_option_name_counterexample:
  "Overlay_initialize example_host ''http://example.com/wms''
     (Some [(''constructor'', Str ''x''), (''onError'', Bool False)])
   = Inr (\<lparr>ov_url = ''http://example.com/wms'', ov_options = [(''constructor'', Str ''x'')],
           wmsParams =
             [(''service'', Str ''WMS''), (''request'', Str ''GetMap''),
              (''version'', Str ''1.1.1''), (''layers'', Str []), (''styles'', Str []),
              (''format'', Str ''image/jpeg''), (''transparent'', Bool False),
              (''onError'', Bool False)],
           onError = Undefined, ov_map = False, currentUrl = None, currentOverlay = None\<rparr>,
          Some [(''constructor'', Str ''x'')])
   \<and> ''constructor'' \<notin> set optNames"
  by (simp add: Overlay_initialize_def Object_keys_def ownEntries_def isArrayIndex_def
      isDigit_def hasOwnProperty_def getProp_def getVal_def optNames_has_def optNames_def
      Object_prototype_names_def del_def L_extend_def assign_def defaultWmsParams_def)

section \<open>The bounding box and the projection key\<close>

text \<open>
  C4, as amended. Let \<open>nw\<close> and \<open>se\<close> be the projected north-west and south-east corners
  of the viewport. If the WMS version is at least 1.3 and the reference system is
  \<open>L.CRS.EPSG4326\<close>, \<open>bbox\<close> is the comma-join of \<open>[se.y, nw.x, nw.y, se.x]\<close>, otherwise of
  \<open>[nw.x, se.y, se.x, nw.y]\<close>. The code of the reference system is stored under \<open>crs\<close>
  whenever the version is at least 1.3, whatever the reference system, and under \<open>srs\<close>
  otherwise; the other of the two keys is left as it was. In particular (the witness)
  version 1.1.1 with \<open>nw = (10, 20)\<close> and \<open>se = (5, 15)\<close> in a system other than
  EPSG:4326 gives the \<open>bbox\<close> \<open>10,15,5,20\<close>; the box from west 10 and south 5 to east 20
  and north 15, whose corners are \<open>nw = (10, 15)\<close> and \<open>se = (20, 5)\<close>, gives \<open>10,5,20,15\<close>;
  and version 1.3.0 with EPSG:4326 and the first corners gives \<open>15,10,20,5\<close> under \<open>crs\<close>,
  also when the version string starts with a no-break space.
\<close>

theorem updateWmsParams_axis_order:
  assumes "crs_value w = Crs c"
    and "project c (getNorthWest (view w)) = nw"
    and "project c (getSouthEast (view w)) = se"
  shows "\<exists>w'. updateWmsParams h w = Inr w'
     \<and> getProp (wmsParams (overlay w')) ''bbox''
         = Some (Str (join '','' (map (Number_toString h)
             (if ge_1_3 (wmsVersion h w) \<and> is_EPSG4326 c
              then [snd se, fst nw, snd nw, fst se]
              else [fst nw, snd se, fst se, snd nw]))))
     \<and> getProp (wmsParams (overlay w')) (if ge_1_3 (wmsVersion h w) then ''crs'' else ''srs'')
         = Some (case code c of None \<Rightarrow> Undefined | Some s \<Rightarrow> Str s)
     \<and> getProp (wmsParams (overlay w')) (if ge_1_3 (wmsVersion h w) then ''srs'' else ''crs'')
         = getProp (wmsParams (overlay w)) (if ge_1_3 (wmsVersion h w) then ''srs'' else ''crs'')"
proof -
  let ?w' = "mergeParams (spatial_params h w c) w"
  have r: "updateWmsParams h w = Inr ?w'"
    using assms(1) by (rule updateWmsParams_Crs)
  have b: "getProp (wmsParams (overlay ?w')) ''bbox''
         = Some (Str (join '','' (map (Number_toString h)
             (if ge_1_3 (wmsVersion h w) \<and> is_EPSG4326 c
              then [snd se, fst nw, snd nw, fst se]
              else [fst nw, snd se, fst se, snd nw]))))"
    using assms(2,3) by (simp add: getProp_after_update_params bbox_def)
  have k: "getProp (wmsParams (overlay ?w')) (if ge_1_3 (wmsVersion h w) then ''crs'' else ''srs'')
         = Some (case code c of None \<Rightarrow> Undefined | Some s \<Rightarrow> Str s)"
    by (simp add: getProp_after_update_params projectionKey_def)
  have o: "getProp (wmsParams (overlay ?w')) (if ge_1_3 (wmsVersion h w) then ''srs'' else ''crs'')
         = getProp (wmsParams (overlay w)) (if ge_1_3 (wmsVersion h w) then ''srs'' else ''crs'')"
    by (simp add: getProp_after_update_params projectionKey_def)
  from r b k o show ?thesis by blast
qed

theorem updateWmsParams_axis_order_witness:
  "crs_value example_world = Crs CRS_Custom \<and> \<not> is_EPSG4326 CRS_Custom
   \<and> project CRS_Custom (getNorthWest (view example_world)) = (Fin 10, Fin 20)
   \<and> project CRS_Custom (getSouthEast (view example_world)) = (Fin 5, Fin 15)
   \<and> getVal (wmsParams (overlay example_world)) ''version'' = Str ''1.1.1''
   \<and> (\<exists>w'. updateWmsParams example_host example_world = Inr w'
         \<and> getProp (wmsParams (overlay w')) ''bbox'' = Some (Str ''10,15,5,20'')
         \<and> getProp (wmsParams (overlay w')) ''srs'' = Some (Str ''EPSG:32633''))
   \<and> project CRS_Custom (getNorthWest (view (example_world\<lparr>view := box_view\<rparr>))) = (Fin 10, Fin 15)
   \<and> project CRS_Custom (getSouthEast (view (example_world\<lparr>view := box_view\<rparr>))) = (Fin 20, Fin 5)
   \<and> (\<exists>w'. updateWmsParams example_host (example_world\<lparr>view := box_view\<rparr>) = Inr w'
         \<and> getProp (wmsParams (overlay w')) ''bbox'' = Some (Str ''10,5,20,15''))
   \<and> is_EPSG4326 CRS_EPSG4326
   \<and> getVal (wmsParams (overlay (mergeParams [(''version'', Str ''1.3.0'')]
         (example_world\<lparr>view := geographic_view\<rparr>)))) ''version'' = Str ''1.3.0''
   \<and> project CRS_EPSG4326 (getNorthWest (view (mergeParams [(''version'', Str ''1.3.0'')]
         (example_world\<lparr>view := geographic_view\<rparr>)))) = (Fin 10, Fin 20)
   \<and> project CRS_EPSG4326 (getSouthEast (view (mergeParams [(''version'', Str ''1.3.0'')]
         (example_world\<lparr>view := geographic_view\<rparr>)))) = (Fin 5, Fin 15)
   \<and> (\<exists>w'. updateWmsParams example_host (mergeParams [(''version'', Str ''1.3.0'')]
           (example_world\<lparr>view := geographic_view\<rparr>)) = Inr w'
         \<and> getProp (wmsParams (overlay w')) ''bbox'' = Some (Str ''15,10,20,5'')
         \<and> getProp (wmsParams (overlay w')) ''crs'' = Some (Str ''EPSG:4326''))
   \<and> (\<exists>w'. updateWmsParams example_host
           (mergeParams [(''version'', Str (CHR 0xC2 # CHR 0xA0 # ''1.3.0''))]
              (example_world\<lparr>view := geographic_view\<rparr>)) = Inr w'
         \<and> getProp (wmsParams (overlay w')) ''bbox'' = Some (Str ''15,10,20,5'')
         \<and> getProp (wmsParams (overlay w')) ''crs'' = Some (Str ''EPSG:4326''))"
proof -
  let ?n = "mergeParams [(''version'', Str (CHR 0xC2 # CHR 0xA0 # ''1.3.0''))]
              (example_world\<lparr>view := geographic_view\<rparr>)"
  let ?b = "example_world\<lparr>view := box_view\<rparr>"
  let ?g = "mergeParams [(''version'', Str ''1.3.0'')] (example_world\<lparr>view := geographic_view\<rparr>)"
  have ver: "getVal (wmsParams (overlay example_world)) ''version'' = Str ''1.1.1''"
    by (simp add: example_overlay getVal_def getProp_def)
  from updateWmsParams_axis_order [OF example_crs_value example_corners, of example_host]
  have a: "\<exists>w'. updateWmsParams example_host example_world = Inr w'
         \<and> getProp (wmsParams (overlay w')) ''bbox'' = Some (Str ''10,15,5,20'')
         \<and> getProp (wmsParams (overlay w')) ''srs'' = Some (Str ''EPSG:32633'')"
    by (auto simp: example_version CRS_Custom_fields showInt_def)
  have cb: "crs_value ?b = Crs CRS_Custom"
    by (simp add: crs_value_def example_overlay getVal_def getProp_def box_view_def)
  have nb: "project CRS_Custom (getNorthWest (view ?b)) = (Fin 10, Fin 15)"
    and sb: "project CRS_Custom (getSouthEast (view ?b)) = (Fin 20, Fin 5)"
    by (simp_all add: box_view_def CRS_Custom_fields LonLat_def)
  have vb: "wmsVersion example_host ?b = Fin (11 / 10)"
    using example_version by (simp add: wmsVersion_def)
  from updateWmsParams_axis_order [OF cb nb sb, of example_host]
  have b: "\<exists>w'. updateWmsParams example_host ?b = Inr w'
         \<and> getProp (wmsParams (overlay w')) ''bbox'' = Some (Str ''10,5,20,15'')"
    by (auto simp: vb CRS_Custom_fields showInt_def)
  have cg: "crs_value ?g = Crs CRS_EPSG4326"
    by (simp add: crs_value_def example_overlay getVal_def getProp_def geographic_view_def)
  have ng: "project CRS_EPSG4326 (getNorthWest (view ?g)) = (Fin 10, Fin 20)"
    and sg: "project CRS_EPSG4326 (getSouthEast (view ?g)) = (Fin 5, Fin 15)"
    by (simp_all add: geographic_view_def CRS_EPSG4326_def LonLat_def)
  have gg: "getVal (wmsParams (overlay ?g)) ''version'' = Str ''1.3.0''"
    by (simp add: getVal_def getProp_mergeParams wf_obj_def) (simp add: getProp_def)
  have vg: "wmsVersion example_host ?g = Fin (13 / 10)"
    by (simp add: wmsVersion_def gg) (simp add: version_defs)
  from updateWmsParams_axis_order [OF cg ng sg, of example_host]
  have g: "\<exists>w'. updateWmsParams example_host ?g = Inr w'
         \<and> getProp (wmsParams (overlay w')) ''bbox'' = Some (Str ''15,10,20,5'')
         \<and> getProp (wmsParams (overlay w')) ''crs'' = Some (Str ''EPSG:4326'')"
    by (auto simp: vg CRS_EPSG4326_def showInt_def)
  have cn: "crs_value ?n = Crs CRS_EPSG4326"
    by (simp add: crs_value_def example_overlay getVal_def getProp_def geographic_view_def)
  have nn: "project CRS_EPSG4326 (getNorthWest (view ?n)) = (Fin 10, Fin 20)"
    and sn: "project CRS_EPSG4326 (getSouthEast (view ?n)) = (Fin 5, Fin 15)"
    by (simp_all add: geographic_view_def CRS_EPSG4326_def LonLat_def)
  have gn: "getVal (wmsParams (overlay ?n)) ''version'' = Str (CHR 0xC2 # CHR 0xA0 # ''1.3.0'')"
    by (simp add: getVal_def getProp_mergeParams wf_obj_def) (simp add: getProp_def)
  have vn: "wmsVersion example_host ?n = Fin (13 / 10)"
    by (simp add: wmsVersion_def gn) (simp add: version_defs)
  from updateWmsParams_axis_order [OF cn nn sn, of example_host]
  have n: "\<exists>w'. updateWmsParams example_host ?n = Inr w'
         \<and> getProp (wmsParams (overlay w')) ''bbox'' = Some (Str ''15,10,20,5'')
         \<and> getProp (wmsParams (overlay w')) ''crs'' = Some (Str ''EPSG:4326'')"
    by (auto simp: vn CRS_EPSG4326_def showInt_def)
  have i4: "is_EPSG4326 CRS_EPSG4326" "\<not> is_EPSG4326 CRS_Custom"
    by (simp_all add: CRS_EPSG4326_def CRS_Custom_fields)
  from ver a nb sb b gg ng sg g n i4 example_crs_value example_corners
  show ?thesis by blast
qed

text \<open>
  The claim as stated fails twice. Its example: with version 1.1.1, a system other than
  EPSG:4326 and the corners \<open>nw = (10, 20)\<close> and \<open>se = (5, 15)\<close> the \<open>bbox\<close> is
  \<open>10,15,5,20\<close>, not \<open>10,5,20,15\<close>. And its rule for the key: with version 1.3.0 and a
  system other than EPSG:4326 the box is west, south, east, north, yet the code of the
  system is stored under \<open>crs\<close> and no \<open>srs\<close> is set.
\<close>

theorem axis_order_counterexample:
  "getVal (wmsParams (overlay example_world)) ''version'' = Str ''1.1.1''
   \<and> crs_value example_world = Crs CRS_Custom \<and> \<not> is_EPSG4326 CRS_Custom
   \<and> project CRS_Custom (getNorthWest (view example_world)) = (Fin 10, Fin 20)
   \<and> project CRS_Custom (getSouthEast (view example_world)) = (Fin 5, Fin 15)
   \<and> updateWmsParams example_host example_world = Inr updated_world
   \<and> getProp (wmsParams (overlay updated_world)) ''bbox'' = Some (Str ''10,15,5,20'')
   \<and> getProp (wmsParams (overlay updated_world)) ''bbox'' \<noteq> Some (Str ''10,5,20,15'')
   \<and> getVal (wmsParams (overlay (mergeParams [(''version'', Str ''1.3.0'')] example_world)))
         ''version'' = Str ''1.3.0''
   \<and> crs_value (mergeParams [(''version'', Str ''1.3.0'')] example_world) = Crs CRS_Custom
   \<and> ge_1_3 (wmsVersion example_host (mergeParams [(''version'', Str ''1.3.0'')] example_world))
   \<and> updateWmsParams example_host (mergeParams [(''version'', Str ''1.3.0'')] example_world)
       = Inr updated_world_130
   \<and> getProp (wmsParams (overlay updated_world_130)) ''bbox'' = Some (Str ''10,15,5,20'')
   \<and> getProp (wmsParams (overlay updated_world_130)) ''srs'' = None
   \<and> getProp (wmsParams (overlay updated_world_130)) ''crs'' = Some (Str ''EPSG:32633'')"
proof -
  let ?w = "mergeParams [(''version'', Str ''1.3.0'')] example_world"
  have c: "crs_value ?w = Crs CRS_Custom" by (simp add: example_crs_value)
  have a: "getVal (wmsParams (overlay example_world)) ''version'' = Str ''1.1.1''"
    by (simp add: example_overlay getVal_def getProp_def)
  have u: "updated_world = mergeParams (spatial_params example_host example_world CRS_Custom) example_world"
    by (simp add: updated_world_def updateWmsParams_Crs [OF example_crs_value])
  have u13: "updated_world_130 = mergeParams (spatial_params example_host ?w CRS_Custom) ?w"
    by (simp add: updated_world_130_def updateWmsParams_Crs [OF c])
  have r: "updateWmsParams example_host example_world = Inr updated_world"
    by (simp add: u updateWmsParams_Crs [OF example_crs_value])
  have r13: "updateWmsParams example_host ?w = Inr updated_world_130"
    by (simp add: u13 updateWmsParams_Crs [OF c])
  have b: "getProp (wmsParams (overlay updated_world)) ''bbox'' = Some (Str ''10,15,5,20'')"
    using example_corners
    by (simp add: u getProp_after_update_params bbox_def example_version CRS_Custom_fields showInt_def)
  then have b': "getProp (wmsParams (overlay updated_world)) ''bbox'' \<noteq> Some (Str ''10,5,20,15'')"
    by simp
  have d: "getVal (wmsParams (overlay ?w)) ''version'' = Str ''1.3.0''"
    by (simp add: getVal_def getProp_mergeParams wf_obj_def) (simp add: getProp_def)
  have e: "ge_1_3 (wmsVersion example_host ?w)"
    by (simp add: example_version_130)
  have f: "getProp (wmsParams (overlay updated_world_130)) ''bbox'' = Some (Str ''10,15,5,20'')"
    using example_corners
    by (simp add: u13 getProp_after_update_params bbox_def example_version_130 CRS_Custom_fields
        showInt_def)
  have g: "getProp (wmsParams (overlay updated_world_130)) ''srs'' = None"
    by (simp add: u13 getProp_after_update_params projectionKey_def example_version_130
        getProp_mergeParams wf_obj_def)
       (simp add: getProp_def example_overlay)
  have i: "getProp (wmsParams (overlay updated_world_130)) ''crs'' = Some (Str ''EPSG:32633'')"
    by (simp add: u13 getProp_after_update_params projectionKey_def example_version_130
        CRS_Custom_fields)
  have n: "\<not> is_EPSG4326 CRS_Custom" by (simp add: CRS_Custom_fields)
  from a b b' c d e f g i n r r13 example_crs_value example_corners show ?thesis by blast
qed

section \<open>Idempotence of update\<close>

text \<open>
  C3. A second \<open>update\<close> right after a first one, with no change of the viewport or of the
  parameters in between, leaves every field as the first one left it: the URL it
  computes is the last-issued one, which the first call left in \<open>_currentUrl\<close>, and it
  requests nothing, so the two calls together request at most one image. \<open>update\<close>
  returns normally whenever the reference system is a CRS object, and changes nothing
  while the overlay is not on a map.
\<close>

theorem update_idempotent:
  "(update h w = Inr w' \<longrightarrow>
      update h w' = Inr w' \<and> length (images w') \<le> Suc (length (images w))
      \<and> (ov_map (overlay w) \<longrightarrow> currentUrl (overlay w') = Some (getImageUrl h w')))
   \<and> (crs_value w = Crs c \<longrightarrow> (\<exists>w1. update h w = Inr w1))
   \<and> (\<not> ov_map (overlay w) \<longrightarrow> update h w = Inr w)"
  using update_fixpoint [of h w w'] update_images [of h w w'] update_total [of w c h]
    update_detached [of w h] update_currentUrl [of h w w']
  by blast

theorem update_idempotent_witness:
  "ov_map (overlay attached_world) \<and> crs_value attached_world = Crs CRS_Custom
   \<and> images attached_world = []
   \<and> (\<exists>w'. update example_host attached_world = Inr w' \<and> length (images w') = 1
         \<and> update example_host w' = Inr w')
   \<and> \<not> ov_map (overlay example_world)
   \<and> update example_host example_world = Inr example_world"
proof -
  have att: "ov_map (overlay attached_world)" by (simp add: attached_overlay)
  have nocur: "currentUrl (overlay attached_world) = None"
    by (simp add: attached_overlay example_overlay)
  from update_idempotent [where h = example_host and w = attached_world and c = CRS_Custom]
    attached_crs_value
  obtain w1 where w1: "update example_host attached_world = Inr w1" by blast
  with update_idempotent [where h = example_host and w = attached_world and w' = w1]
  have again: "update example_host w1 = Inr w1" by blast
  have "length (images w1) = 1"
    using w1 nocur by (auto simp: update_attached [OF att attached_crs_value] attached_overlay)
  with w1 again have "\<exists>w'. update example_host attached_world = Inr w' \<and> length (images w') = 1
         \<and> update example_host w' = Inr w'" by blast
  moreover have det: "\<not> ov_map (overlay example_world)" by (simp add: example_overlay)
  moreover have "update example_host example_world = Inr example_world"
    using update_idempotent [where h = example_host and w = example_world] det by blast
  ultimately show ?thesis using att attached_crs_value by (simp add: attached_overlay)
qed

section \<open>Merging parameters\<close>

text \<open>
  C7, as amended. Let \<open>partial\<close> have no own property named \<open>__proto__\<close> or
  \<open>hasOwnProperty\<close> (the first is not copied by an assignment, the second is what
  \<open>L.extend\<close> of Leaflet 0.7 calls).
  \<open>setParams(partial)\<close> merges \<open>partial\<close> into the WMS parameters, a value of \<open>partial\<close>
  replacing the value the key had, and then runs \<open>update\<close>. While the overlay is not on a
  map that \<open>update\<close> changes nothing: the parameters are the merged ones, also under the
  spatial keys, and no image is requested. When the overlay is on a map whose reference
  system is a CRS object, \<open>update\<close> sets \<open>width\<close>, \<open>height\<close>, \<open>bbox\<close> and the projection key
  (\<open>crs\<close> when the version is at least 1.3, otherwise \<open>srs\<close>; the version is the merged one)
  to the values computed from the viewport, whatever \<open>partial\<close> gave for them, and every
  other key holds the value of \<open>partial\<close> if it has the key and its old value otherwise;
  the URL of these parameters is then the last-requested URL, and an image was requested
  for it unless it was the last-requested URL already. Here \<open>nw\<close> and \<open>se\<close> are the
  projected corners of the viewport.
\<close>

theorem setParams_merges_and_viewport_wins:
  assumes "wf_obj partial"
    and "''__proto__'' \<notin> fst ` set partial \<and> ''hasOwnProperty'' \<notin> fst ` set partial"
    and "project c (getNorthWest (view w)) = nw"
    and "project c (getSouthEast (view w)) = se"
    and "ge_1_3 (parseFloat (ToString h
           (case getProp partial ''version'' of
              Some v \<Rightarrow> v
            | None \<Rightarrow> (case getProp (wmsParams (overlay w)) ''version'' of
                         Some v \<Rightarrow> v
                       | None \<Rightarrow> Undefined)))) = recent"
  shows "(\<not> ov_map (overlay w) \<longrightarrow>
      (\<exists>w'. setParams h partial w = Inr w'
         \<and> (\<forall>k. getProp (wmsParams (overlay w')) k
                = (case getProp partial k of
                     Some v \<Rightarrow> Some v
                   | None \<Rightarrow> getProp (wmsParams (overlay w)) k))
         \<and> images w' = images w \<and> currentUrl (overlay w') = currentUrl (overlay w)))
   \<and> (ov_map (overlay w) \<and> crs_value w = Crs c \<longrightarrow>
      (\<exists>w'. setParams h partial w = Inr w'
         \<and> getProp (wmsParams (overlay w')) ''width'' = Some (Num (fst (getSize (view w))))
         \<and> getProp (wmsParams (overlay w')) ''height'' = Some (Num (snd (getSize (view w))))
         \<and> getProp (wmsParams (overlay w')) ''bbox''
             = Some (Str (join '','' (map (Number_toString h)
                 (if recent \<and> is_EPSG4326 c
                  then [snd se, fst nw, snd nw, fst se]
                  else [fst nw, snd se, fst se, snd nw]))))
         \<and> getProp (wmsParams (overlay w')) (if recent then ''crs'' else ''srs'')
             = Some (case code c of None \<Rightarrow> Undefined | Some s \<Rightarrow> Str s)
         \<and> (\<forall>k. k \<noteq> ''width'' \<and> k \<noteq> ''height'' \<and> k \<noteq> ''bbox''
                 \<and> k \<noteq> (if recent then ''crs'' else ''srs'') \<longrightarrow>
                getProp (wmsParams (overlay w')) k
                  = (case getProp partial k of
                       Some v \<Rightarrow> Some v
                     | None \<Rightarrow> getProp (wmsParams (overlay w)) k))
         \<and> currentUrl (overlay w') = Some (getImageUrl h w')
         \<and> images w'
             = (if currentUrl (overlay w) = Some (getImageUrl h w') then images w
                else images w
                     @ [\<lparr>img_url = getImageUrl h w',
                          img_bounds = (getNorthWest (view w), getSouthEast (view w)),
                          img_opacity = Num (Fin 0), once_load = True\<rparr>])))"
proof -
  let ?m = "mergeParams partial w"
  have merge: "getProp (wmsParams (overlay ?m)) k
            = (case getProp partial k of
                 Some v \<Rightarrow> Some v
               | None \<Rightarrow> getProp (wmsParams (overlay w)) k)" for k
  proof (rule getProp_mergeParams [OF assms(1)])
    show "''__proto__'' \<notin> fst ` set partial"
      using assms(2) by simp
  qed
  have set: "setParams h partial w = update h ?m"
    by (simp add: setParams_def)
  have ver: "ge_1_3 (wmsVersion h ?m) = recent"
    using assms(5) by (simp add: wmsVersion_def getVal_def merge split: option.splits)
  have key: "projectionKey h ?m = (if recent then ''crs'' else ''srs'')"
    by (simp add: projectionKey_def ver)
  have box: "bbox h ?m c
      = join '','' (map (Number_toString h)
          (if recent \<and> is_EPSG4326 c
           then [snd se, fst nw, snd nw, fst se]
           else [fst nw, snd se, fst se, snd nw]))"
    using assms(3,4) by (simp add: bbox_def ver)
  have det: "\<not> ov_map (overlay w) \<longrightarrow>
      (\<exists>w'. setParams h partial w = Inr w'
         \<and> (\<forall>k. getProp (wmsParams (overlay w')) k
                = (case getProp partial k of
                     Some v \<Rightarrow> Some v
                   | None \<Rightarrow> getProp (wmsParams (overlay w)) k))
         \<and> images w' = images w \<and> currentUrl (overlay w') = currentUrl (overlay w))"
  proof
    assume "\<not> ov_map (overlay w)"
    then have "setParams h partial w = Inr ?m"
      by (simp add: set update_detached)
    then show "\<exists>w'. setParams h partial w = Inr w'
         \<and> (\<forall>k. getProp (wmsParams (overlay w')) k
                = (case getProp partial k of
                     Some v \<Rightarrow> Some v
                   | None \<Rightarrow> getProp (wmsParams (overlay w)) k))
         \<and> images w' = images w \<and> currentUrl (overlay w') = currentUrl (overlay w)"
      using merge by (intro exI [of _ ?m]) simp
  qed
  have att: "ov_map (overlay w) \<and> crs_value w = Crs c \<longrightarrow>
      (\<exists>w'. setParams h partial w = Inr w'
         \<and> getProp (wmsParams (overlay w')) ''width'' = Some (Num (fst (getSize (view w))))
         \<and> getProp (wmsParams (overlay w')) ''height'' = Some (Num (snd (getSize (view w))))
         \<and> getProp (wmsParams (overlay w')) ''bbox''
             = Some (Str (join '','' (map (Number_toString h)
                 (if recent \<and> is_EPSG4326 c
                  then [snd se, fst nw, snd nw, fst se]
                  else [fst nw, snd se, fst se, snd nw]))))
         \<and> getProp (wmsParams (overlay w')) (if recent then ''crs'' else ''srs'')
             = Some (case code c of None \<Rightarrow> Undefined | Some s \<Rightarrow> Str s)
         \<and> (\<forall>k. k \<noteq> ''width'' \<and> k \<noteq> ''height'' \<and> k \<noteq> ''bbox''
                 \<and> k \<noteq> (if recent then ''crs'' else ''srs'') \<longrightarrow>
                getProp (wmsParams (overlay w')) k
                  = (case getProp partial k of
                       Some v \<Rightarrow> Some v
                     | None \<Rightarrow> getProp (wmsParams (overlay w)) k))
         \<and> currentUrl (overlay w') = Some (getImageUrl h w')
         \<and> images w'
             = (if currentUrl (overlay w) = Some (getImageUrl h w') then images w
                else images w
                     @ [\<lparr>img_url = getImageUrl h w',
                          img_bounds = (getNorthWest (view w), getSouthEast (view w)),
                          img_opacity = Num (Fin 0), once_load = True\<rparr>]))"
  proof
    assume a: "ov_map (overlay w) \<and> crs_value w = Crs c"
    then have am: "ov_map (overlay ?m)" and "crs_value ?m = Crs c" by simp_all
    from update_params [OF this, of h] obtain w' where r: "update h ?m = Inr w'"
      and g: "\<And>k. getProp (wmsParams (overlay w')) k
                = (if k = ''bbox'' then Some (Str (bbox h ?m c))
                   else if k = projectionKey h ?m
                     then Some (case code c of None \<Rightarrow> Undefined | Some s \<Rightarrow> Str s)
                   else if k = ''width'' then Some (Num (fst (getSize (view ?m))))
                   else if k = ''height'' then Some (Num (snd (getSize (view ?m))))
                   else getProp (wmsParams (overlay ?m)) k)"
      by blast
    have r': "setParams h partial w = Inr w'" using r by (simp add: set)
    have wd: "getProp (wmsParams (overlay w')) ''width'' = Some (Num (fst (getSize (view w))))"
      and ht: "getProp (wmsParams (overlay w')) ''height'' = Some (Num (snd (getSize (view w))))"
      by (auto simp: g key)
    have bx: "getProp (wmsParams (overlay w')) ''bbox''
             = Some (Str (join '','' (map (Number_toString h)
                 (if recent \<and> is_EPSG4326 c
                  then [snd se, fst nw, snd nw, fst se]
                  else [fst nw, snd se, fst se, snd nw]))))"
      by (simp add: g box)
    have ky: "getProp (wmsParams (overlay w')) (if recent then ''crs'' else ''srs'')
             = Some (case code c of None \<Rightarrow> Undefined | Some s \<Rightarrow> Str s)"
      using g [of "projectionKey h ?m"] by (auto simp: key)
    have ot: "\<forall>k. k \<noteq> ''width'' \<and> k \<noteq> ''height'' \<and> k \<noteq> ''bbox''
                 \<and> k \<noteq> (if recent then ''crs'' else ''srs'') \<longrightarrow>
                getProp (wmsParams (overlay w')) k
                  = (case getProp partial k of
                       Some v \<Rightarrow> Some v
                     | None \<Rightarrow> getProp (wmsParams (overlay w)) k)"
      by (simp add: g key merge)
    have cu: "currentUrl (overlay w') = Some (getImageUrl h w')"
      using r am by (rule update_currentUrl)
    have im: "images w'
             = (if currentUrl (overlay w) = Some (getImageUrl h w') then images w
                else images w
                     @ [\<lparr>img_url = getImageUrl h w',
                          img_bounds = (getNorthWest (view w), getSouthEast (view w)),
                          img_opacity = Num (Fin 0), once_load = True\<rparr>])"
      using update_images_eq [OF r am] by simp
    from r' wd ht bx ky ot cu im
    show "\<exists>w'. setParams h partial w = Inr w'
         \<and> getProp (wmsParams (overlay w')) ''width'' = Some (Num (fst (getSize (view w))))
         \<and> getProp (wmsParams (overlay w')) ''height'' = Some (Num (snd (getSize (view w))))
         \<and> getProp (wmsParams (overlay w')) ''bbox''
             = Some (Str (join '','' (map (Number_toString h)
                 (if recent \<and> is_EPSG4326 c
                  then [snd se, fst nw, snd nw, fst se]
                  else [fst nw, snd se, fst se, snd nw]))))
         \<and> getProp (wmsParams (overlay w')) (if recent then ''crs'' else ''srs'')
             = Some (case code c of None \<Rightarrow> Undefined | Some s \<Rightarrow> Str s)
         \<and> (\<forall>k. k \<noteq> ''width'' \<and> k \<noteq> ''height'' \<and> k \<noteq> ''bbox''
                 \<and> k \<noteq> (if recent then ''crs'' else ''srs'') \<longrightarrow>
                getProp (wmsParams (overlay w')) k
                  = (case getProp partial k of
                       Some v \<Rightarrow> Some v
                     | None \<Rightarrow> getProp (wmsParams (overlay w)) k))
         \<and> currentUrl (overlay w') = Some (getImageUrl h w')
         \<and> images w'
             = (if currentUrl (overlay w) = Some (getImageUrl h w') then images w
                else images w
                     @ [\<lparr>img_url = getImageUrl h w',
                          img_bounds = (getNorthWest (view w), getSouthEast (view w)),
                          img_opacity = Num (Fin 0), once_load = True\<rparr>])"
      by blast
  qed
  from det att show ?thesis by blast
qed

theorem setParams_merges_and_viewport_wins_witness:
  "wf_obj [(''layers'', Str ''roads''), (''width'', Num (Fin 9999)), (''bbox'', Str ''0,0,1,1''),
           (''crs'', Str ''mine'')]
   \<and> ''__proto__'' \<notin> set [''layers'', ''width'', ''bbox'', ''crs'']
   \<and> ''hasOwnProperty'' \<notin> set [''layers'', ''width'', ''bbox'', ''crs'']
   \<and> project CRS_Custom (getNorthWest (view attached_world)) = (Fin 10, Fin 20)
   \<and> project CRS_Custom (getSouthEast (view attached_world)) = (Fin 5, Fin 15)
   \<and> getProp (wmsParams (overlay attached_world)) ''version'' = Some (Str ''1.1.1'')
   \<and> \<not> ge_1_3 (parseFloat ''1.1.1'')
   \<and> ov_map (overlay attached_world) \<and> crs_value attached_world = Crs CRS_Custom
   \<and> (\<exists>w'. setParams example_host
          [(''layers'', Str ''roads''), (''width'', Num (Fin 9999)), (''bbox'', Str ''0,0,1,1''),
           (''crs'', Str ''mine'')] attached_world = Inr w'
        \<and> getProp (wmsParams (overlay w')) ''layers'' = Some (Str ''roads'')
        \<and> getProp (wmsParams (overlay w')) ''format'' = Some (Str ''image/png'')
        \<and> getProp (wmsParams (overlay w')) ''width'' = Some (Num (Fin 256))
        \<and> getProp (wmsParams (overlay w')) ''height'' = Some (Num (Fin 128))
        \<and> getProp (wmsParams (overlay w')) ''srs'' = Some (Str ''EPSG:32633'')
        \<and> getProp (wmsParams (overlay w')) ''crs'' = Some (Str ''mine'')
        \<and> getProp (wmsParams (overlay w')) ''bbox'' = Some (Str ''10,15,5,20'')
        \<and> length (images w') = 1)
   \<and> \<not> ov_map (overlay example_world)
   \<and> (\<exists>w'. setParams example_host
          [(''layers'', Str ''roads''), (''width'', Num (Fin 9999)), (''bbox'', Str ''0,0,1,1''),
           (''crs'', Str ''mine'')] example_world = Inr w'
        \<and> getProp (wmsParams (overlay w')) ''layers'' = Some (Str ''roads'')
        \<and> getProp (wmsParams (overlay w')) ''width'' = Some (Num (Fin 9999))
        \<and> getProp (wmsParams (overlay w')) ''bbox'' = Some (Str ''0,0,1,1'')
        \<and> images w' = [])"
proof -
  let ?p = "[(''layers'', Str ''roads''), (''width'', Num (Fin 9999)), (''bbox'', Str ''0,0,1,1''),
             (''crs'', Str ''mine'')]"
  have wf: "wf_obj ?p" by (simp add: wf_obj_def)
  have np: "''__proto__'' \<notin> fst ` set ?p \<and> ''hasOwnProperty'' \<notin> fst ` set ?p"
    by simp
  have att: "ov_map (overlay attached_world)" by (simp add: attached_overlay)
  have det: "\<not> ov_map (overlay example_world)" by (simp add: example_overlay)
  have nw: "project CRS_Custom (getNorthWest (view attached_world)) = (Fin 10, Fin 20)"
    and se: "project CRS_Custom (getSouthEast (view attached_world)) = (Fin 5, Fin 15)"
    by (simp_all add: attached_overlay example_view_def CRS_Custom_fields LonLat_def)
  have nw': "project CRS_Custom (getNorthWest (view example_world)) = (Fin 10, Fin 20)"
    and se': "project CRS_Custom (getSouthEast (view example_world)) = (Fin 5, Fin 15)"
    by (rule example_corners)+
  have old: "getProp (wmsParams (overlay attached_world)) ''version'' = Some (Str ''1.1.1'')"
    and old': "getProp (wmsParams (overlay example_world)) ''version'' = Some (Str ''1.1.1'')"
    by (simp_all add: attached_overlay example_overlay getProp_def)
  have v: "\<not> ge_1_3 (parseFloat ''1.1.1'')"
    by (simp add: version_defs)
  have pv: "getProp ?p ''version'' = None" by (simp add: getProp_def)
  have ver: "ge_1_3 (parseFloat (ToString example_host
           (case getProp ?p ''version'' of
              Some v \<Rightarrow> v
            | None \<Rightarrow> (case getProp (wmsParams (overlay attached_world)) ''version'' of
                         Some v \<Rightarrow> v
                       | None \<Rightarrow> Undefined)))) = False"
    using v by (simp add: pv old)
  have ver': "ge_1_3 (parseFloat (ToString example_host
           (case getProp ?p ''version'' of
              Some v \<Rightarrow> v
            | None \<Rightarrow> (case getProp (wmsParams (overlay example_world)) ''version'' of
                         Some v \<Rightarrow> v
                       | None \<Rightarrow> Undefined)))) = False"
    using v by (simp add: pv old')
  from setParams_merges_and_viewport_wins [OF wf np nw se ver] att attached_crs_value
  obtain w' where r: "setParams example_host ?p attached_world = Inr w'"
    and wd: "getProp (wmsParams (overlay w')) ''width'' = Some (Num (fst (getSize (view attached_world))))"
    and ht: "getProp (wmsParams (overlay w')) ''height'' = Some (Num (snd (getSize (view attached_world))))"
    and bx: "getProp (wmsParams (overlay w')) ''bbox''
             = Some (Str (join '','' (map (Number_toString example_host)
                 (if False \<and> is_EPSG4326 CRS_Custom
                  then [snd (Fin 5, Fin 15), fst (Fin 10, Fin 20), snd (Fin 10, Fin 20), fst (Fin 5, Fin 15)]
                  else [fst (Fin 10, Fin 20), snd (Fin 5, Fin 15), fst (Fin 5, Fin 15), snd (Fin 10, Fin 20)]))))"
    and ky: "getProp (wmsParams (overlay w')) (if False then ''crs'' else ''srs'')
             = Some (case code CRS_Custom of None \<Rightarrow> Undefined | Some s \<Rightarrow> Str s)"
    and ot: "\<forall>k. k \<noteq> ''width'' \<and> k \<noteq> ''height'' \<and> k \<noteq> ''bbox''
                 \<and> k \<noteq> (if False then ''crs'' else ''srs'') \<longrightarrow>
                getProp (wmsParams (overlay w')) k
                  = (case getProp ?p k of
                       Some v \<Rightarrow> Some v
                     | None \<Rightarrow> getProp (wmsParams (overlay attached_world)) k)"
    and im: "images w'
             = (if currentUrl (overlay attached_world) = Some (getImageUrl example_host w')
                then images attached_world
                else images attached_world
                     @ [\<lparr>img_url = getImageUrl example_host w',
                          img_bounds = (getNorthWest (view attached_world),
                                        getSouthEast (view attached_world)),
                          img_opacity = Num (Fin 0), once_load = True\<rparr>])"
    by blast
  have a: "\<exists>w'. setParams example_host ?p attached_world = Inr w'
        \<and> getProp (wmsParams (overlay w')) ''layers'' = Some (Str ''roads'')
        \<and> getProp (wmsParams (overlay w')) ''format'' = Some (Str ''image/png'')
        \<and> getProp (wmsParams (overlay w')) ''width'' = Some (Num (Fin 256))
        \<and> getProp (wmsParams (overlay w')) ''height'' = Some (Num (Fin 128))
        \<and> getProp (wmsParams (overlay w')) ''srs'' = Some (Str ''EPSG:32633'')
        \<and> getProp (wmsParams (overlay w')) ''crs'' = Some (Str ''mine'')
        \<and> getProp (wmsParams (overlay w')) ''bbox'' = Some (Str ''10,15,5,20'')
        \<and> length (images w') = 1"
  proof (intro exI [of _ w'] conjI)
    show "length (images w') = 1"
      by (simp add: im attached_overlay example_overlay)
    show "setParams example_host ?p attached_world = Inr w'" by (rule r)
    show "getProp (wmsParams (overlay w')) ''layers'' = Some (Str ''roads'')"
      using ot [rule_format, of "''layers''"] by (simp add: getProp_def)
    show "getProp (wmsParams (overlay w')) ''format'' = Some (Str ''image/png'')"
      using ot [rule_format, of "''format''"]
      by (simp add: getProp_def attached_overlay example_overlay)
    show "getProp (wmsParams (overlay w')) ''width'' = Some (Num (Fin 256))"
      using wd by (simp add: attached_overlay example_view_def)
    show "getProp (wmsParams (overlay w')) ''height'' = Some (Num (Fin 128))"
      using ht by (simp add: attached_overlay example_view_def)
    show "getProp (wmsParams (overlay w')) ''srs'' = Some (Str ''EPSG:32633'')"
      using ky by (simp add: CRS_Custom_fields)
    show "getProp (wmsParams (overlay w')) ''crs'' = Some (Str ''mine'')"
      using ot [rule_format, of "''crs''"] by (simp add: getProp_def)
    show "getProp (wmsParams (overlay w')) ''bbox'' = Some (Str ''10,15,5,20'')"
      using bx by (simp add: showInt_def)
  qed
  from setParams_merges_and_viewport_wins [OF wf np nw' se' ver'] det
  obtain w2 where r2: "setParams example_host ?p example_world = Inr w2"
    and m2: "\<forall>k. getProp (wmsParams (overlay w2)) k
                = (case getProp ?p k of
                     Some v \<Rightarrow> Some v
                   | None \<Rightarrow> getProp (wmsParams (overlay example_world)) k)"
    and i2: "images w2 = images example_world"
    by blast
  have b: "\<exists>w'. setParams example_host ?p example_world = Inr w'
        \<and> getProp (wmsParams (overlay w')) ''layers'' = Some (Str ''roads'')
        \<and> getProp (wmsParams (overlay w')) ''width'' = Some (Num (Fin 9999))
        \<and> getProp (wmsParams (overlay w')) ''bbox'' = Some (Str ''0,0,1,1'')
        \<and> images w' = []"
  proof (intro exI [of _ w2] conjI)
    show "setParams example_host ?p example_world = Inr w2" by (rule r2)
    show "getProp (wmsParams (overlay w2)) ''layers'' = Some (Str ''roads'')"
      and "getProp (wmsParams (overlay w2)) ''width'' = Some (Num (Fin 9999))"
      and "getProp (wmsParams (overlay w2)) ''bbox'' = Some (Str ''0,0,1,1'')"
      using m2 [rule_format, of "''layers''"] m2 [rule_format, of "''width''"]
        m2 [rule_format, of "''bbox''"]
      by (simp_all add: getProp_def)
    show "images w2 = []" by (simp add: i2 example_world_def)
  qed
  have np': "''__proto__'' \<notin> set [''layers'', ''width'', ''bbox'', ''crs'']"
    "''hasOwnProperty'' \<notin> set [''layers'', ''width'', ''bbox'', ''crs'']"
    by simp_all
  from wf np' nw se old v att attached_crs_value a det b show ?thesis by blast
qed

text \<open>
  The claim as stated fails for an overlay that is not on a map, which is how a source
  calls \<open>setParams\<close> before it adds its overlay: \<open>update\<close> returns at once, so after
  \<open>setParams({bbox: '0,0,1,1', width: 9999})\<close> on the example overlay the parameters
  \<open>bbox\<close> and \<open>width\<close> hold the values of the caller, not those of the viewport, which
  is 256 pixels wide. It also fails for a \<open>partial\<close> with an own property \<open>__proto__\<close>,
  whose value is not merged: the parameters have no such property afterwards.
\<close>

theorem detached_setParams_counterexample:
  "\<not> ov_map (overlay example_world)
   \<and> getSize (view example_world) = (Fin 256, Fin 128)
   \<and> setParams example_host [(''bbox'', Str ''0,0,1,1''), (''width'', Num (Fin 9999))] example_world
       = Inr detached_set_world
   \<and> getProp (wmsParams (overlay detached_set_world)) ''bbox'' = Some (Str ''0,0,1,1'')
   \<and> getProp (wmsParams (overlay detached_set_world)) ''width'' = Some (Num (Fin 9999))
   \<and> getProp (wmsParams (overlay detached_set_world)) ''width'' \<noteq> Some (Num (Fin 256))
   \<and> getProp [(''__proto__'', Str ''x'')] ''__proto__'' = Some (Str ''x'')
   \<and> setParams example_host [(''__proto__'', Str ''x'')] example_world = Inr proto_set_world
   \<and> getProp (wmsParams (overlay proto_set_world)) ''__proto__'' = None"
proof -
  let ?p = "[(''bbox'', Str ''0,0,1,1''), (''width'', Num (Fin 9999))]"
  have det: "\<not> ov_map (overlay example_world)" by (simp add: example_overlay)
  then have r: "setParams example_host ?p example_world = Inr (mergeParams ?p example_world)"
    by (simp add: setParams_def update_detached)
  then have e: "detached_set_world = mergeParams ?p example_world"
    by (simp add: detached_set_world_def)
  have g: "getProp (wmsParams (overlay (mergeParams ?p example_world))) k
        = (case getProp ?p k of
             Some v \<Rightarrow> Some v
           | None \<Rightarrow> getProp (wmsParams (overlay example_world)) k)" for k
    by (rule getProp_mergeParams) (simp_all add: wf_obj_def)
  have s: "getSize (view example_world) = (Fin 256, Fin 128)"
    by (simp add: example_view example_view_def)
  have p: "getProp ?p ''bbox'' = Some (Str ''0,0,1,1'')"
    "getProp ?p ''width'' = Some (Num (Fin 9999))"
    by (simp_all add: getProp_def)
  have "getProp (wmsParams (overlay detached_set_world)) ''bbox'' = Some (Str ''0,0,1,1'')"
    and "getProp (wmsParams (overlay detached_set_world)) ''width'' = Some (Num (Fin 9999))"
    by (simp_all add: e g p)
  moreover have r2: "setParams example_host [(''__proto__'', Str ''x'')] example_world
      = Inr (mergeParams [(''__proto__'', Str ''x'')] example_world)"
    using det by (simp add: setParams_def update_detached)
  moreover from r2 have e2: "proto_set_world = mergeParams [(''__proto__'', Str ''x'')] example_world"
    by (simp add: proto_set_world_def)
  moreover have "getProp (wmsParams (overlay (mergeParams [(''__proto__'', Str ''x'')] example_world)))
        ''__proto__'' = None"
    by (simp add: wmsParams_mergeParams getProp_L_extend_any wf_obj_def)
       (simp add: getProp_def example_overlay)
  moreover have "getProp [(''__proto__'', Str ''x'')] ''__proto__'' = Some (Str ''x'')"
    by (simp add: getProp_def)
  ultimately show ?thesis using det s r e by simp
qed

section \<open>The order of image loads\<close>

text \<open>
  C2. Let an overlay on a map run an update A that requests an image, and then, after
  the viewport or the parameters have changed, an update B whose URL differs from A's.
  When B's image loads it becomes the displayed image. When A's image loads after that,
  it is removed from the map with the opacity 0 it was created with, and the displayed
  image is still B's, on the map and with the configured opacity. In general the load
  of an image changes which image is displayed only if the image's URL equals the
  last-requested URL, and then to that image.
\<close>

theorem last_requested_wins:
  assumes "ov_map (overlay w)"
    and "\<forall>j. currentOverlay (overlay w) = Some j \<longrightarrow> j < length (images w)"
    and "update h w = Inr wA"
    and "length (images wA) = Suc (length (images w))"
    and "update h (mergeParams p (wA\<lparr>view := v\<rparr>)) = Inr wB"
    and "currentUrl (overlay wB) \<noteq> currentUrl (overlay wA)"
  shows "length (images wB) = Suc (Suc (length (images w)))
   \<and> currentUrl (overlay wA) = Some (img_url (images wB ! length (images w)))
   \<and> currentUrl (overlay wB) = Some (img_url (images wB ! Suc (length (images w))))
   \<and> currentOverlay (overlay (image_load (Suc (length (images w))) wB))
       = Some (Suc (length (images w)))
   \<and> currentOverlay (overlay (image_load (length (images w))
         (image_load (Suc (length (images w))) wB)))
       = Some (Suc (length (images w)))
   \<and> hasLayer (image_load (length (images w)) (image_load (Suc (length (images w))) wB))
         (ImageLayer (Suc (length (images w))))
   \<and> \<not> hasLayer (image_load (length (images w)) (image_load (Suc (length (images w))) wB))
         (ImageLayer (length (images w)))
   \<and> img_opacity (images (image_load (length (images w))
         (image_load (Suc (length (images w))) wB)) ! length (images w)) = Num (Fin 0)
   \<and> img_opacity (images (image_load (length (images w))
         (image_load (Suc (length (images w))) wB)) ! Suc (length (images w)))
       = (if truthy (getVal (ov_options (overlay w)) ''opacity'')
          then getVal (ov_options (overlay w)) ''opacity'' else Num (Fin 1))
   \<and> (currentOverlay (overlay (image_load i x)) \<noteq> currentOverlay (overlay x) \<longrightarrow>
        currentUrl (overlay x) = Some (img_url (images x ! i))
        \<and> currentOverlay (overlay (image_load i x)) = Some i)"
proof -
  let ?a = "length (images w)"
  let ?b = "Suc (length (images w))"
  \<comment> \<open>update A\<close>
  from update_requests [OF assms(3) assms(1)] assms(4)
  obtain urlA w1 where wA: "wA = requestImage urlA w1"
    and i1: "images w1 = images w" and l1: "map_layers w1 = map_layers w"
    and m1: "ov_map (overlay w1)" and c1: "currentOverlay (overlay w1) = currentOverlay (overlay w)"
    and o1: "ov_options (overlay w1) = ov_options (overlay w)"
    by auto
  have imA: "images wA = images w @ [\<lparr>img_url = urlA,
        img_bounds = (getNorthWest (view w1), getSouthEast (view w1)),
        img_opacity = Num (Fin 0), once_load = True\<rparr>]"
    by (simp add: wA images_requestImage i1)
  have curA: "currentUrl (overlay wA) = Some urlA" by (simp add: wA)
  \<comment> \<open>update B\<close>
  let ?wA' = "mergeParams p (wA\<lparr>view := v\<rparr>)"
  have mA': "ov_map (overlay ?wA')" by (simp add: wA m1)
  have curA': "currentUrl (overlay ?wA') = Some urlA" by (simp add: curA)
  from update_requests [OF assms(5) mA'] assms(6) curA'
  obtain urlB w2 where wB: "wB = requestImage urlB w2"
    and i2: "images w2 = images ?wA'" and l2: "map_layers w2 = map_layers ?wA'"
    and m2: "ov_map (overlay w2)"
    and c2: "currentOverlay (overlay w2) = currentOverlay (overlay ?wA')"
    and o2: "ov_options (overlay w2) = ov_options (overlay ?wA')"
    and ne: "urlA \<noteq> urlB"
    by (auto simp: curA)
  have i2': "images w2 = images wA" by (simp add: i2)
  have imB: "images wB = images w @ [\<lparr>img_url = urlA,
        img_bounds = (getNorthWest (view w1), getSouthEast (view w1)),
        img_opacity = Num (Fin 0), once_load = True\<rparr>,
       \<lparr>img_url = urlB, img_bounds = (getNorthWest (view w2), getSouthEast (view w2)),
        img_opacity = Num (Fin 0), once_load = True\<rparr>]"
    by (simp add: wB images_requestImage i2' imA)
  have lenB: "length (images wB) = Suc (Suc ?a)" by (simp add: imB)
  have nthA: "images wB ! ?a = \<lparr>img_url = urlA,
        img_bounds = (getNorthWest (view w1), getSouthEast (view w1)),
        img_opacity = Num (Fin 0), once_load = True\<rparr>"
    by (simp add: imB nth_append)
  have nthB: "images wB ! ?b = \<lparr>img_url = urlB,
        img_bounds = (getNorthWest (view w2), getSouthEast (view w2)),
        img_opacity = Num (Fin 0), once_load = True\<rparr>"
    by (simp add: imB nth_append)
  have curB: "currentUrl (overlay wB) = Some urlB" by (simp add: wB)
  have mB: "ov_map (overlay wB)" by (simp add: wB m2)
  have coB: "currentOverlay (overlay wB) = currentOverlay (overlay w)"
    by (simp add: wB c2 wA c1)
  have oB: "ov_options (overlay wB) = ov_options (overlay w)"
    by (simp add: wB o2 wA o1)
  have layB: "set (map_layers wB) = insert (ImageLayer ?b) (insert (ImageLayer ?a) (set (map_layers w)))"
    by (simp add: wB layers_requestImage i2' imA l2 wA i1 l1)
  \<comment> \<open>the image of B loads\<close>
  let ?wL = "image_load ?b wB"
  have bl: "?b < length (images wB)" by (simp add: lenB)
  have bo: "once_load (images wB ! ?b)" by (simp add: nthB)
  have bc: "currentUrl (overlay wB) = Some (img_url (images wB ! ?b))" by (simp add: curB nthB)
  note L = image_load_current [OF bl bo mB bc]
  have coL: "currentOverlay (overlay ?wL) = Some ?b" by (rule L(1))
  have curL: "currentUrl (overlay ?wL) = Some urlB" by (simp add: L(2) curB)
  have layL: "ImageLayer ?b \<in> set (map_layers ?wL)"
    using assms(2) by (auto simp: L(5) coB layB split: option.splits)
  have nthLA: "images ?wL ! ?a = images wB ! ?a" by (rule L(9)) simp
  have opL: "img_opacity (images ?wL ! ?b) =
           (if truthy (getVal (ov_options (overlay w)) ''opacity'')
            then getVal (ov_options (overlay w)) ''opacity'' else Num (Fin 1))"
    by (simp add: L(7) oB)
  \<comment> \<open>the image of A loads\<close>
  let ?wE = "image_load ?a ?wL"
  have al: "?a < length (images ?wL)" by (simp add: L(6) lenB)
  have ao: "once_load (images ?wL ! ?a)" by (simp add: nthLA nthA)
  have ac: "currentUrl (overlay ?wL) \<noteq> Some (img_url (images ?wL ! ?a))"
    using ne by (simp add: curL nthLA nthA)
  note E = image_load_stale [OF al ao L(3) ac]
  have coE: "currentOverlay (overlay ?wE) = Some ?b" by (simp add: E(1) coL)
  have layE: "hasLayer ?wE (ImageLayer ?b)" "\<not> hasLayer ?wE (ImageLayer ?a)"
    using layL by (simp_all add: hasLayer_def E(2))
  have opEA: "img_opacity (images ?wE ! ?a) = Num (Fin 0)"
    by (simp add: E(4) nthLA nthA)
  have opEB: "img_opacity (images ?wE ! ?b) =
           (if truthy (getVal (ov_options (overlay w)) ''opacity'')
            then getVal (ov_options (overlay w)) ''opacity'' else Num (Fin 1))"
    by (simp add: E(4) opL)
  have gen: "currentOverlay (overlay (image_load i x)) \<noteq> currentOverlay (overlay x) \<longrightarrow>
        currentUrl (overlay x) = Some (img_url (images x ! i))
        \<and> currentOverlay (overlay (image_load i x)) = Some i"
    using image_load_replaces [of i x] by blast
  have uA: "currentUrl (overlay wA) = Some (img_url (images wB ! ?a))" by (simp add: curA nthA)
  have uB: "currentUrl (overlay wB) = Some (img_url (images wB ! ?b))" by (rule bc)
  from lenB uA uB coL coE layE opEA opEB gen show ?thesis by blast
qed

theorem last_requested_wins_witness:
  "ov_map (overlay attached_world)
   \<and> currentOverlay (overlay attached_world) = None
   \<and> update example_host attached_world = Inr loading_world
   \<and> length (images loading_world) = Suc (length (images attached_world))
   \<and> update example_host (mergeParams [] (loading_world\<lparr>view := moved_view\<rparr>)) = Inr moved_world
   \<and> currentUrl (overlay moved_world) \<noteq> currentUrl (overlay loading_world)
   \<and> currentOverlay (overlay (image_load 1 moved_world)) = Some 1
   \<and> currentOverlay (overlay (image_load 0 (image_load 1 moved_world))) = Some 1
   \<and> hasLayer (image_load 0 (image_load 1 moved_world)) (ImageLayer 1)
   \<and> \<not> hasLayer (image_load 0 (image_load 1 moved_world)) (ImageLayer 0)
   \<and> img_opacity (images (image_load 0 (image_load 1 moved_world)) ! 0) = Num (Fin 0)
   \<and> img_opacity (images (image_load 0 (image_load 1 moved_world)) ! 1) = Num (Fin 1)"
proof -
  have a: "ov_map (overlay attached_world)" by (simp add: attached_overlay)
  have b: "currentOverlay (overlay attached_world) = None"
    by (simp add: attached_overlay example_overlay)
  then have b': "\<forall>j. currentOverlay (overlay attached_world) = Some j \<longrightarrow> j < length (images attached_world)"
    by simp
  have c: "length (images loading_world) = Suc (length (images attached_world))"
    by (simp add: loading_fields attached_overlay)
  have d: "currentUrl (overlay moved_world) \<noteq> currentUrl (overlay loading_world)"
    by (simp add: moved_world_eq(2) loading_fields)
  have o: "\<not> truthy (getVal (ov_options (overlay attached_world)) ''opacity'')"
    by (simp add: attached_overlay example_overlay getVal_def getProp_def)
  from last_requested_wins [OF a b' loading_world_eq(1) c moved_world_eq(1) d] a b c d o
    loading_world_eq(1) moved_world_eq(1)
  show ?thesis by (simp add: attached_overlay)
qed

section \<open>Failed image loads\<close>

text \<open>
  C6. When the image of an overlay fails to load, a configured error callback is called
  once, with the message \<open>Failed to load layer\<close> and the URL the image element reports as
  its \<open>src\<close>, which is the URL of the failed request as the browser resolved it; with no
  callback configured nothing happens at all. In both cases the overlay (with its
  displayed image and its last-requested URL), every image that exists and the layers
  on the map stay as they were: the displayed image is untouched and no image is
  requested again.
\<close>

theorem image_error_reports_and_keeps:
  assumes "i < length (images w)"
  shows "(onError (overlay w) = Fun f \<longrightarrow>
           image_error h i w
             = Inr (w\<lparr>onError_calls :=
                       onError_calls w
                       @ [(f, ''Failed to load layer'', imageSrc h (img_url (images w ! i)))]\<rparr>))
   \<and> (onError (overlay w) = Undefined \<longrightarrow> image_error h i w = Inr w)
   \<and> (image_error h i w = Inr w' \<longrightarrow>
          overlay w' = overlay w \<and> images w' = images w \<and> map_layers w' = map_layers w
          \<and> view w' = view w)"
  using assms by (auto simp: image_error_def split: jsval.splits)

theorem image_error_reports_and_keeps_witness:
  "0 < length (images loading_world) \<and> onError (overlay loading_world) = Fun 0
   \<and> image_error example_host 0 loading_world
       = Inr (loading_world\<lparr>onError_calls :=
            [(0, ''Failed to load layer'',
              ''http://example.com/wms?service=WMS&request=GetMap&version=1.1.1&layers=&styles=&format=image%2Fpng&transparent=false&onError=function()%7B%7D&width=256&height=128&srs=EPSG%3A32633&bbox=10%2C15%2C5%2C20'')]\<rparr>)
   \<and> onError (overlay (loading_world\<lparr>overlay := (overlay loading_world)\<lparr>onError := Undefined\<rparr>\<rparr>))
       = Undefined
   \<and> image_error example_host 0
         (loading_world\<lparr>overlay := (overlay loading_world)\<lparr>onError := Undefined\<rparr>\<rparr>)
       = Inr (loading_world\<lparr>overlay := (overlay loading_world)\<lparr>onError := Undefined\<rparr>\<rparr>)"
proof -
  let ?q = "loading_world\<lparr>overlay := (overlay loading_world)\<lparr>onError := Undefined\<rparr>\<rparr>"
  have l: "0 < length (images loading_world)" by (simp add: loading_fields)
  have l': "0 < length (images ?q)" by (simp add: loading_fields)
  have f: "onError (overlay loading_world) = Fun 0" by (simp add: loading_fields)
  have u: "onError (overlay ?q) = Undefined" by simp
  have "image_error example_host 0 loading_world
       = Inr (loading_world\<lparr>onError_calls := onError_calls loading_world @
            [(0, ''Failed to load layer'',
              imageSrc example_host (img_url (images loading_world ! 0)))]\<rparr>)"
    using image_error_reports_and_keeps [OF l, where f = 0 and w' = loading_world
        and h = example_host] f
    by blast
  then have a: "image_error example_host 0 loading_world
       = Inr (loading_world\<lparr>onError_calls :=
            [(0, ''Failed to load layer'',
              ''http://example.com/wms?service=WMS&request=GetMap&version=1.1.1&layers=&styles=&format=image%2Fpng&transparent=false&onError=function()%7B%7D&width=256&height=128&srs=EPSG%3A32633&bbox=10%2C15%2C5%2C20'')]\<rparr>)"
    by (simp only: loading_fields append_Nil example_host_fields)
  have b: "image_error example_host 0 ?q = Inr ?q"
    using image_error_reports_and_keeps [OF l', where w' = ?q and h = example_host] u by blast
  from l f a u b show ?thesis by blast
qed

section \<open>The sub-layers and the overlay\<close>

text \<open>
  C1, as amended. Let the source be on a map whose reference system is a CRS object,
  with an overlay that is on the map exactly when its \<open>_map\<close> is set, and run any calls
  \<open>cs\<close> of \<open>addSubLayer\<close> and \<open>removeSubLayer\<close> and then one more, \<open>cl\<close>. Every call returns
  normally. After the last one the names in \<open>_subLayers\<close> are pairwise distinct, and
  they are exactly the active sub-layers provided that no call named \<open>__proto__\<close>. The
  overlay is on the map exactly when there is a name and the names are not just the
  empty name, that is, when their comma-join is a non-empty string; then its \<open>layers\<close>
  parameter is that comma-join. Otherwise the overlay is off the map and the last call
  left its WMS parameters, \<open>layers\<close> among them, as they were.
\<close>

theorem subLayers_drive_the_overlay:
  assumes "src_map (source w)" and "crs_value w = Crs c"
    and "ov_map (overlay w) = hasLayer w OverlayLayer"
    and "wf_obj (subLayers (source w))"
  shows "\<exists>w1 w'. calls h cs w = Inr w1 \<and> call_step h cl w1 = Inr w'
     \<and> calls h (cs @ [cl]) w = Inr w'
     \<and> subLayers (source w') = subLayers_after (cs @ [cl]) (subLayers (source w))
     \<and> ((\<forall>x\<in>set (cs @ [cl]). call_name x \<noteq> ''__proto__'') \<longrightarrow>
           set (Object_keys (subLayers (source w')))
             = active (cs @ [cl]) (set (Object_keys (subLayers (source w)))))
     \<and> distinct (Object_keys (subLayers (source w')))
     \<and> hasLayer w' OverlayLayer
         = (Object_keys (subLayers (source w')) \<noteq> [] \<and> Object_keys (subLayers (source w')) \<noteq> [[]])
     \<and> ov_map (overlay w') = hasLayer w' OverlayLayer
     \<and> (hasLayer w' OverlayLayer \<longrightarrow>
           getProp (wmsParams (overlay w')) ''layers''
             = Some (Str (join '','' (Object_keys (subLayers (source w'))))))
     \<and> (\<not> hasLayer w' OverlayLayer \<longrightarrow> wmsParams (overlay w') = wmsParams (overlay w1))"
proof -
  from calls_effect [OF assms(1-3), of h cs] obtain w1 where
    r1: "calls h cs w = Inr w1" and i1: "src_map (source w1)" "crs_value w1 = Crs c"
      "ov_map (overlay w1) = hasLayer w1 OverlayLayer"
    and k1: "subLayers (source w1) = subLayers_after cs (subLayers (source w))"
    by blast
  from call_step_effect [OF i1, of h cl] obtain w' where
    r2: "call_step h cl w1 = Inr w'"
    and m: "ov_map (overlay w') = hasLayer w' OverlayLayer" and p: "refreshed w'"
    and k2: "subLayers (source w') = subLayers_after [cl] (subLayers (source w1))"
    and e: "join '','' (Object_keys (subLayers (source w'))) = [] \<longrightarrow>
              wmsParams (overlay w') = wmsParams (overlay w1)"
    by blast
  have r: "calls h (cs @ [cl]) w = Inr w'"
    by (simp add: calls_append r1 r2)
  have k: "subLayers (source w') = subLayers_after (cs @ [cl]) (subLayers (source w))"
    by (simp add: k2 k1 subLayers_after_append)
  have s: "(\<forall>x\<in>set (cs @ [cl]). call_name x \<noteq> ''__proto__'') \<longrightarrow>
           set (Object_keys (subLayers (source w')))
             = active (cs @ [cl]) (set (Object_keys (subLayers (source w))))"
    using keys_subLayers_after [of "cs @ [cl]" "subLayers (source w)"] by (simp only: k) blast
  have d: "distinct (Object_keys (subLayers (source w')))"
    using assms(4) by (simp add: k distinct_Object_keys wf_subLayers_after)
  have on: "hasLayer w' OverlayLayer
         = (Object_keys (subLayers (source w')) \<noteq> [] \<and> Object_keys (subLayers (source w')) \<noteq> [[]])"
    using p join_eq_Nil [of "Object_keys (subLayers (source w'))"]
    by (auto simp: refreshed_def split: if_splits)
  have l: "hasLayer w' OverlayLayer \<longrightarrow>
           getProp (wmsParams (overlay w')) ''layers''
             = Some (Str (join '','' (Object_keys (subLayers (source w')))))"
    using p by (auto simp: refreshed_def split: if_splits)
  have off: "\<not> hasLayer w' OverlayLayer \<longrightarrow> wmsParams (overlay w') = wmsParams (overlay w1)"
    using p e by (auto simp: refreshed_def split: if_splits)
  from r1 r2 r k s d on m l off show ?thesis by blast
qed

theorem subLayers_drive_the_overlay_witness:
  "src_map (source example_world) \<and> crs_value example_world = Crs CRS_Custom
   \<and> ov_map (overlay example_world) = hasLayer example_world OverlayLayer
   \<and> wf_obj (subLayers (source example_world))
   \<and> (\<exists>w'. calls example_host [AddSubLayer ''roads'', AddSubLayer ''rivers''] example_world = Inr w'
         \<and> Object_keys (subLayers (source w')) = [''roads'', ''rivers'']
         \<and> hasLayer w' OverlayLayer
         \<and> getProp (wmsParams (overlay w')) ''layers'' = Some (Str ''roads,rivers''))
   \<and> (\<exists>w1 w'. calls example_host
           [AddSubLayer ''roads'', AddSubLayer ''rivers'', RemoveSubLayer ''roads''] example_world
             = Inr w1
         \<and> Object_keys (subLayers (source w1)) = [''rivers'']
         \<and> hasLayer w1 OverlayLayer
         \<and> getProp (wmsParams (overlay w1)) ''layers'' = Some (Str ''rivers'')
         \<and> calls example_host
           [AddSubLayer ''roads'', AddSubLayer ''rivers'', RemoveSubLayer ''roads'',
            RemoveSubLayer ''rivers''] example_world = Inr w'
         \<and> Object_keys (subLayers (source w')) = []
         \<and> \<not> hasLayer w' OverlayLayer
         \<and> wmsParams (overlay w') = wmsParams (overlay w1))"
proof -
  have wf: "wf_obj (subLayers (source example_world))"
    by (simp add: example_source wf_obj_def)
  note T = subLayers_drive_the_overlay [OF example_source(1) example_crs_value example_source(3) wf,
      of example_host]
  have ka: "Object_keys (subLayers_after [AddSubLayer ''roads'', AddSubLayer ''rivers''] [])
            = [''roads'', ''rivers'']"
    by (simp add: assign_def getProp_def keys_examples)
  have kb: "Object_keys (subLayers_after [AddSubLayer ''roads'', AddSubLayer ''rivers'',
              RemoveSubLayer ''roads''] []) = [''rivers'']"
    by (simp add: assign_def getProp_def del_def keys_examples)
  have kc: "Object_keys (subLayers_after [AddSubLayer ''roads'', AddSubLayer ''rivers'',
              RemoveSubLayer ''roads'', RemoveSubLayer ''rivers''] []) = []"
    by (simp add: assign_def getProp_def del_def keys_examples)
  from T [of "[AddSubLayer ''roads'']" "AddSubLayer ''rivers''"]
  obtain wa where
    A: "calls example_host ([AddSubLayer ''roads''] @ [AddSubLayer ''rivers'']) example_world = Inr wa"
      "subLayers (source wa) = subLayers_after ([AddSubLayer ''roads''] @ [AddSubLayer ''rivers''])
               (subLayers (source example_world))"
      "hasLayer wa OverlayLayer
         = (Object_keys (subLayers (source wa)) \<noteq> [] \<and> Object_keys (subLayers (source wa)) \<noteq> [[]])"
      "hasLayer wa OverlayLayer \<longrightarrow>
           getProp (wmsParams (overlay wa)) ''layers''
             = Some (Str (join '','' (Object_keys (subLayers (source wa)))))"
    by blast
  have a1: "calls example_host [AddSubLayer ''roads'', AddSubLayer ''rivers''] example_world = Inr wa"
    using A(1) by (simp only: append_Cons append_Nil)
  have a5: "Object_keys (subLayers (source wa)) = [''roads'', ''rivers'']"
    using A(2) by (simp only: append_Cons append_Nil example_source ka)
  have a6: "hasLayer wa OverlayLayer" by (simp add: A(3) a5)
  have a7: "getProp (wmsParams (overlay wa)) ''layers'' = Some (Str ''roads,rivers'')"
    using A(4) a6 by (simp add: a5)
  from a1 a5 a6 a7
  have a: "\<exists>w'. calls example_host [AddSubLayer ''roads'', AddSubLayer ''rivers''] example_world = Inr w'
         \<and> Object_keys (subLayers (source w')) = [''roads'', ''rivers'']
         \<and> hasLayer w' OverlayLayer
         \<and> getProp (wmsParams (overlay w')) ''layers'' = Some (Str ''roads,rivers'')"
    by blast
  from T [of "[AddSubLayer ''roads'', AddSubLayer ''rivers'']" "RemoveSubLayer ''roads''"]
  obtain wb where
    B: "calls example_host ([AddSubLayer ''roads'', AddSubLayer ''rivers''] @ [RemoveSubLayer ''roads''])
          example_world = Inr wb"
      "subLayers (source wb)
         = subLayers_after ([AddSubLayer ''roads'', AddSubLayer ''rivers''] @ [RemoveSubLayer ''roads''])
             (subLayers (source example_world))"
      "hasLayer wb OverlayLayer
         = (Object_keys (subLayers (source wb)) \<noteq> [] \<and> Object_keys (subLayers (source wb)) \<noteq> [[]])"
      "hasLayer wb OverlayLayer \<longrightarrow>
           getProp (wmsParams (overlay wb)) ''layers''
             = Some (Str (join '','' (Object_keys (subLayers (source wb)))))"
    by blast
  have b1: "calls example_host
           [AddSubLayer ''roads'', AddSubLayer ''rivers'', RemoveSubLayer ''roads''] example_world
             = Inr wb"
    using B(1) by (simp only: append_Cons append_Nil)
  have b5: "Object_keys (subLayers (source wb)) = [''rivers'']"
    using B(2) by (simp only: append_Cons append_Nil example_source kb)
  have b6: "hasLayer wb OverlayLayer" by (simp add: B(3) b5)
  have b7: "getProp (wmsParams (overlay wb)) ''layers'' = Some (Str ''rivers'')"
    using B(4) b6 by (simp add: b5)
  from T [of "[AddSubLayer ''roads'', AddSubLayer ''rivers'', RemoveSubLayer ''roads'']"
      "RemoveSubLayer ''rivers''"]
  obtain w1 wc where
    C: "calls example_host
           [AddSubLayer ''roads'', AddSubLayer ''rivers'', RemoveSubLayer ''roads''] example_world
             = Inr w1"
      "calls example_host
           ([AddSubLayer ''roads'', AddSubLayer ''rivers'', RemoveSubLayer ''roads'']
            @ [RemoveSubLayer ''rivers'']) example_world = Inr wc"
      "subLayers (source wc)
         = subLayers_after ([AddSubLayer ''roads'', AddSubLayer ''rivers'', RemoveSubLayer ''roads'']
                            @ [RemoveSubLayer ''rivers'']) (subLayers (source example_world))"
      "hasLayer wc OverlayLayer
         = (Object_keys (subLayers (source wc)) \<noteq> [] \<and> Object_keys (subLayers (source wc)) \<noteq> [[]])"
      "\<not> hasLayer wc OverlayLayer \<longrightarrow> wmsParams (overlay wc) = wmsParams (overlay w1)"
    by blast
  from C(1) [symmetric] b1 have "(Inr w1 :: error + world) = Inr wb" by (rule trans)
  then have same: "w1 = wb" by (simp only: sum.inject)
  have c1: "calls example_host
           [AddSubLayer ''roads'', AddSubLayer ''rivers'', RemoveSubLayer ''roads'',
            RemoveSubLayer ''rivers''] example_world = Inr wc"
    using C(2) by (simp only: append_Cons append_Nil)
  have c5: "Object_keys (subLayers (source wc)) = []"
    using C(3) by (simp only: append_Cons append_Nil example_source kc)
  have c6: "\<not> hasLayer wc OverlayLayer" by (simp add: C(4) c5)
  have c7: "wmsParams (overlay wc) = wmsParams (overlay wb)" using C(5) c6 same by simp
  from b1 b5 b6 b7 c1 c5 c6 c7
  have b: "\<exists>w1 w'. calls example_host
           [AddSubLayer ''roads'', AddSubLayer ''rivers'', RemoveSubLayer ''roads''] example_world
             = Inr w1
         \<and> Object_keys (subLayers (source w1)) = [''rivers'']
         \<and> hasLayer w1 OverlayLayer
         \<and> getProp (wmsParams (overlay w1)) ''layers'' = Some (Str ''rivers'')
         \<and> calls example_host
           [AddSubLayer ''roads'', AddSubLayer ''rivers'', RemoveSubLayer ''roads'',
            RemoveSubLayer ''rivers''] example_world = Inr w'
         \<and> Object_keys (subLayers (source w')) = []
         \<and> \<not> hasLayer w' OverlayLayer
         \<and> wmsParams (overlay w') = wmsParams (overlay w1)"
    by blast
  from a b wf example_source(1,3) example_crs_value show ?thesis by blast
qed

text \<open>
  The claim as stated fails in three ways. When the last sub-layer is removed: after
  \<open>addSubLayer('roads')\<close> and \<open>removeSubLayer('roads')\<close> on the example source no sub-layer
  is active, so the comma-join of the active set is the empty string, yet the \<open>layers\<close>
  parameter of the overlay still reads \<open>roads\<close>. When the only sub-layer is the empty
  name: after \<open>addSubLayer('')\<close> the set is not empty, yet the overlay is not on the map.
  And when a sub-layer is named \<open>__proto__\<close>: after \<open>addSubLayer('__proto__')\<close> that
  sub-layer is active, yet the sub-layer object has no name and the overlay is not on
  the map.
\<close>

theorem layers_kept_counterexample:
  "calls example_host [AddSubLayer ''roads'', RemoveSubLayer ''roads''] example_world
     = Inr roads_removed_world
   \<and> active [AddSubLayer ''roads'', RemoveSubLayer ''roads''] {} = {}
   \<and> Object_keys (subLayers (source roads_removed_world)) = []
   \<and> join '','' (Object_keys (subLayers (source roads_removed_world))) = []
   \<and> getProp (wmsParams (overlay roads_removed_world)) ''layers'' = Some (Str ''roads'')
   \<and> calls example_host [AddSubLayer []] example_world = Inr unnamed_world
   \<and> active [AddSubLayer []] {} = {[]}
   \<and> Object_keys (subLayers (source unnamed_world)) = [[]]
   \<and> \<not> hasLayer unnamed_world OverlayLayer
   \<and> calls example_host [AddSubLayer ''__proto__''] example_world = Inr proto_world
   \<and> active [AddSubLayer ''__proto__''] {} = {''__proto__''}
   \<and> Object_keys (subLayers (source proto_world)) = []
   \<and> \<not> hasLayer proto_world OverlayLayer"
proof -
  note S = call_step_effect [OF example_source(1) example_crs_value example_source(3),
      of example_host]
  from S [of "AddSubLayer ''roads''"]
  obtain w1 where s1: "addSubLayer example_host ''roads'' example_world = Inr w1"
    and m1: "src_map (source w1)" and r1: "refreshed w1"
    and k1: "subLayers (source w1) = [(''roads'', True)]"
    by (auto simp: example_source assign_def getProp_def)
  have l1: "getProp (wmsParams (overlay w1)) ''layers'' = Some (Str ''roads'')"
    using r1 by (simp add: refreshed_def k1 keys_examples)
  let ?w2 = "removeOverlay (w1\<lparr>source := (source w1)\<lparr>subLayers := []\<rparr>\<rparr>)"
  have s2: "removeSubLayer example_host ''roads'' w1 = Inr ?w2"
    using m1 by (simp add: removeSubLayer_def refreshOverlay_def k1 del_def keys_examples)
  have c: "calls example_host [AddSubLayer ''roads'', RemoveSubLayer ''roads''] example_world = Inr ?w2"
    by (simp add: s1 s2)
  then have e: "roads_removed_world = ?w2" by (simp add: roads_removed_world_def)
  have a1: "calls example_host [AddSubLayer ''roads'', RemoveSubLayer ''roads''] example_world
     = Inr roads_removed_world"
    using c by (simp add: e)
  have a2: "Object_keys (subLayers (source roads_removed_world)) = []"
    by (simp add: e removeOverlay_effect keys_examples)
  have a3: "getProp (wmsParams (overlay roads_removed_world)) ''layers'' = Some (Str ''roads'')"
    using l1 by (simp add: e removeOverlay_effect)
  from S [of "AddSubLayer []"]
  obtain wu where u1: "addSubLayer example_host [] example_world = Inr wu"
    and u2: "refreshed wu" and u3: "subLayers (source wu) = [([], True)]"
    by (auto simp: example_source assign_def getProp_def)
  have u4: "unnamed_world = wu" by (simp add: unnamed_world_def u1)
  have b1: "calls example_host [AddSubLayer []] example_world = Inr unnamed_world"
    by (simp add: u1 u4)
  have b2: "Object_keys (subLayers (source unnamed_world)) = [[]]"
    by (simp add: u4 u3 keys_examples)
  have b3: "\<not> hasLayer unnamed_world OverlayLayer"
    using u2 by (simp add: refreshed_def u4 u3 keys_examples)
  from S [of "AddSubLayer ''__proto__''"]
  obtain wp where p1: "addSubLayer example_host ''__proto__'' example_world = Inr wp"
    and p2: "refreshed wp" and p3: "subLayers (source wp) = []"
    by (auto simp: example_source assign_def getProp_def)
  have p4: "proto_world = wp" by (simp add: proto_world_def p1)
  have c1: "calls example_host [AddSubLayer ''__proto__''] example_world = Inr proto_world"
    by (simp add: p1 p4)
  have c2: "Object_keys (subLayers (source proto_world)) = []"
    by (simp add: p4 p3 keys_examples)
  have c3: "\<not> hasLayer proto_world OverlayLayer"
    using p2 by (simp add: refreshed_def p4 p3 keys_examples)
  have act: "active [AddSubLayer ''roads'', RemoveSubLayer ''roads''] {} = {}"
    "active [AddSubLayer []] {} = {[]}"
    "active [AddSubLayer ''__proto__''] {} = {''__proto__''}"
    by simp_all
  from a1 a2 a3 b1 b2 b3 c1 c2 c3 act show ?thesis by simp
qed

end
